(* ===== verification/Prelude.thy ===== *)
theory Prelude
  imports Main "HOL-Library.Word"
begin

text \<open>
  Shared vocabulary of the development of \<^verbatim>\<open>src/steganographer.py\<close>.
  \<^item> The Python exceptions that the modelled code raises, one constructor per raise
    site or per kind of implicit failure (list index out of range, division by zero),
    so that every raise of the source is an \<open>Inl\<close> branch of a result type.
  \<^item> Type names of the model: a Python list of 0/1 integers is a \<open>bits\<close> value
    (\<open>nat list\<close>); a Python string is a list of code points (\<open>pystr\<close>);
    a channel value of the numpy \<open>uint8\<close> array is an \<open>8 word\<close>; the image
    array \<open>image_data[row][col][channel]\<close> is a list of rows of pixels.
  \<^item> The numpy read \<open>image_data[w][h][c]\<close>, which raises IndexError out of range,
    and the read of a channel's least significant bit, \<open>value & 1\<close>.
  \<^item> Generic lemmas on bit extraction, positional sums and lists that the component
    theories share.
\<close>

unbundle bit_operations_syntax

named_theorems codec_simps "evaluation rules of the bit codec"
named_theorems scan_simps "evaluation rules of the pixel scan loops"

section \<open>Errors\<close>

datatype py_error =
    NoInputFile            \<comment> \<open>ValueError, \<open>initialize_image_data\<close>: no input file name\<close>
  | UnsupportedColorModel  \<comment> \<open>ValueError, \<open>initialize_image_data\<close>: color mode not handled\<close>
  | NoOutputFile           \<comment> \<open>ValueError, \<open>encode_image\<close>: no output file name\<close>
  | EmptyMessage           \<comment> \<open>ValueError, \<open>encode_image\<close>: message is the empty string\<close>
  | MessageTooLarge        \<comment> \<open>ValueError, \<open>encode_image\<close>: frame does not fit\<close>
  | NotDivisibleBy8        \<comment> \<open>ValueError, \<open>bin_list_to_message\<close>\<close>
  | ChrRange               \<comment> \<open>ValueError raised by \<open>chr\<close> beyond the code point range\<close>
  | IndexError             \<comment> \<open>list or array index out of range\<close>
  | ZeroDivisionError      \<comment> \<open>\<open>x % 0\<close>\<close>
  | BroadcastError         \<comment> \<open>numpy ValueError: row of another length assigned to a pixel\<close>
  | FromArrayError         \<comment> \<open>PIL TypeError: array shape without an image mode\<close>
  | IOError                \<comment> \<open>file cannot be opened\<close>
  | KeyError string        \<comment> \<open>missing keyword argument\<close>
  | TypeError              \<comment> \<open>an operation on \<open>None\<close>: \<open>len(None)\<close>, \<open>str + None\<close>\<close>
  | AttributeError string  \<comment> \<open>a missing attribute, e.g. \<open>None.read\<close> inside \<open>Image.open(None)\<close>\<close>
  | SaveError              \<comment> \<open>the \<open>Exception\<close> of \<open>save_output_image\<close> for a failure other than IOError\<close>

section \<open>Types of the model\<close>

type_synonym bits = "nat list"
type_synonym pystr = "nat list"
type_synonym pixel = "8 word list"
type_synonym image = "pixel list list"

text \<open>An attribute or argument that holds a \<open>str\<close> or \<open>None\<close>.\<close>

type_synonym py_name = "string option"

text \<open>
  Python's \<open>chr\<close>: a code point below \<open>0x110000\<close> is a one-character string,
  anything above raises ValueError. Strings are lists of code points, so \<open>chr\<close> is
  the identity on its domain and \<open>ord\<close> is the identity.
\<close>

definition py_chr :: "nat \<Rightarrow> py_error + nat" where
  "py_chr v = (if v < 1114112 then Inr v else Inl ChrRange)"

text \<open>numpy's three-level read \<open>image_data[w][h][c]\<close>.\<close>

definition channel_at :: "image \<Rightarrow> nat \<Rightarrow> nat \<Rightarrow> nat \<Rightarrow> 8 word option" where
  "channel_at data w h c =
     (if w < length data \<and> h < length (data ! w) \<and> c < length (data ! w ! h)
      then Some (data ! w ! h ! c) else None)"

text \<open>The bit read by \<open>image_data[w][h][c] & 1\<close>.\<close>

definition lsb_of :: "8 word \<Rightarrow> nat" where
  "lsb_of v = unat (v AND 1)"

section \<open>Generic lemmas\<close>

subsection \<open>Bits of natural numbers\<close>

text \<open>\<open>((1 << i) & n) >> i\<close> is bit \<open>i\<close> of \<open>n\<close>.\<close>

lemma drop_bit_mask_and:
  "drop_bit i (push_bit i 1 AND (n::nat)) = of_bool (bit n i)"
  by (metis and.commute bit_iff_and_drop_bit_eq_1 bit_iff_and_push_bit_not_eq_0
      div_push_bit_of_1_eq_drop_bit div_self drop_bit_and drop_bit_of_bool of_bool_eq_0_iff
      of_bool_eq_1_iff push_bit_eq_0_iff)

text \<open>An accumulating loop \<open>acc += f(i) << i\<close> over \<open>range(n)\<close> is a positional sum.\<close>

lemma foldl_push_bit_sum:
  "foldl (\<lambda>acc i. acc + push_bit i (f i)) (a::nat) [0..<n] = a + (\<Sum>i<n. f i * 2 ^ i)"
  by (induction n) (simp_all add: push_bit_eq_mult)

lemma sum_bits_take_bit:
  "(\<Sum>i<n. of_bool (bit (a::nat) i) * 2 ^ i) = take_bit n a"
proof -
  have "take_bit n a = horner_sum of_bool 2 (map (bit a) [0..<n])"
    by (simp add: horner_sum_bit_eq_take_bit)
  also have "\<dots> = (\<Sum>i<n. of_bool (bit a i) * 2 ^ i)"
    by (simp add: horner_sum_eq_sum atLeast0LessThan del: of_bool_eq)
  finally show ?thesis by simp
qed

lemma sum_bits_bound:
  assumes "\<And>i. i < n \<Longrightarrow> f i < 2"
  shows "(\<Sum>i<n. f i * 2 ^ i) < (2::nat) ^ n"
  using assms
proof (induction n)
  case 0
  then show ?case by simp
next
  case (Suc n)
  have "f n < 2" using Suc.prems by simp
  moreover have "(\<Sum>i<n. f i * 2 ^ i) < 2 ^ n" using Suc by simp
  ultimately have "(\<Sum>i<n. f i * 2 ^ i) + f n * 2 ^ n < 2 ^ n + 1 * 2 ^ n"
    by (intro add_less_le_mono mult_right_mono) auto
  then show ?case by simp
qed

text \<open>
  The MSB-first bit list of the low \<open>w\<close> bits of \<open>n\<close>, as the loops
  \<open>for i in reversed(range(w)): out += [((1 << i) & n) >> i]\<close> build it, and the
  value read back by \<open>for i in range(w): v += bl[w - 1 - i] << i\<close>.
\<close>

lemma msb_first_length [simp]:
  "length (map (\<lambda>i. drop_bit i (push_bit i 1 AND (n::nat))) (rev [0..<w])) = w"
  by simp

lemma msb_first_nth:
  "k < w \<Longrightarrow>
   map (\<lambda>i. drop_bit i (push_bit i 1 AND (n::nat))) (rev [0..<w]) ! (w - 1 - k) = of_bool (bit n k)"
  by (simp only: length_rev length_upt rev_nth nth_map nth_upt drop_bit_mask_and) (simp_all add: rev_nth)

lemma msb_first_bits:
  "b \<in> set (map (\<lambda>i. drop_bit i (push_bit i 1 AND (n::nat))) (rev [0..<w])) \<Longrightarrow> b < 2"
  by (auto simp only: set_map drop_bit_mask_and) simp

lemma msb_first_value:
  assumes "w \<le> length bl"
    and "\<And>k. k < w \<Longrightarrow> bl ! (w - 1 - k) = of_bool (bit (n::nat) k)"
  shows "foldl (\<lambda>acc i. acc + push_bit i (bl ! (w - 1 - i))) 0 [0..<w] = take_bit w n"
proof -
  have "foldl (\<lambda>acc i. acc + push_bit i (bl ! (w - 1 - i))) 0 [0..<w]
        = (\<Sum>i<w. bl ! (w - 1 - i) * 2 ^ i)"
    by (simp add: foldl_push_bit_sum)
  also have "\<dots> = (\<Sum>i<w. of_bool (bit n i) * 2 ^ i)"
    using assms(2) by (intro sum.cong) auto
  finally show ?thesis by (simp add: sum_bits_take_bit)
qed

lemma msb_first_value_bound:
  assumes "\<And>b. b \<in> set bl \<Longrightarrow> b < 2" and "w \<le> length bl"
  shows "foldl (\<lambda>acc i. acc + push_bit i (bl ! (w - 1 - i))) 0 [0..<w] < (2::nat) ^ w"
proof -
  have "\<And>i. i < w \<Longrightarrow> bl ! (w - 1 - i) < 2"
    using assms by (intro assms(1) nth_mem) auto
  then have "(\<Sum>i<w. bl ! (w - 1 - i) * 2 ^ i) < 2 ^ w"
    by (rule sum_bits_bound)
  then show ?thesis by (simp add: foldl_push_bit_sum)
qed

subsection \<open>Least significant bits of bytes\<close>

lemma lsb_of_bound [simp]: "lsb_of v < 2"
proof -
  have "unat (v AND 1) \<le> unat (1 :: 8 word)"
    by (rule word_and_le1 [THEN word_le_nat_alt [THEN iffD1]])
  then show ?thesis by (simp add: lsb_of_def)
qed

lemma set_lsb_and_one:
  "((v::8 word) AND NOT 1 OR (if x then 1 else 0)) AND 1 = (if x then 1 else 0)"
  by (rule bit_eqI) (auto simp: bit_and_iff bit_or_iff bit_not_iff bit_1_iff)

lemma set_lsb_and_not_one:
  "((v::8 word) AND NOT 1 OR (if x then 1 else 0)) AND NOT 1 = v AND NOT 1"
  by (rule bit_eqI) (auto simp: bit_and_iff bit_or_iff bit_not_iff bit_1_iff)

lemma lsb_and_hi_eq:
  "(a::8 word) AND 1 = b AND 1 \<Longrightarrow> a AND NOT 1 = b AND NOT 1 \<Longrightarrow> a = b"
  by (rule bit_eqI) (metis bit_and_iff bit_not_iff bit_1_iff)

subsection \<open>Lists\<close>

lemma nth_concat_same_length:
  assumes "\<And>x. x \<in> set xs \<Longrightarrow> length (f x) = k" and "j < length xs" and "c < k"
  shows "concat (map f xs) ! (k * j + c) = f (xs ! j) ! c"
  using assms
proof (induction xs arbitrary: j)
  case Nil
  then show ?case by simp
next
  case (Cons x xs)
  show ?case
  proof (cases j)
    case 0
    with Cons.prems show ?thesis by (simp add: nth_append)
  next
    case (Suc j')
    with Cons.prems have "concat (map f xs) ! (k * j' + c) = f (xs ! j') ! c"
      by (intro Cons.IH) auto
    with Cons.prems Suc show ?thesis by (simp add: nth_append algebra_simps)
  qed
qed

lemma replicate_four: "replicate 4 x = [x, x, x, x]"
  by (simp add: numeral_eq_Suc)

lemma length_concat_same_length:
  "(\<And>x. x \<in> set xs \<Longrightarrow> length (f x) = k) \<Longrightarrow> length (concat (map f xs)) = k * length xs"
  by (induction xs) auto

end
