(* ===== verification/BitCodec.thy ===== *)
theory BitCodec
  imports Prelude
begin

text \<open>
  The static helpers of class \<open>Steganographer\<close> (\<^verbatim>\<open>src/steganographer.py\<close>, lines
  43-173): the 32-bit length field and the 8-bit character field, both most significant
  bit first, their inverses, the message-level conversions, and \<open>set_bit\<close>, the only
  primitive that writes pixel data. Each loop of the source is kept as the list
  operation it performs (\<open>map\<close> over \<open>reversed(range(w))\<close>, \<open>foldl\<close> over
  \<open>range(w)\<close>); \<open>bin_list_to_message\<close> keeps its counter-driven loop and is shown
  equal to a reference decoding by chunks of eight bits.
\<close>

unbundle bit_operations_syntax

section \<open>Definitions\<close>

text \<open>\<open>int_to_bin_list\<close>: the least significant 32 bits of \<open>number\<close>, MSB first.\<close>

definition int_to_bin_list :: "nat \<Rightarrow> bits" where
  "int_to_bin_list number =
     map (\<lambda>i. drop_bit i (push_bit i 1 AND number)) (rev [0..<32])"

text \<open>
  \<open>bin_list_to_int\<close>: \<open>int_value += bin_list[31 - i] << i\<close> for \<open>i\<close> in
  \<open>range(32)\<close>. The first read is \<open>bin_list[31]\<close>, so a list shorter than 32
  raises IndexError; elements beyond the 32nd are ignored.
\<close>

definition bin_list_to_int :: "bits \<Rightarrow> py_error + nat" where
  "bin_list_to_int bin_list =
     (if length bin_list < 32 then Inl IndexError
      else Inr (foldl (\<lambda>int_value i. int_value + push_bit i (bin_list ! (31 - i))) 0 [0..<32]))"

text \<open>\<open>char_to_bin_list\<close>: the low 8 bits of \<open>ord(char)\<close>, MSB first.\<close>

definition char_to_bin_list :: "nat \<Rightarrow> bits" where
  "char_to_bin_list char =
     map (\<lambda>i. drop_bit i (push_bit i 1 AND char)) (rev [0..<8])"

definition bin_list_to_char :: "bits \<Rightarrow> py_error + nat" where
  "bin_list_to_char bin_list =
     (if length bin_list < 8 then Inl IndexError
      else py_chr (foldl (\<lambda>int_value i. int_value + push_bit i (bin_list ! (7 - i))) 0 [0..<8]))"

definition message_to_bin_list :: "pystr \<Rightarrow> bits" where
  "message_to_bin_list message = concat (map char_to_bin_list message)"

text \<open>
  The loop of \<open>bin_list_to_message\<close>: each bit is appended to \<open>list_tmp\<close>; when
  \<open>bit_counter\<close> is 7 the eight collected bits become one character and the counter
  restarts (the source sets it to -1 and increments it to 0 at the end of the body).
\<close>

fun bin_list_to_message_loop :: "bits \<Rightarrow> bits \<Rightarrow> nat \<Rightarrow> pystr \<Rightarrow> py_error + pystr" where
  "bin_list_to_message_loop [] list_tmp bit_counter message = Inr message"
| "bin_list_to_message_loop (b # bs) list_tmp bit_counter message =
     (let list_tmp' = list_tmp @ [b] in
      if bit_counter = 7 then
        (case bin_list_to_char list_tmp' of
           Inl e \<Rightarrow> Inl e
         | Inr c \<Rightarrow> bin_list_to_message_loop bs [] 0 (message @ [c]))
      else bin_list_to_message_loop bs list_tmp' (Suc bit_counter) message)"

definition bin_list_to_message :: "bits \<Rightarrow> py_error + pystr" where
  "bin_list_to_message bin_list =
     (if length bin_list mod 8 \<noteq> 0 then Inl NotDivisibleBy8
      else bin_list_to_message_loop bin_list [] 0 [])"

text \<open>
  \<open>set_bit(v, index, x)\<close>: clear bit \<open>index\<close> of \<open>v\<close>, then set it when \<open>x\<close> is
  truthy. \<open>v\<close> is a channel of the numpy \<open>uint8\<close> array.
\<close>

definition set_bit_py :: "8 word \<Rightarrow> nat \<Rightarrow> nat \<Rightarrow> 8 word" where
  "set_bit_py v index x =
     (let mask = push_bit index 1;
          v' = v AND NOT mask
      in if x \<noteq> 0 then v' OR mask else v')"

text \<open>Reference decoding: the bit list cut into chunks of eight, each read MSB first.\<close>

fun chunks8 :: "bits \<Rightarrow> bits list" where
  "chunks8 [] = []"
| "chunks8 (b # bs) = take 8 (b # bs) # chunks8 (drop 7 bs)"

definition byte_value :: "bits \<Rightarrow> nat" where
  "byte_value bl = (\<Sum>i<8. bl ! (7 - i) * 2 ^ i)"

section \<open>Basic facts\<close>

lemma length_int_to_bin_list [simp, codec_simps]: "length (int_to_bin_list n) = 32"
  by (simp add: int_to_bin_list_def)

lemma length_char_to_bin_list [simp, codec_simps]: "length (char_to_bin_list c) = 8"
  by (simp add: char_to_bin_list_def)

lemma length_message_to_bin_list [simp, codec_simps]:
  "length (message_to_bin_list m) = 8 * length m"
  by (simp add: message_to_bin_list_def length_concat_same_length)

lemma int_to_bin_list_bits: "b \<in> set (int_to_bin_list n) \<Longrightarrow> b < 2"
  unfolding int_to_bin_list_def by (rule msb_first_bits)

lemma char_to_bin_list_bits: "b \<in> set (char_to_bin_list c) \<Longrightarrow> b < 2"
  unfolding char_to_bin_list_def by (rule msb_first_bits)

lemma message_to_bin_list_bits: "b \<in> set (message_to_bin_list m) \<Longrightarrow> b < 2"
  by (auto simp: message_to_bin_list_def dest: char_to_bin_list_bits)

lemma message_to_bin_list_Nil [simp, codec_simps]: "message_to_bin_list [] = []"
  by (simp add: message_to_bin_list_def)

lemma message_to_bin_list_append [codec_simps]:
  "message_to_bin_list (m @ m') = message_to_bin_list m @ message_to_bin_list m'"
  by (simp add: message_to_bin_list_def)

lemma message_to_bin_list_Cons [codec_simps]:
  "message_to_bin_list (c # m) = char_to_bin_list c @ message_to_bin_list m"
  by (simp add: message_to_bin_list_def)

lemma set_bit_py_lsb:
  "set_bit_py v 0 x = v AND NOT 1 OR (if x \<noteq> 0 then 1 else 0)"
  by (simp add: set_bit_py_def)

lemma set_bit_py_and_one:
  "set_bit_py v 0 x AND 1 = (if x \<noteq> 0 then 1 else 0)"
  unfolding set_bit_py_lsb
  by (intro bit_eqI) (auto simp: bit_and_iff bit_or_iff bit_not_iff bit_1_iff)

lemma set_bit_py_and_not_one:
  "set_bit_py v 0 x AND NOT 1 = v AND NOT 1"
  unfolding set_bit_py_lsb
  by (intro bit_eqI) (auto simp: bit_and_iff bit_or_iff bit_not_iff bit_1_iff)

lemma lsb_of_set_bit_py [simp]:
  "lsb_of (set_bit_py v 0 x) = (if x \<noteq> 0 then 1 else 0)"
  by (simp add: lsb_of_def set_bit_py_and_one)

section \<open>Round trips of the fixed-width fields\<close>

lemma bin_list_to_int_prefix:
  assumes "\<And>k. k < 32 \<Longrightarrow> bl ! (31 - k) = of_bool (bit n k)" and "32 \<le> length bl"
  shows "bin_list_to_int bl = Inr (n mod 2 ^ 32)"
proof -
  have "foldl (\<lambda>acc i. acc + push_bit i (bl ! (32 - 1 - i))) 0 [0..<32] = take_bit 32 n"
    using assms by (intro msb_first_value) simp_all
  with assms(2) show ?thesis
    by (simp add: bin_list_to_int_def take_bit_eq_mod)
qed

lemma int_to_bin_list_nth:
  "k < 32 \<Longrightarrow> int_to_bin_list n ! (31 - k) = of_bool (bit n k)"
  using msb_first_nth [of k 32 n] by (simp add: int_to_bin_list_def)

lemma char_to_bin_list_nth:
  "k < 8 \<Longrightarrow> char_to_bin_list c ! (7 - k) = of_bool (bit c k)"
  using msb_first_nth [of k 8 c] by (simp add: char_to_bin_list_def)

lemma bin_list_to_char_char_to_bin_list [codec_simps]:
  "bin_list_to_char (char_to_bin_list c) = Inr (c mod 256)"
proof -
  have "foldl (\<lambda>acc i. acc + push_bit i (char_to_bin_list c ! (8 - 1 - i))) 0 [0..<8] = take_bit 8 c"
    by (intro msb_first_value) (simp_all add: char_to_bin_list_nth)
  then show ?thesis
    by (simp add: bin_list_to_char_def py_chr_def take_bit_eq_mod)
qed

section \<open>The message loop against the reference decoding\<close>

lemma chunks8_append:
  "length xs = 8 \<Longrightarrow> chunks8 (xs @ ys) = xs # chunks8 ys"
  by (cases xs) auto

lemma byte_value_foldl:
  "foldl (\<lambda>acc i. acc + push_bit i (bl ! (7 - i))) 0 [0..<8] = byte_value bl"
  by (simp add: byte_value_def foldl_push_bit_sum)

lemma byte_value_bound:
  "(\<And>b. b \<in> set bl \<Longrightarrow> b < 2) \<Longrightarrow> 8 \<le> length bl \<Longrightarrow> byte_value bl < 256"
  using msb_first_value_bound [of bl 8] by (simp add: byte_value_foldl [symmetric])

lemma bin_list_to_char_bits:
  "(\<And>b. b \<in> set bl \<Longrightarrow> b < 2) \<Longrightarrow> length bl = 8 \<Longrightarrow> bin_list_to_char bl = Inr (byte_value bl)"
  using byte_value_bound [of bl]
  by (simp add: bin_list_to_char_def py_chr_def byte_value_foldl)

lemma bin_list_to_message_loop_chunks:
  assumes "\<And>b. b \<in> set (list_tmp @ bl) \<Longrightarrow> b < 2"
    and "length (list_tmp @ bl) mod 8 = 0" and "length list_tmp < 8"
  shows "bin_list_to_message_loop bl list_tmp (length list_tmp) message
         = Inr (message @ map byte_value (chunks8 (list_tmp @ bl)))"
  using assms
proof (induction bl arbitrary: list_tmp message)
  case Nil
  then show ?case by simp
next
  case (Cons b bs)
  show ?case
  proof (cases "length list_tmp = 7")
    case True
    then have len: "length (list_tmp @ [b]) = 8" by simp
    have "bin_list_to_char (list_tmp @ [b]) = Inr (byte_value (list_tmp @ [b]))"
      using Cons.prems(1) len by (intro bin_list_to_char_bits) auto
    moreover have "bin_list_to_message_loop bs [] 0 (message @ [byte_value (list_tmp @ [b])])
        = Inr ((message @ [byte_value (list_tmp @ [b])]) @ map byte_value (chunks8 bs))"
      using Cons.IH [of "[]"] Cons.prems len by simp
    moreover have "chunks8 (list_tmp @ b # bs) = (list_tmp @ [b]) # chunks8 bs"
      using chunks8_append [OF len, of bs] by simp
    ultimately show ?thesis using True by simp
  next
    case False
    then have "Suc (length list_tmp) = length (list_tmp @ [b])" by simp
    moreover have "bin_list_to_message_loop bs (list_tmp @ [b]) (length (list_tmp @ [b])) message
        = Inr (message @ map byte_value (chunks8 ((list_tmp @ [b]) @ bs)))"
      using Cons.prems False by (intro Cons.IH) auto
    ultimately show ?thesis using False Cons.prems(3) by simp
  qed
qed

lemma chunks8_message_to_bin_list:
  "chunks8 (message_to_bin_list m) = map char_to_bin_list m"
  by (induction m) (simp_all add: message_to_bin_list_Cons chunks8_append)

lemma byte_value_char_to_bin_list:
  "byte_value (char_to_bin_list c) = c mod 256"
proof -
  have "bin_list_to_char (char_to_bin_list c) = Inr (byte_value (char_to_bin_list c))"
    by (rule bin_list_to_char_bits) (simp_all add: char_to_bin_list_bits)
  then show ?thesis by (simp add: bin_list_to_char_char_to_bin_list)
qed

lemma bin_list_to_message_loop_start:
  "(\<And>b. b \<in> set bl \<Longrightarrow> b < 2) \<Longrightarrow> length bl mod 8 = 0 \<Longrightarrow>
   bin_list_to_message_loop bl [] 0 [] = Inr (map byte_value (chunks8 bl))"
  using bin_list_to_message_loop_chunks [of "[]" bl "[]"] by simp

text \<open>The unfolding rules that evaluate the codec on concrete lists.\<close>

lemmas codec_eval = int_to_bin_list_def bin_list_to_int_def char_to_bin_list_def
  bin_list_to_char_def py_chr_def message_to_bin_list_def bin_list_to_message_def upt_rec

lemma bin_list_to_int_int_to_bin_list:
  "bin_list_to_int (int_to_bin_list n @ rest) = Inr (n mod 2 ^ 32)"
proof (rule bin_list_to_int_prefix)
  fix k :: nat assume k: "k < 32"
  then have "31 - k < length (int_to_bin_list n)" by simp
  with k show "(int_to_bin_list n @ rest) ! (31 - k) = of_bool (bit n k)"
    by (simp add: nth_append int_to_bin_list_nth)
qed simp

lemma bin_list_to_message_message_to_bin_list:
  "bin_list_to_message (message_to_bin_list m) = Inr (map (\<lambda>c. c mod 256) m)"
proof -
  have "bin_list_to_message_loop (message_to_bin_list m) [] 0 []
        = Inr (map byte_value (chunks8 (message_to_bin_list m)))"
    by (rule bin_list_to_message_loop_start) (auto dest: message_to_bin_list_bits)
  then show ?thesis
    by (simp add: bin_list_to_message_def chunks8_message_to_bin_list
        byte_value_char_to_bin_list comp_def)
qed

lemma bin_list_to_message_loop_error:
  "bin_list_to_message_loop bl t k msg = Inl e \<Longrightarrow> e = IndexError \<or> e = ChrRange"
proof (induction bl t k msg rule: bin_list_to_message_loop.induct)
  case (1 list_tmp bit_counter message)
  then show ?case by simp
next
  case (2 b bs list_tmp bit_counter message)
  then show ?case
    by (auto simp: Let_def bin_list_to_char_def py_chr_def split: if_splits sum.splits)
qed

lemma bin_list_to_message_error:
  "bin_list_to_message bl = Inl e \<Longrightarrow> e \<noteq> UnsupportedColorModel"
  by (auto simp: bin_list_to_message_def dest: bin_list_to_message_loop_error split: if_splits)

lemma bin_list_to_char_byte:
  "\<forall>b \<in> set bl. b < 2 \<Longrightarrow> bin_list_to_char bl = Inr c \<Longrightarrow> c < 256"
  using msb_first_value_bound [of bl 8]
  by (auto simp: bin_list_to_char_def py_chr_def split: if_splits)

lemma bin_list_to_message_loop_bytes:
  "\<forall>b \<in> set (list_tmp @ bl). b < 2 \<Longrightarrow> \<forall>c \<in> set message. c < 256 \<Longrightarrow>
   bin_list_to_message_loop bl list_tmp k message = Inr m \<Longrightarrow> \<forall>c \<in> set m. c < 256"
proof (induction bl list_tmp k message rule: bin_list_to_message_loop.induct)
  case (1 list_tmp bit_counter message)
  then show ?case by simp
next
  case (2 b bs list_tmp bit_counter message)
  show ?case
  proof (cases "bit_counter = 7")
    case True
    then obtain c where c: "bin_list_to_char (list_tmp @ [b]) = Inr c"
      and rest: "bin_list_to_message_loop bs [] 0 (message @ [c]) = Inr m"
      using "2.prems"(3) by (auto simp: Let_def split: sum.splits)
    have "c < 256" using bin_list_to_char_byte [OF _ c] "2.prems"(1) by simp
    then have p2: "\<forall>x \<in> set (message @ [c]). x < 256" using "2.prems"(2) by simp
    have p1: "\<forall>x \<in> set ([] @ bs). x < 2" using "2.prems"(1) by simp
    show ?thesis by (rule "2.IH"(1) [OF refl True c p1 p2 rest])
  next
    case False
    then show ?thesis using "2.IH"(2) "2.prems" by (simp add: Let_def)
  qed
qed

section \<open>Properties\<close>

text \<open>
  C38. The 32-bit length field round-trips: reading back the list written by
  \<open>int_to_bin_list\<close> gives the number modulo \<open>2^32\<close> (the field keeps the low 32
  bits), with no error.
\<close>

theorem int_roundtrip:
  "bin_list_to_int (int_to_bin_list n) = Inr (n mod 2 ^ 32)"
  using bin_list_to_int_int_to_bin_list [of n "[]"] by simp

text \<open>
  C14. A message round-trips through \<open>message_to_bin_list\<close> and
  \<open>bin_list_to_message\<close> up to the 8-bit truncation of each code point: every
  character comes back as its code modulo 256, and nothing raises.
\<close>

theorem message_roundtrip:
  "bin_list_to_message (message_to_bin_list m) = Inr (map (\<lambda>c. c mod 256) m)"
  by (rule bin_list_to_message_message_to_bin_list)

text \<open>
  C15. The counter-driven loop of \<open>bin_list_to_message\<close> is equivalent to the
  reference decoding: on a list of 0/1 values whose length is a multiple of 8 it returns
  the MSB-first value of each consecutive chunk of eight bits.
\<close>

theorem bin_list_to_message_chunks:
  assumes "\<forall>b \<in> set bl. b < 2" and "length bl mod 8 = 0"
  shows "bin_list_to_message bl = Inr (map byte_value (chunks8 bl))"
proof -
  have "bin_list_to_message_loop bl [] 0 [] = Inr (map byte_value (chunks8 bl))"
    using assms by (intro bin_list_to_message_loop_start) auto
  with assms(2) show ?thesis by (simp add: bin_list_to_message_def)
qed

text \<open>
  \<open>set_bit(v, 0, x)\<close> changes nothing but bit 0 of the channel value: bit 0 of
  the result is 1 exactly when \<open>x\<close> is non-zero, and the result with bit 0 masked
  off equals \<open>v\<close> with bit 0 masked off.
\<close>

theorem set_bit_py_lsb_only:
  "set_bit_py v 0 x AND 1 = (if x \<noteq> 0 then 1 else 0) \<and>
   set_bit_py v 0 x AND NOT 1 = v AND NOT 1"
  by (intro conjI set_bit_py_and_one set_bit_py_and_not_one)

text \<open>
  \<open>bin_list_to_int\<close> raises IndexError on a list of fewer than 32 elements
  (its first read is \<open>bin_list[31]\<close>).
\<close>

theorem bin_list_to_int_short:
  "length bl < 32 \<Longrightarrow> bin_list_to_int bl = Inl IndexError"
  by (simp add: bin_list_to_int_def)

text \<open>
  \<open>bin_list_to_message\<close> raises its ValueError exactly when the length of the
  list is not a multiple of 8.
\<close>

theorem bin_list_to_message_not_div8:
  "(bin_list_to_message bl = Inl NotDivisibleBy8) \<longleftrightarrow> length bl mod 8 \<noteq> 0"
proof
  assume "bin_list_to_message bl = Inl NotDivisibleBy8"
  moreover have "bin_list_to_message_loop bl' t n m \<noteq> Inl NotDivisibleBy8" for bl' t n m
    by (induction bl' t n m rule: bin_list_to_message_loop.induct)
      (auto simp: Let_def bin_list_to_char_def py_chr_def split: sum.splits)
  ultimately show "length bl mod 8 \<noteq> 0"
    by (auto simp: bin_list_to_message_def split: if_splits)
next
  assume "length bl mod 8 \<noteq> 0"
  then show "bin_list_to_message bl = Inl NotDivisibleBy8"
    by (simp add: bin_list_to_message_def)
qed

text \<open>
  On a list of 0/1 values, the length decoded by \<open>bin_list_to_int\<close> is below
  \<open>2^32\<close>.
\<close>

theorem bin_list_to_int_bound:
  assumes "\<forall>b \<in> set bl. b < 2" and "bin_list_to_int bl = Inr v"
  shows "v < 2 ^ 32"
proof -
  have "foldl (\<lambda>acc i. acc + push_bit i (bl ! (32 - 1 - i))) 0 [0..<32] < (2::nat) ^ 32"
    using assms by (intro msb_first_value_bound) (auto simp: bin_list_to_int_def split: if_splits)
  with assms(2) show ?thesis
    by (auto simp: bin_list_to_int_def split: if_splits)
qed

text \<open>
  Python 3 strings hold code points above 255, and \<open>char_to_bin_list\<close> keeps
  only their low 8 bits: the one-character message with code point 256 decodes to the
  character with code point 0.
\<close>

theorem code_point_truncation:
  "bin_list_to_message (message_to_bin_list [256]) = Inr [0]"
  by (simp add: codec_eval)

text \<open>
  \<open>set_bit(v, i, x)\<close> on a byte sets bit \<open>i\<close> to the truth of \<open>x\<close> and keeps
  every other bit; an index at or beyond the width 8 leaves the byte unchanged (the mask
  \<open>1 << i\<close> wraps to 0).
\<close>

theorem set_bit_py_bit:
  "bit (set_bit_py v i x) j \<longleftrightarrow> (if j = i then x \<noteq> 0 \<and> i < 8 else bit v j)"
  by (auto simp: set_bit_py_def Let_def bit_simps dest: bit_imp_le_length)

section \<open>Witnesses\<close>

theorem bin_list_to_message_chunks_witness:
  "list_all (\<lambda>b. b < 2) [0, 1, 0, 0, 0, 0, 0, 1::nat] \<and> length [0, 1, 0, 0, 0, 0, 0, 1::nat] mod 8 = 0 \<and>
   bin_list_to_message [0, 1, 0, 0, 0, 0, 0, 1] = Inr [65]"
proof -
  have "map byte_value (chunks8 [0, 1, 0, 0, 0, 0, 0, 1]) = [65]"
    by (simp add: byte_value_def lessThan_nat_numeral)
  then show ?thesis
    using bin_list_to_message_chunks [of "[0, 1, 0, 0, 0, 0, 0, 1]"] by simp
qed

theorem bin_list_to_int_short_witness:
  "length [1, 0, 1::nat] < 32 \<and> bin_list_to_int [1, 0, 1] = Inl IndexError"
  using bin_list_to_int_short [of "[1, 0, 1]"] by simp

theorem bin_list_to_int_bound_witness:
  "list_all (\<lambda>b. b < 2) (replicate 29 0 @ [1, 0, 1::nat]) \<and>
   bin_list_to_int (replicate 29 0 @ [1, 0, 1]) = Inr 5 \<and> (5::nat) < 2 ^ 32"
proof -
  have "bin_list_to_int (replicate 29 0 @ [1, 0, 1]) = Inr 5"
    by (simp add: codec_eval nth_append)
  then show ?thesis
    using bin_list_to_int_bound [of "replicate 29 0 @ [1, 0, 1]" 5] by (simp add: list_all_iff)
qed

end
