(* ===== verification/Scan.thy ===== *)
theory Scan
  imports BitCodec
begin

text \<open>
  The pixel loops of \<open>Steganographer.encode_image\<close> (lines 340-361) and
  \<open>Steganographer.decode_image\<close> (lines 385-395 and 414-430) of
  \<^verbatim>\<open>src/steganographer.py\<close>.
  Both scan \<open>heightIndex\<close> over \<open>range(image_size[0])\<close>, then \<open>widthIndex\<close> over
  \<open>range(image_size[1])\<close>, then \<open>colorIndex\<close> over \<open>range(color_size)\<close>, and read
  \<open>image_data[widthIndex][heightIndex][colorIndex]\<close>. PIL's \<open>size\<close> is
  (width, height) while the numpy array is indexed [row][column], so the outer loop runs
  over columns and the inner one over rows: the scan is column-major.
  Every loop ends by an exception caught by \<open>except Exception: pass\<close>, either the
  \<open>"Done!"\<close> raised when enough bits are processed or an error of the body; both are
  \<open>Inl\<close> values of \<open>loop_exit\<close> here, and the loop's result is the state at that
  point.
  The encoding loop writes a pixel only after its colour loop: the channels are set in
  the three-slot list \<open>__bitList\<close>, which is then assigned to the whole pixel.

  The abstract view is the stream of least significant bits in scan order
  (\<open>lsb_stream\<close>) and the image with those bits masked off (\<open>hi_bits\<close>).
  The encoding loop refines "overwrite the first bits of the stream with the frame,
  change nothing else"; the decoding loop refines "read a prefix of the stream".
\<close>

unbundle bit_operations_syntax

section \<open>Definitions\<close>

datatype loop_exit = Done | Raised py_error

definition scan_pixels :: "nat \<times> nat \<Rightarrow> (nat \<times> nat) list" where
  "scan_pixels image_size =
     concat (map (\<lambda>height_index. map (\<lambda>width_index. (height_index, width_index))
                                    [0..<snd image_size])
                 [0..<fst image_size])"

definition scan_slots :: "nat \<times> nat \<Rightarrow> nat \<Rightarrow> (nat \<times> nat \<times> nat) list" where
  "scan_slots image_size color_size =
     concat (map (\<lambda>(h, w). map (\<lambda>c. (h, w, c)) [0..<color_size]) (scan_pixels image_size))"

text \<open>
  The colour loop of \<open>encode_image\<close> for one pixel: stop with \<open>Done\<close> once the
  bit index reaches the end of the frame, otherwise store \<open>set_bit\<close> of the channel
  into \<open>__bitList[colorIndex]\<close> (IndexError when the array has no such channel or the
  three-slot list no such slot).
\<close>

fun encode_colors ::
  "image \<Rightarrow> bits \<Rightarrow> nat \<Rightarrow> nat \<Rightarrow> nat list \<Rightarrow> nat \<Rightarrow> 8 word list
   \<Rightarrow> loop_exit + (8 word list \<times> nat)" where
  "encode_colors data bit_sequence w h [] bit_index bit_list = Inr (bit_list, bit_index)"
| "encode_colors data bit_sequence w h (c # cs) bit_index bit_list =
     (if length bit_sequence \<le> bit_index then Inl Done
      else case channel_at data w h c of
        None \<Rightarrow> Inl (Raised IndexError)
      | Some v \<Rightarrow>
          if length bit_list \<le> c then Inl (Raised IndexError)
          else encode_colors data bit_sequence w h cs (Suc bit_index)
                 (bit_list[c := set_bit_py v 0 (bit_sequence ! bit_index)]))"

text \<open>
  \<open>self.__image_data[widthIndex][heightIndex] = __bitList\<close>: numpy raises
  IndexError out of range and ValueError when the pixel's length differs from the list's.
\<close>

definition store_pixel :: "image \<Rightarrow> nat \<Rightarrow> nat \<Rightarrow> 8 word list \<Rightarrow> py_error + image" where
  "store_pixel data w h bit_list =
     (if w < length data \<and> h < length (data ! w) then
        if length (data ! w ! h) = length bit_list
        then Inr (data[w := (data ! w)[h := bit_list]])
        else Inl BroadcastError
      else Inl IndexError)"

fun encode_pixels :: "image \<Rightarrow> bits \<Rightarrow> nat \<Rightarrow> (nat \<times> nat) list \<Rightarrow> nat \<Rightarrow> image" where
  "encode_pixels data bit_sequence color_size [] bit_index = data"
| "encode_pixels data bit_sequence color_size ((h, w) # ps) bit_index =
     (case encode_colors data bit_sequence w h [0..<color_size] bit_index [0, 0, 0] of
        Inl _ \<Rightarrow> data
      | Inr (bit_list, bit_index') \<Rightarrow>
          (case store_pixel data w h bit_list of
             Inl _ \<Rightarrow> data
           | Inr data' \<Rightarrow> encode_pixels data' bit_sequence color_size ps bit_index'))"

text \<open>The whole embedding loop of \<open>encode_image\<close>, from bit index 0.\<close>

definition embed_bits :: "image \<Rightarrow> bits \<Rightarrow> nat \<times> nat \<Rightarrow> nat \<Rightarrow> image" where
  "embed_bits data bit_sequence image_size color_size =
     encode_pixels data bit_sequence color_size (scan_pixels image_size) 0"

text \<open>
  The reading loop of \<open>decode_image\<close> (its two loops are the same code with the
  limits 32 and \<open>message_bit_length + 32\<close>): append \<open>value & 1\<close> until
  \<open>limit\<close> bits are collected; an IndexError ends the loop early.
\<close>

fun read_lsbs :: "image \<Rightarrow> nat \<Rightarrow> (nat \<times> nat \<times> nat) list \<Rightarrow> nat \<Rightarrow> bits" where
  "read_lsbs data limit [] bit_index = []"
| "read_lsbs data limit ((h, w, c) # slots) bit_index =
     (if limit \<le> bit_index then []
      else case channel_at data w h c of
        None \<Rightarrow> []
      | Some v \<Rightarrow> lsb_of v # read_lsbs data limit slots (Suc bit_index))"

subsection \<open>Abstract view\<close>

definition pixel_lsbs :: "image \<Rightarrow> nat \<Rightarrow> (nat \<times> nat) list \<Rightarrow> bits" where
  "pixel_lsbs data color_size ps =
     concat (map (\<lambda>(h, w). map (\<lambda>c. lsb_of (data ! w ! h ! c)) [0..<color_size]) ps)"

definition lsb_stream :: "image \<Rightarrow> nat \<times> nat \<Rightarrow> nat \<Rightarrow> bits" where
  "lsb_stream data image_size color_size = pixel_lsbs data color_size (scan_pixels image_size)"

definition clear_lsb :: "8 word \<Rightarrow> 8 word" where
  "clear_lsb v = v AND NOT 1"

definition hi_bits :: "image \<Rightarrow> image" where
  "hi_bits data = map (map (map clear_lsb)) data"

definition wf_image :: "image \<Rightarrow> nat \<times> nat \<Rightarrow> nat \<Rightarrow> bool" where
  "wf_image data image_size channels \<longleftrightarrow>
     length data = snd image_size \<and>
     (\<forall>row \<in> set data. length row = fst image_size \<and> (\<forall>px \<in> set row. length px = channels))"

text \<open>The pixel the colour loop builds from \<open>px\<close> when three frame bits remain.\<close>

definition new_pixel :: "pixel \<Rightarrow> bits \<Rightarrow> nat \<Rightarrow> pixel" where
  "new_pixel px bit_sequence i = map (\<lambda>c. set_bit_py (px ! c) 0 (bit_sequence ! (i + c))) [0..<3]"

definition pixel_ok :: "image \<Rightarrow> nat \<Rightarrow> nat \<times> nat \<Rightarrow> bool" where
  "pixel_ok data n p \<longleftrightarrow>
     (case p of (h, w) \<Rightarrow> w < length data \<and> h < length (data ! w) \<and> length (data ! w ! h) = n)"

section \<open>The scan order\<close>

lemma length_scan_pixels [simp]: "length (scan_pixels sz) = fst sz * snd sz"
  by (simp add: scan_pixels_def length_concat_same_length)

lemma set_scan_pixels [simp]:
  "set (scan_pixels sz) = {(h, w). h < fst sz \<and> w < snd sz}"
  by (auto simp: scan_pixels_def)

lemma distinct_scan_pixels: "distinct (scan_pixels sz)"
proof -
  have "scan_pixels sz = List.product [0..<fst sz] [0..<snd sz]"
    by (simp add: scan_pixels_def product_concat_map)
  then show ?thesis by (simp add: distinct_product)
qed

lemma wf_image_nth:
  "wf_image data sz n \<Longrightarrow> (h, w) \<in> set (scan_pixels sz) \<Longrightarrow>
   w < length data \<and> h < length (data ! w) \<and> length (data ! w ! h) = n"
proof -
  assume wf: "wf_image data sz n" and p: "(h, w) \<in> set (scan_pixels sz)"
  then have w: "w < length data" and h: "h < fst sz" by (auto simp: wf_image_def)
  then have row: "data ! w \<in> set data" by simp
  with wf have "length (data ! w) = fst sz" and "\<forall>px \<in> set (data ! w). length px = n"
    by (auto simp: wf_image_def)
  with w h show ?thesis by auto
qed

lemma wf_image_pixel_ok:
  "wf_image data sz n \<Longrightarrow> \<forall>p \<in> set (scan_pixels sz). pixel_ok data n p"
  by (auto simp: pixel_ok_def dest: wf_image_nth)

section \<open>The encoding loop\<close>

lemma update_pixel_other:
  "(h', w') \<noteq> (h, w) \<Longrightarrow> data[w := (data ! w)[h := x]] ! w' ! h' = data ! w' ! h'"
  by (cases "w < length data") (auto simp: nth_list_update list_update_beyond)

lemma update_pixel_same:
  "w < length data \<Longrightarrow> h < length (data ! w) \<Longrightarrow> data[w := (data ! w)[h := x]] ! w ! h = x"
  by simp

lemma pixel_ok_update:
  "pixel_ok data n (h, w) \<Longrightarrow> length x = n \<Longrightarrow>
   pixel_ok (data[w := (data ! w)[h := x]]) n q = pixel_ok data n q"
  by (cases q) (auto simp: pixel_ok_def nth_list_update split: if_splits)

lemma shape_update:
  "w < length data \<Longrightarrow> h < length (data ! w) \<Longrightarrow> length x = length (data ! w ! h) \<Longrightarrow>
   map (map length) (data[w := (data ! w)[h := x]]) = map (map length) data"
  by (auto intro!: nth_equalityI simp: nth_list_update)

lemma store_pixel_Inr:
  "store_pixel data w h bl = Inr data' \<longleftrightarrow>
   w < length data \<and> h < length (data ! w) \<and> length (data ! w ! h) = length bl \<and>
   data' = data[w := (data ! w)[h := bl]]"
  by (auto simp: store_pixel_def)

lemma encode_colors_Inr:
  assumes "encode_colors data seq w h cs i bl = Inr (bl', i')"
  shows "length bl' = length bl \<and>
    (\<forall>c < length bl. c \<notin> set cs \<longrightarrow> bl' ! c = bl ! c) \<and>
    (\<forall>c \<in> set cs. c < length bl \<and> (\<exists>x. bl' ! c = set_bit_py (data ! w ! h ! c) 0 x))"
  using assms
proof (induction cs arbitrary: i bl)
  case Nil
  then show ?case by simp
next
  case (Cons c cs)
  then obtain v where v: "channel_at data w h c = Some v" and c: "c < length bl"
    and rest: "encode_colors data seq w h cs (Suc i) (bl[c := set_bit_py v 0 (seq ! i)]) = Inr (bl', i')"
    by (auto split: if_splits option.splits)
  from v have vv: "v = data ! w ! h ! c" by (simp add: channel_at_def split: if_splits)
  from Cons.IH [OF rest] c vv show ?case
    by (cases "c \<in> set cs") (auto simp: nth_list_update)
qed

lemma encode_colors_rgb:
  assumes "w < length data" "h < length (data ! w)" "length (data ! w ! h) = 3" "i + 3 \<le> length seq"
  shows "encode_colors data seq w h [0..<3] i [0, 0, 0] = Inr (new_pixel (data ! w ! h) seq i, i + 3)"
  using assms by (simp add: upt_rec channel_at_def new_pixel_def numeral_eq_Suc)

lemma clear_lsb_set_bit_py [simp]: "clear_lsb (set_bit_py v 0 x) = clear_lsb v"
  by (simp only: clear_lsb_def set_bit_py_and_not_one)

lemma hi_bits_update:
  assumes "w < length data" "h < length (data ! w)" "map clear_lsb x = map clear_lsb (data ! w ! h)"
  shows "hi_bits (data[w := (data ! w)[h := x]]) = hi_bits data"
proof -
  have "map (map clear_lsb) ((data ! w)[h := x]) = map (map clear_lsb) (data ! w)"
    using assms by (metis list_update_id map_update nth_map)
  then have "hi_bits (data[w := (data ! w)[h := x]]) = (hi_bits data)[w := hi_bits data ! w]"
    using assms(1) by (simp add: hi_bits_def map_update)
  then show ?thesis by simp
qed

lemma encode_colors_hi_bits:
  assumes "encode_colors data seq w h [0..<cs] i [0, 0, 0] = Inr (bl', i')" and "3 \<le> cs"
    and "length (data ! w ! h) = length bl'"
  shows "map clear_lsb bl' = map clear_lsb (data ! w ! h)"
proof (rule nth_equalityI)
  show "length (map clear_lsb bl') = length (map clear_lsb (data ! w ! h))"
    using assms(3) by simp
next
  fix c assume "c < length (map clear_lsb bl')"
  then have c: "c < 3" using encode_colors_Inr [OF assms(1)] by simp
  with assms(2) have "c \<in> set [0..<cs]" by simp
  then obtain x where "bl' ! c = set_bit_py (data ! w ! h ! c) 0 x"
    using encode_colors_Inr [OF assms(1)] by blast
  with c assms(3) show "map clear_lsb bl' ! c = map clear_lsb (data ! w ! h) ! c"
    using encode_colors_Inr [OF assms(1)] by simp
qed

lemma encode_pixels_hi_bits:
  "3 \<le> cs \<Longrightarrow> hi_bits (encode_pixels data seq cs ps i) = hi_bits data"
proof (induction ps arbitrary: data i)
  case Nil
  then show ?case by simp
next
  case (Cons p ps)
  obtain h w where p: "p = (h, w)" by fastforce
  show ?case
  proof (cases "encode_colors data seq w h [0..<cs] i [0, 0, 0]")
    case (Inl e)
    with p show ?thesis by simp
  next
    case (Inr r)
    obtain bl' i' where r: "r = (bl', i')" by fastforce
    show ?thesis
    proof (cases "store_pixel data w h bl'")
      case (Inl e)
      with p Inr r show ?thesis by simp
    next
      case (Inr data')
      then have st: "w < length data" "h < length (data ! w)" "length (data ! w ! h) = length bl'"
        and d': "data' = data[w := (data ! w)[h := bl']]"
        by (simp_all add: store_pixel_Inr)
      have "hi_bits data' = hi_bits data"
        using encode_colors_hi_bits [OF _ Cons.prems st(3)] \<open>encode_colors data seq w h [0..<cs] i [0, 0, 0] = Inr r\<close> r d'
        by (simp add: hi_bits_update st(1,2))
      with p Inr r \<open>encode_colors data seq w h [0..<cs] i [0, 0, 0] = Inr r\<close> Cons.IH [OF Cons.prems]
      show ?thesis by simp
    qed
  qed
qed


lemma length_new_pixel [simp]: "length (new_pixel px seq i) = 3"
  by (simp add: new_pixel_def)

lemma length_pixel_lsbs [simp]: "length (pixel_lsbs data n ps) = n * length ps"
  by (simp add: pixel_lsbs_def length_concat_same_length split_def)

lemma pixel_lsbs_Nil [simp]: "pixel_lsbs data n [] = []"
  by (simp add: pixel_lsbs_def)

lemma pixel_lsbs_Cons [simp]:
  "pixel_lsbs data n ((h, w) # ps) = map (\<lambda>c. lsb_of (data ! w ! h ! c)) [0..<n] @ pixel_lsbs data n ps"
  by (simp add: pixel_lsbs_def)

lemma pixel_lsbs_update_other:
  "(h, w) \<notin> set ps \<Longrightarrow> pixel_lsbs (data[w := (data ! w)[h := x]]) n ps = pixel_lsbs data n ps"
proof (induction ps)
  case Nil
  then show ?case by simp
next
  case (Cons q ps)
  then show ?case by (cases q) (auto simp: update_pixel_other)
qed

lemma encode_pixels_other:
  "(h, w) \<notin> set ps \<Longrightarrow> encode_pixels data seq cs ps i ! w ! h = data ! w ! h"
proof (induction ps arbitrary: data i)
  case Nil
  then show ?case by simp
next
  case (Cons p ps)
  obtain h0 w0 where p: "p = (h0, w0)" by fastforce
  with Cons.prems have ne: "(h, w) \<noteq> (h0, w0)" and notin: "(h, w) \<notin> set ps" by auto
  show ?case
  proof (cases "encode_colors data seq w0 h0 [0..<cs] i [0, 0, 0]")
    case (Inl e)
    with p show ?thesis by simp
  next
    case (Inr r)
    obtain bl' i' where r: "r = (bl', i')" by fastforce
    show ?thesis
    proof (cases "store_pixel data w0 h0 bl'")
      case (Inl e)
      with p Inr r show ?thesis by simp
    next
      case (Inr data')
      then have d': "data' = data[w0 := (data ! w0)[h0 := bl']]" by (simp add: store_pixel_Inr)
      from p Inr r \<open>encode_colors data seq w0 h0 [0..<cs] i [0, 0, 0] = Inr r\<close>
      have "encode_pixels data seq cs (p # ps) i = encode_pixels data' seq cs ps i'" by simp
      with Cons.IH [OF notin] d' ne show ?thesis by (simp add: update_pixel_other)
    qed
  qed
qed

lemma new_pixel_lsbs:
  assumes "\<forall>b \<in> set seq. b < 2" and "i + 3 \<le> length seq"
  shows "map (\<lambda>c. lsb_of (new_pixel px seq i ! c)) [0..<3] = take 3 (drop i seq)"
proof (rule nth_equalityI)
  fix c assume "c < length (map (\<lambda>c. lsb_of (new_pixel px seq i ! c)) [0..<3])"
  then have c: "c < 3" by simp
  with assms(2) have "seq ! (i + c) \<in> set seq" by simp
  with assms(1) have "seq ! (i + c) < 2" by blast
  with c assms(2) show "map (\<lambda>c. lsb_of (new_pixel px seq i ! c)) [0..<3] ! c = take 3 (drop i seq) ! c"
    by (simp add: new_pixel_def)
qed (use assms(2) in simp)

lemma frame_mod3_step:
  "(length seq - i) mod 3 = 0 \<Longrightarrow> i \<noteq> length seq \<Longrightarrow> i \<le> length seq \<Longrightarrow>
   i + 3 \<le> length seq \<and> (length seq - (i + 3)) mod 3 = 0"
  by presburger

lemma encode_pixels_lsbs:
  assumes "distinct ps" and "\<forall>p \<in> set ps. pixel_ok data 3 p" and "\<forall>b \<in> set seq. b < 2"
    and "i \<le> length seq" and "(length seq - i) mod 3 = 0"
  shows "pixel_lsbs (encode_pixels data seq 3 ps i) 3 ps
         = take (3 * length ps) (drop i seq @ drop (length seq - i) (pixel_lsbs data 3 ps))"
  using assms
proof (induction ps arbitrary: data i)
  case Nil
  then show ?case by simp
next
  case (Cons p ps)
  obtain h w where p: "p = (h, w)" by fastforce
  from Cons.prems p have ok: "pixel_ok data 3 (h, w)" and notin: "(h, w) \<notin> set ps" by auto
  then have hw: "w < length data" "h < length (data ! w)" "length (data ! w ! h) = 3"
    by (auto simp: pixel_ok_def)
  show ?case
  proof (cases "i = length seq")
    case True
    then have "encode_colors data seq w h [0..<3] i [0, 0, 0] = Inl Done"
      by (simp add: upt_rec)
    with p True show ?thesis by simp
  next
    case False
    with Cons.prems frame_mod3_step [of seq i]
    have i3: "i + 3 \<le> length seq" and m3: "(length seq - (i + 3)) mod 3 = 0"
      by auto
    define data1 where "data1 = data[w := (data ! w)[h := new_pixel (data ! w ! h) seq i]]"
    have step: "encode_pixels data seq 3 ((h, w) # ps) i = encode_pixels data1 seq 3 ps (i + 3)"
      using hw i3 by (simp add: encode_colors_rgb store_pixel_def data1_def)
    have ok1: "\<forall>q \<in> set ps. pixel_ok data1 3 q"
      using Cons.prems(2) ok by (simp add: data1_def pixel_ok_update)
    have IH: "pixel_lsbs (encode_pixels data1 seq 3 ps (i + 3)) 3 ps
        = take (3 * length ps) (drop (i + 3) seq @ drop (length seq - (i + 3)) (pixel_lsbs data1 3 ps))"
      using Cons.prems(1,3) ok1 i3 m3 by (intro Cons.IH) auto
    have same: "pixel_lsbs data1 3 ps = pixel_lsbs data 3 ps"
      using notin by (simp add: data1_def pixel_lsbs_update_other)
    have first: "encode_pixels data1 seq 3 ps (i + 3) ! w ! h = new_pixel (data ! w ! h) seq i"
      using notin hw by (simp add: encode_pixels_other data1_def)
    have d: "drop i seq = take 3 (drop i seq) @ drop (i + 3) seq"
      by (metis append_take_drop_id drop_drop add.commute)
    have l3: "length (take 3 (drop i seq)) = 3" using i3 by simp
    have "pixel_lsbs (encode_pixels data seq 3 (p # ps) i) 3 (p # ps)
        = take 3 (drop i seq) @ take (3 * length ps) (drop (i + 3) seq @ drop (length seq - (i + 3)) (pixel_lsbs data 3 ps))"
      using p step IH same first new_pixel_lsbs [OF Cons.prems(3) i3] by simp
    also have "\<dots> = take (3 * length (p # ps)) (drop i seq @ drop (length seq - i) (pixel_lsbs data 3 (p # ps)))"
      using p i3 l3 by (subst d) (simp add: take_append drop_append)
    finally show ?thesis .
  qed
qed

lemma encode_pixels_shape:
  "map (map length) (encode_pixels data seq cs ps i) = map (map length) data"
proof (induction ps arbitrary: data i)
  case Nil
  then show ?case by simp
next
  case (Cons p ps)
  obtain h w where p: "p = (h, w)" by fastforce
  show ?case
  proof (cases "encode_colors data seq w h [0..<cs] i [0, 0, 0]")
    case (Inl e)
    with p show ?thesis by simp
  next
    case (Inr r)
    obtain bl' i' where r: "r = (bl', i')" by fastforce
    show ?thesis
    proof (cases "store_pixel data w h bl'")
      case (Inl e)
      with p Inr r show ?thesis by simp
    next
      case (Inr data')
      then have "map (map length) data' = map (map length) data"
        by (auto simp: store_pixel_Inr intro: shape_update)
      with p Inr r \<open>encode_colors data seq w h [0..<cs] i [0, 0, 0] = Inr r\<close> Cons.IH [of data' i']
      show ?thesis by simp
    qed
  qed
qed

lemma wf_image_shape:
  "map (map length) data' = map (map length) data \<Longrightarrow> wf_image data' sz n = wf_image data sz n"
proof -
  assume eq: "map (map length) data' = map (map length) data"
  have "wf_image d sz n \<longleftrightarrow> length (map (map length) d) = snd sz \<and>
      (\<forall>r \<in> set (map (map length) d). length r = fst sz \<and> (\<forall>l \<in> set r. l = n))" for d
    by (auto simp: wf_image_def)
  with eq show ?thesis by presburger
qed

section \<open>The reading loop\<close>

lemma read_lsbs_take:
  "\<forall>(h, w, c) \<in> set slots. channel_at data w h c \<noteq> None \<Longrightarrow>
   read_lsbs data limit slots i = take (limit - i) (map (\<lambda>(h, w, c). lsb_of (data ! w ! h ! c)) slots)"
proof (induction slots arbitrary: i)
  case Nil
  then show ?case by simp
next
  case (Cons s slots)
  obtain h w c where s: "s = (h, w, c)" by (cases s) auto
  with Cons.prems have "channel_at data w h c = Some (data ! w ! h ! c)"
    by (auto simp: channel_at_def split: if_splits)
  with s Cons show ?case by (simp add: take_Cons' Suc_diff_Suc)
qed

lemma lsb_stream_slots:
  "map (\<lambda>(h, w, c). lsb_of (data ! w ! h ! c)) (scan_slots sz cs) = lsb_stream data sz cs"
  by (simp add: scan_slots_def lsb_stream_def pixel_lsbs_def map_concat comp_def split_def)

lemma scan_slots_in_range:
  "wf_image data sz n \<Longrightarrow> cs \<le> n \<Longrightarrow> \<forall>(h, w, c) \<in> set (scan_slots sz cs). channel_at data w h c \<noteq> None"
  by (auto simp: scan_slots_def channel_at_def dest!: wf_image_nth)

lemma read_lsbs_stream:
  "wf_image data sz n \<Longrightarrow> color_size \<le> n \<Longrightarrow>
   read_lsbs data limit (scan_slots sz color_size) 0 = take limit (lsb_stream data sz color_size)"
  using read_lsbs_take [OF scan_slots_in_range] by (simp add: lsb_stream_slots)

lemma embed_bits_stream:
  assumes "wf_image data sz 3" and "\<forall>b \<in> set seq. b < 2"
    and "length seq mod 3 = 0" and "length seq \<le> 3 * (fst sz * snd sz)"
  shows "lsb_stream (embed_bits data seq sz 3) sz 3 = seq @ drop (length seq) (lsb_stream data sz 3)"
proof -
  have "lsb_stream (embed_bits data seq sz 3) sz 3
      = take (3 * length (scan_pixels sz)) (drop 0 seq @ drop (length seq - 0) (lsb_stream data sz 3))"
    unfolding embed_bits_def lsb_stream_def
    using assms by (intro encode_pixels_lsbs) (simp_all add: distinct_scan_pixels wf_image_pixel_ok)
  with assms(4) show ?thesis by (simp add: lsb_stream_def)
qed

lemma read_lsbs_pixel3:
  "channel_at data w h 3 = None \<Longrightarrow>
   length (read_lsbs data l ((h, w, 0) # (h, w, 1) # (h, w, 2) # (h, w, 3) # rest) i) \<le> 3"
  by (simp split: option.split)

lemma scan_slots_Cons:
  "scan_pixels sz = (h, w) # ps \<Longrightarrow>
   scan_slots sz cs = map (\<lambda>c. (h, w, c)) [0..<cs] @ concat (map (\<lambda>(h, w). map (\<lambda>c. (h, w, c)) [0..<cs]) ps)"
  by (simp add: scan_slots_def)

lemma read_lsbs_three_band:
  assumes "wf_image data sz 3"
  shows "length (read_lsbs data l (scan_slots sz 4) 0) \<le> 3"
proof (cases "scan_pixels sz")
  case Nil
  then show ?thesis by (simp add: scan_slots_def)
next
  case (Cons p ps)
  obtain h w where p: "p = (h, w)" by fastforce
  have "(h, w) \<in> set (scan_pixels sz)" using Cons p by simp
  then have "h < fst sz" "w < snd sz" by (simp_all add: set_scan_pixels)
  then have "channel_at data w h 3 = None"
    using assms wf_image_nth [OF assms] by (auto simp: channel_at_def)
  moreover have "scan_slots sz 4 = (h, w, 0) # (h, w, 1) # (h, w, 2) # (h, w, 3) #
      concat (map (\<lambda>(h, w). map (\<lambda>c. (h, w, c)) [0..<4]) ps)"
    using Cons p by (simp add: scan_slots_def upt_rec)
  ultimately show ?thesis by (simp only:) (rule read_lsbs_pixel3)
qed

lemma scan_slots_no_channels: "scan_slots sz 0 = []"
proof -
  have "concat (map (\<lambda>(h::nat, w::nat). map (\<lambda>c. (h, w, c)) [0..<0]) xs) = []" for xs
    by (induction xs) auto
  then show ?thesis by (simp add: scan_slots_def)
qed

lemma read_lsbs_bits: "b \<in> set (read_lsbs data l slots i) \<Longrightarrow> b < 2"
proof (induction data l slots i rule: read_lsbs.induct)
  case (1 data limit bit_index)
  then show ?case by simp
next
  case (2 data limit h w c slots bit_index)
  then show ?case by (cases "channel_at data w h c") (auto split: if_splits)
qed

section \<open>Properties\<close>

text \<open>
  C8. The embedding loop changes nothing but least significant bits: for a colour
  count of at least three (every count the color-mode table yields), the image with all
  bit-0s masked off is the same before and after, and every row and pixel keeps its
  length.
\<close>

theorem embed_bits_lsb_only:
  assumes "3 \<le> color_size"
  shows "hi_bits (embed_bits data seq sz color_size) = hi_bits data \<and>
         map (map length) (embed_bits data seq sz color_size) = map (map length) data"
  using assms by (simp add: embed_bits_def encode_pixels_hi_bits encode_pixels_shape)

text \<open>
  C7. On a well-formed RGB image (three channels per pixel, dimensions as recorded),
  the embedding loop refines the abstract specification "write the frame over the first
  bits of the LSB stream": for a frame of 0/1 values whose length is a multiple of three
  and at most the capacity, the LSB stream afterwards is the frame followed by the
  untouched rest of the old stream.
\<close>

theorem embed_bits_lsb_stream:
  assumes "wf_image data sz 3" and "\<forall>b \<in> set seq. b < 2"
    and "length seq mod 3 = 0" and "length seq \<le> 3 * (fst sz * snd sz)"
  shows "lsb_stream (embed_bits data seq sz 3) sz 3 = seq @ drop (length seq) (lsb_stream data sz 3)"
  using assms by (rule embed_bits_stream)

text \<open>
  C16. The reading loop of \<open>decode_image\<close> refines "read a prefix of the LSB
  stream": on a well-formed image with at least \<open>color_size\<close> channels per pixel it
  returns the first \<open>limit\<close> bits of the stream (all of it when the image holds fewer).
\<close>

theorem read_lsbs_prefix:
  assumes "wf_image data sz n" and "color_size \<le> n"
  shows "read_lsbs data limit (scan_slots sz color_size) 0 = take limit (lsb_stream data sz color_size)"
  using assms by (rule read_lsbs_stream)

section \<open>Witnesses\<close>

text \<open>Unfolding rules that evaluate the scan on a concrete image.\<close>

lemmas scan_eval = scan_pixels_def scan_slots_def lsb_stream_def pixel_lsbs_def lsb_of_def
  wf_image_def upt_rec

theorem embed_bits_lsb_stream_witness:
  "wf_image [[[10, 20, 30], [41, 51, 61]]] (2, 1) 3 \<and> list_all (\<lambda>b. b < 2) [1, 0, 1::nat] \<and>
   lsb_stream (embed_bits [[[10, 20, 30], [41, 51, 61]]] [1, 0, 1] (2, 1) 3) (2, 1) 3 = [1, 0, 1, 1, 1, 1]"
proof -
  have wf: "wf_image [[[10, 20, 30], [41, 51, 61]]] (2, 1) 3" by (simp add: scan_eval)
  have "lsb_stream [[[10, 20, 30], [41, 51, 61]]] (2, 1) 3 = [0, 0, 0, 1, 1, 1]"
    by (simp add: scan_eval)
  then show ?thesis
    using wf embed_bits_lsb_stream [OF wf, of "[1, 0, 1]"] by simp
qed

theorem embed_bits_lsb_only_witness:
  "hi_bits (embed_bits [[[10, 20, 30], [41, 51, 61]]] [1, 0, 1] (2, 1) 3) = hi_bits [[[10, 20, 30], [41, 51, 61]]]"
  using embed_bits_lsb_only [of 3 "[[[10, 20, 30], [41, 51, 61]]]" "[1, 0, 1]" "(2, 1)"] by simp

theorem read_lsbs_prefix_witness:
  "wf_image [[[10, 20, 30], [41, 51, 61]]] (2, 1) 3 \<and>
   read_lsbs [[[10, 20, 30], [41, 51, 61]]] 4 (scan_slots (2, 1) 3) 0 = [0, 0, 0, 1]"
proof -
  have wf: "wf_image [[[10, 20, 30], [41, 51, 61]]] (2, 1) 3" by (simp add: scan_eval)
  have "take 4 (lsb_stream [[[10, 20, 30], [41, 51, 61]]] (2, 1) 3) = [0, 0, 0, 1]"
    by (simp add: scan_eval)
  with wf read_lsbs_prefix [OF wf, of 3 4] show ?thesis by simp
qed

end
