(* ===== verification/Engine.thy ===== *)
theory Engine
  imports Scan
begin

text \<open>
  The instance state and methods of class \<open>Steganographer\<close>
  (\<^verbatim>\<open>src/steganographer.py\<close>, lines 13-41 and 246-449).
  The object is the record \<open>steganographer\<close>, one field per attribute of
  \<open>__init__\<close>. Python keeps every assignment made before an exception, so each method
  returns its result (an error or a value) together with the object as it is after the
  call, including the attributes set before a raise.
  The image files PIL opens and writes are a map \<open>filesystem\<close> from file names to
  decoded images (\<open>pil_image\<close>: the array, the mode string and PIL's size
  (width, height)); \<open>Image.open\<close> on a missing name raises IOError and on \<open>None\<close>
  AttributeError (PIL reads from it as from a file object); \<open>save\<close> to \<open>None\<close> fails
  inside PIL with AttributeError, which \<open>save_output_image\<close> re-raises as a plain
  \<open>Exception\<close> (\<open>SaveError\<close>); and
  \<open>Image.fromarray\<close> is \<open>fromarray\<close>, which names an 8-bit array with three
  channels RGB and with four RGBA. PNG is lossless, so a saved image is read back as it
  was written.
\<close>

unbundle bit_operations_syntax

section \<open>Definitions\<close>

record pil_image =
  pil_data :: image
  pil_mode :: string
  pil_size :: "nat \<times> nat"

type_synonym filesystem = "string \<Rightarrow> pil_image option"

record steganographer =
  input_file :: py_name
  output_file :: py_name
  image_data :: image
  color_mode :: string
  color_size :: nat
  image_size :: "nat \<times> nat"
  max_bits_storable :: nat

text \<open>
  \<open>__init__\<close>: the attributes start empty, \<open>image_data\<close> is
  \<open>numpy.empty((1, 1, 1))\<close> (its one value is unspecified; 0 here), and the keyword
  arguments \<open>inputFile\<close> and \<open>outputFile\<close> set the file names (compared with
  \<open>is\<close>, which holds for CPython's interned literals). Other keywords are ignored. A
  keyword's value is stored as given, \<open>None\<close> included: the command line passes
  unset options.
\<close>

definition steganographer_init :: "(string \<times> py_name) list \<Rightarrow> steganographer" where
  "steganographer_init kwargs =
     foldl (\<lambda>st (arg, v). if arg = ''inputFile'' then st\<lparr>input_file := v\<rparr>
                         else if arg = ''outputFile'' then st\<lparr>output_file := v\<rparr> else st)
       \<lparr>input_file = Some [], output_file = Some [], image_data = [[[0]]], color_mode = [],
        color_size = 0, image_size = (0, 0), max_bits_storable = 0\<rparr>
       kwargs"

text \<open>The color-mode table of \<open>initialize_image_data\<close> (alpha is never written).\<close>

definition color_size_of_mode :: "string \<Rightarrow> nat option" where
  "color_size_of_mode mode =
     (if mode = ''RGB'' then Some 3
      else if mode = ''RGBA'' then Some 3
      else if mode = ''CMYK'' then Some 4
      else if mode = ''YCbCr'' then Some 4
      else None)"

definition initialize_image_data ::
  "filesystem \<Rightarrow> steganographer \<Rightarrow> (py_error + unit) \<times> steganographer" where
  "initialize_image_data fs st =
     (if input_file st = Some [] then (Inl NoInputFile, st)
      else case input_file st of
        None \<Rightarrow> (Inl (AttributeError ''read''), st)
      | Some f \<Rightarrow>
      case fs f of
        None \<Rightarrow> (Inl IOError, st)
      | Some im \<Rightarrow>
          let st1 = st\<lparr>image_data := pil_data im, color_mode := pil_mode im,
                       image_size := pil_size im\<rparr>
          in case color_size_of_mode (pil_mode im) of
               None \<Rightarrow> (Inl UnsupportedColorModel, st1)
             | Some cs \<Rightarrow>
                 (Inr (), st1\<lparr>color_size := cs,
                             max_bits_storable := fst (pil_size im) * snd (pil_size im) * cs\<rparr>))"

text \<open>\<open>self.__image_data.shape == (1, 1, 1)\<close>: the test for a fresh object.\<close>

definition unit_shape :: "image \<Rightarrow> bool" where
  "unit_shape data = (case data of [[[_]]] \<Rightarrow> True | _ \<Rightarrow> False)"

definition ensure_initialized ::
  "filesystem \<Rightarrow> steganographer \<Rightarrow> (py_error + unit) \<times> steganographer" where
  "ensure_initialized fs st =
     (if unit_shape (image_data st) then initialize_image_data fs st else (Inr (), st))"

text \<open>
  The frame of \<open>encode_image\<close>: the 32-bit length, the message bits, then
  \<open>color_size - len % color_size\<close> zero bits (\<open>%\<close> by zero raises); the
  parameter \<open>colors\<close> is \<open>self.__color_size\<close>.
\<close>

definition encode_bit_sequence :: "nat \<Rightarrow> pystr \<Rightarrow> py_error + bits" where
  "encode_bit_sequence colors message =
     (let bit_sequence = int_to_bin_list (length message) @ message_to_bin_list message
      in if colors = 0 then Inl ZeroDivisionError
         else Inr (bit_sequence @ replicate (colors - length bit_sequence mod colors) 0))"

definition fromarray :: "image \<Rightarrow> py_error + pil_image" where
  "fromarray data =
     (case data of
        (px # _) # _ \<Rightarrow>
          if length px = 3
          then Inr \<lparr>pil_data = data, pil_mode = ''RGB'', pil_size = (length (hd data), length data)\<rparr>
          else if length px = 4
          then Inr \<lparr>pil_data = data, pil_mode = ''RGBA'', pil_size = (length (hd data), length data)\<rparr>
          else Inl FromArrayError
      | _ \<Rightarrow> Inl FromArrayError)"

definition save_output_image ::
  "(string \<Rightarrow> bool) \<Rightarrow> filesystem \<Rightarrow> steganographer \<Rightarrow> py_error + filesystem" where
  "save_output_image writable fs st =
     (case fromarray (image_data st) of
        Inl e \<Rightarrow> Inl e
      | Inr im \<Rightarrow>
          (case output_file st of
             None \<Rightarrow> Inl SaveError
           | Some f \<Rightarrow> if writable f then Inr (fs(f \<mapsto> im)) else Inl IOError))"

definition encode_image ::
  "(string \<Rightarrow> bool) \<Rightarrow> filesystem \<Rightarrow> pystr \<Rightarrow> steganographer \<Rightarrow> (py_error + unit) \<times> steganographer \<times> filesystem" where
  "encode_image writable fs message st =
     (if output_file st = Some [] then (Inl NoOutputFile, st, fs)
      else case ensure_initialized fs st of
        (Inl e, st1) \<Rightarrow> (Inl e, st1, fs)
      | (Inr _, st1) \<Rightarrow>
          if message = [] then (Inl EmptyMessage, st1, fs)
          else case encode_bit_sequence (color_size st1) message of
            Inl e \<Rightarrow> (Inl e, st1, fs)
          | Inr bit_sequence \<Rightarrow>
              if max_bits_storable st1 \<le> length bit_sequence
              then (Inl (if input_file st1 = None then TypeError else MessageTooLarge), st1, fs)
              else
                let st2 = st1\<lparr>image_data := embed_bits (image_data st1) bit_sequence
                                                (image_size st1) (color_size st1)\<rparr>
                in case save_output_image writable fs st2 of
                     Inl e \<Rightarrow> (Inl e, st2, fs)
                   | Inr fs' \<Rightarrow> (Inr (), st2, fs'))"

text \<open>
  \<open>for index in range(32, message_bit_length + 32): message_list.append(total_list[index])\<close>
\<close>

definition extract_message_bits :: "bits \<Rightarrow> nat \<Rightarrow> py_error + bits" where
  "extract_message_bits total_list message_bit_length =
     (if message_bit_length = 0 \<or> message_bit_length + 32 \<le> length total_list
      then Inr (map (\<lambda>index. total_list ! index) [32..<message_bit_length + 32])
      else Inl IndexError)"

definition decode_image ::
  "filesystem \<Rightarrow> steganographer \<Rightarrow> (py_error + pystr) \<times> steganographer" where
  "decode_image fs st =
     (case ensure_initialized fs st of
        (Inl e, st1) \<Rightarrow> (Inl e, st1)
      | (Inr _, st1) \<Rightarrow>
          let slots = scan_slots (image_size st1) (color_size st1);
              len_list = read_lsbs (image_data st1) 32 slots 0
          in case bin_list_to_int len_list of
               Inl e \<Rightarrow> (Inl e, st1)
             | Inr message_length \<Rightarrow>
                 let message_bit_length = message_length * 8;
                     total_list = read_lsbs (image_data st1) (message_bit_length + 32) slots 0
                 in case extract_message_bits total_list message_bit_length of
                      Inl e \<Rightarrow> (Inl e, st1)
                    | Inr message_list \<Rightarrow> (bin_list_to_message message_list, st1))"

text \<open>
  The length of the frame \<open>encode_image\<close> builds for an \<open>n\<close>-character message
  (a specification-side helper, stated with the code's padding rule).
\<close>

definition frame_length :: "nat \<Rightarrow> nat \<Rightarrow> nat" where
  "frame_length colors n = (32 + 8 * n) + (colors - (32 + 8 * n) mod colors)"

section \<open>Lemmas\<close>

lemma mod_pad_zero: "0 < (c::nat) \<Longrightarrow> (x + c - x mod c) mod c = 0"
proof -
  assume c: "0 < c"
  have "x div c * c + x mod c = x" by (rule div_mult_mod_eq)
  moreover have "x mod c < c" using c by simp
  ultimately have "x + c - x mod c = x div c * c + c" by linarith
  then show ?thesis by simp
qed

lemma map_nth_append_range:
  "map (\<lambda>i. (xs @ ys @ zs) ! i) [length xs..<length xs + length ys] = ys"
  by (rule nth_equalityI) (simp_all add: nth_append)

lemma unit_shape_iff: "unit_shape d \<longleftrightarrow> map (map length) d = [[1]]"
proof
  assume "unit_shape d"
  then show "map (map length) d = [[1]]"
    by (simp add: unit_shape_def split: list.splits)
next
  assume m: "map (map length) d = [[1]]"
  then obtain r where "d = [r]" "map length r = [1]" by (cases d) (auto simp: map_eq_Cons_conv)
  moreover then obtain px where "r = [px]" "length px = 1" by (auto simp: map_eq_Cons_conv)
  moreover then obtain v where "px = [v]" by (auto simp: length_Suc_conv)
  ultimately show "unit_shape d" by (simp add: unit_shape_def)
qed

lemma not_unit_shape_long: "1 < length data \<Longrightarrow> \<not> unit_shape data"
  by (auto simp: unit_shape_def split: list.splits)

lemma unit_shape_shape:
  "map (map length) d' = map (map length) d \<Longrightarrow> unit_shape d' = unit_shape d"
  by (simp add: unit_shape_iff)

lemma encode_bit_sequence_Inr:
  "0 < colors \<Longrightarrow> encode_bit_sequence colors m =
     Inr (int_to_bin_list (length m) @ message_to_bin_list m @
          replicate (colors - (32 + 8 * length m) mod colors) 0)"
  by (simp add: encode_bit_sequence_def)

lemma frame_facts:
  fixes colors :: nat and m :: pystr
  assumes "0 < colors"
  defines "bs \<equiv> int_to_bin_list (length m) @ message_to_bin_list m @
          replicate (colors - (32 + 8 * length m) mod colors) 0"
  shows "length bs = frame_length colors (length m)" and "length bs mod colors = 0"
    and "\<forall>b \<in> set bs. b < 2" and "32 + 8 * length m < length bs"
proof -
  show len: "length bs = frame_length colors (length m)"
    by (simp add: bs_def frame_length_def)
  then show "length bs mod colors = 0"
    using assms(1) by (simp add: frame_length_def mod_pad_zero)
  show "\<forall>b \<in> set bs. b < 2"
    by (auto simp: bs_def dest: int_to_bin_list_bits message_to_bin_list_bits)
  show "32 + 8 * length m < length bs"
    using assms(1) len mod_less_divisor [OF assms(1), of "32 + 8 * length m"]
    by (simp add: frame_length_def)
qed

lemma fromarray_rgb:
  assumes "wf_image d (wd, ht) 3" and "0 < wd" and "0 < ht"
  shows "fromarray d = Inr \<lparr>pil_data = d, pil_mode = ''RGB'', pil_size = (wd, ht)\<rparr>"
proof -
  obtain row rows where d: "d = row # rows" using assms(1,3) by (cases d) (auto simp: wf_image_def)
  with assms have row: "length row = wd" "\<forall>px \<in> set row. length px = 3" by (auto simp: wf_image_def)
  then obtain px pxs where r: "row = px # pxs" using assms(2) by (cases row) auto
  with row have "length px = 3" by simp
  with d r row(1) assms(1) show ?thesis by (simp add: fromarray_def wf_image_def)
qed

lemma decode_image_stream:
  assumes "\<not> unit_shape (image_data st)" and "wf_image (image_data st) (image_size st) nch"
    and "color_size st \<le> nch" and "length m < 2 ^ 32"
    and "lsb_stream (image_data st) (image_size st) (color_size st)
         = int_to_bin_list (length m) @ message_to_bin_list m @ rest"
  shows "decode_image fs st = (bin_list_to_message (message_to_bin_list m), st)"
proof -
  let ?s = "scan_slots (image_size st) (color_size st)"
  have rd: "read_lsbs (image_data st) l ?s 0 = take l (int_to_bin_list (length m) @ message_to_bin_list m @ rest)" for l
    using read_lsbs_stream [OF assms(2,3)] assms(5) by simp
  have len: "bin_list_to_int (read_lsbs (image_data st) 32 ?s 0) = Inr (length m)"
  proof -
    have "read_lsbs (image_data st) 32 ?s 0 = int_to_bin_list (length m) @ []"
      using rd [of 32] by simp
    then show ?thesis
      using assms(4) bin_list_to_int_int_to_bin_list [of "length m" "[]"] by simp
  qed
  have tot: "read_lsbs (image_data st) (length m * 8 + 32) ?s 0 = int_to_bin_list (length m) @ message_to_bin_list m"
    using rd [of "length m * 8 + 32"] by (simp add: add.commute mult.commute)
  have ex: "extract_message_bits (int_to_bin_list (length m) @ message_to_bin_list m) (length m * 8)
      = Inr (message_to_bin_list m)"
    using map_nth_append_range [of "int_to_bin_list (length m)" "message_to_bin_list m" "[]"]
    by (simp add: extract_message_bits_def add.commute mult.commute)
  have ens: "ensure_initialized fs st = (Inr (), st)"
    using assms(1) by (simp add: ensure_initialized_def)
  show ?thesis
    unfolding decode_image_def ens Let_def prod.case sum.case len tot ex ..
qed


text \<open>
  On an initialized RGB object with a fitting message, \<open>encode_image\<close> embeds the frame
  into the object's image and then saves it: the result is whatever saving gives.
\<close>

lemma encode_image_rgb_save:
  assumes "\<not> unit_shape (image_data st)" and "output_file st = Some out" and "out \<noteq> []"
    and "color_size st = 3"
    and "max_bits_storable st = fst (image_size st) * snd (image_size st) * 3"
    and "wf_image (image_data st) (image_size st) 3"
    and "m \<noteq> []" and "frame_length 3 (length m) < max_bits_storable st"
  defines "bs \<equiv> int_to_bin_list (length m) @ message_to_bin_list m @
                replicate (3 - (32 + 8 * length m) mod 3) 0"
  defines "st' \<equiv> st\<lparr>image_data := embed_bits (image_data st) bs (image_size st) 3\<rparr>"
  shows "encode_image wr fs m st =
           (case save_output_image wr fs st' of Inl e \<Rightarrow> (Inl e, st', fs) | Inr fs' \<Rightarrow> (Inr (), st', fs'))"
proof -
  have lenbs: "length bs = frame_length 3 (length m)"
    using frame_facts(1) [of 3 m] by (simp add: bs_def)
  have ens: "ensure_initialized fs st = (Inr (), st)"
    using assms(1) by (simp add: ensure_initialized_def)
  have seq: "encode_bit_sequence 3 m = Inr bs"
    by (simp add: encode_bit_sequence_Inr bs_def)
  have fits: "\<not> max_bits_storable st \<le> length bs"
    by (simp only: not_le lenbs assms(8))
  show ?thesis
    unfolding encode_image_def ens prod.case sum.case Let_def st'_def assms(4) seq
    using assms(2,3,7) fits by simp
qed

lemma save_output_image_rgb:
  assumes "\<not> unit_shape (image_data st)" and "output_file st = Some out" and "out \<noteq> []"
    and "color_size st = 3"
    and "max_bits_storable st = fst (image_size st) * snd (image_size st) * 3"
    and "wf_image (image_data st) (image_size st) 3"
    and "m \<noteq> []" and "frame_length 3 (length m) < max_bits_storable st"
  defines "bs \<equiv> int_to_bin_list (length m) @ message_to_bin_list m @
                replicate (3 - (32 + 8 * length m) mod 3) 0"
  defines "st' \<equiv> st\<lparr>image_data := embed_bits (image_data st) bs (image_size st) 3\<rparr>"
  shows "save_output_image wr fs st' =
           (if wr out
            then Inr (fs(out \<mapsto>
                   \<lparr>pil_data = image_data st', pil_mode = ''RGB'', pil_size = image_size st\<rparr>))
            else Inl IOError)"
proof -
  obtain wd ht where sz: "image_size st = (wd, ht)" by fastforce
  from assms(8) have "frame_length 3 (length m) < wd * ht * 3"
    by (simp only: assms(5) sz fst_conv snd_conv)
  then have "0 < wd * ht * 3" by (rule le_less_trans [OF zero_le])
  then have "0 < wd \<and> 0 < ht" by simp
  then have pos: "0 < wd" "0 < ht" by (rule conjunct1, rule conjunct2)
  have shape: "map (map length) (image_data st') = map (map length) (image_data st)"
    by (simp add: st'_def embed_bits_def encode_pixels_shape)
  have wf': "wf_image (image_data st') (wd, ht) 3"
    using wf_image_shape [OF shape] assms(6) sz by simp
  show ?thesis
    using fromarray_rgb [OF wf' pos] sz by (simp add: save_output_image_def st'_def assms(2))
qed

lemma encode_image_rgb:
  assumes "\<not> unit_shape (image_data st)" and "output_file st = Some out" and "out \<noteq> []"
    and "color_size st = 3"
    and "max_bits_storable st = fst (image_size st) * snd (image_size st) * 3"
    and "wf_image (image_data st) (image_size st) 3"
    and "m \<noteq> []" and "frame_length 3 (length m) < max_bits_storable st"
    and "wr out"
  defines "bs \<equiv> int_to_bin_list (length m) @ message_to_bin_list m @
                replicate (3 - (32 + 8 * length m) mod 3) 0"
  defines "st' \<equiv> st\<lparr>image_data := embed_bits (image_data st) bs (image_size st) 3\<rparr>"
  shows "encode_image wr fs m st =
           (Inr (), st', fs(out \<mapsto>
              \<lparr>pil_data = image_data st', pil_mode = ''RGB'', pil_size = image_size st\<rparr>))"
  using encode_image_rgb_save [OF assms(1-8), of wr fs] save_output_image_rgb [OF assms(1-8), of wr fs] assms(9)
  by (simp add: st'_def bs_def)

lemma save_output_image_error:
  "save_output_image wr fs st = Inl e \<Longrightarrow> e = FromArrayError \<or> e = IOError \<or> e = SaveError"
  by (auto simp: save_output_image_def fromarray_def split: sum.splits list.splits if_splits option.splits)

lemma encode_image_stages:
  assumes "output_file st \<noteq> Some []" and "\<not> unit_shape (image_data st)" and "0 < color_size st"
    and "m \<noteq> []"
  shows "fst (encode_image wr fs m st) =
           (if max_bits_storable st \<le> frame_length (color_size st) (length m)
            then Inl (if input_file st = None then TypeError else MessageTooLarge)
            else case save_output_image wr fs (st\<lparr>image_data := embed_bits (image_data st)
                    (int_to_bin_list (length m) @ message_to_bin_list m @
                     replicate (color_size st - (32 + 8 * length m) mod color_size st) 0)
                    (image_size st) (color_size st)\<rparr>) of
                   Inl e \<Rightarrow> Inl e | Inr _ \<Rightarrow> Inr ())"
proof -
  have ens: "ensure_initialized fs st = (Inr (), st)"
    using assms(2) by (simp add: ensure_initialized_def)
  have len: "length (int_to_bin_list (length m) @ message_to_bin_list m @
      replicate (color_size st - (32 + 8 * length m) mod color_size st) 0) = frame_length (color_size st) (length m)"
    by (simp add: frame_length_def)
  show ?thesis
    unfolding encode_image_def ens prod.case
    using assms(1,3,4) len by (simp add: encode_bit_sequence_Inr Let_def split: sum.split)
qed

lemma encode_colors_blocked:
  assumes "encode_colors data seq w h [0..<cs] i [0, 0, 0] = Inr (bl', i')"
  shows "cs \<le> 3" and "length bl' = 3"
proof -
  have "\<forall>c \<in> set [0..<cs]. c < length [0, 0, (0::8 word)]"
    using encode_colors_Inr [OF assms] by blast
  then show "cs \<le> 3" by (cases "cs \<le> 3") auto
  show "length bl' = 3" using encode_colors_Inr [OF assms] by simp
qed

lemma encode_pixels_blocked:
  assumes "4 \<le> cs \<or> (\<forall>row \<in> set data. \<forall>px \<in> set row. length px \<noteq> 3)"
  shows "encode_pixels data seq cs ps i = data"
proof (cases ps)
  case Nil
  then show ?thesis by simp
next
  case (Cons p ps')
  obtain h w where p: "p = (h, w)" by fastforce
  show ?thesis
  proof (cases "encode_colors data seq w h [0..<cs] i [0, 0, 0]")
    case (Inl e)
    with Cons p show ?thesis by simp
  next
    case (Inr r)
    obtain bl' i' where r: "r = (bl', i')" by fastforce
    with Inr have cs: "cs \<le> 3" and l3: "length bl' = 3" using encode_colors_blocked by blast+
    have "store_pixel data w h bl' \<noteq> Inr d" for d
    proof
      assume "store_pixel data w h bl' = Inr d"
      then have "w < length data" "h < length (data ! w)" "length (data ! w ! h) = 3"
        using l3 by (simp_all add: store_pixel_Inr)
      moreover have "\<forall>row \<in> set data. \<forall>px \<in> set row. length px \<noteq> 3" using assms cs by simp
      ultimately show False by (meson nth_mem)
    qed
    then obtain e where "store_pixel data w h bl' = Inl e" by (cases "store_pixel data w h bl'") auto
    with Cons p Inr r show ?thesis by simp
  qed
qed

lemma embed_frame:
  assumes "\<not> unit_shape (image_data st)" and "output_file st = Some out" and "out \<noteq> []"
    and "color_size st = 3"
    and "max_bits_storable st = fst (image_size st) * snd (image_size st) * 3"
    and "wf_image (image_data st) (image_size st) 3"
    and "m \<noteq> []" and "frame_length 3 (length m) < max_bits_storable st"
  defines "bs \<equiv> int_to_bin_list (length m) @ message_to_bin_list m @
                replicate (3 - (32 + 8 * length m) mod 3) 0"
  defines "d \<equiv> embed_bits (image_data st) bs (image_size st) 3"
  shows "wf_image d (image_size st) 3" and "\<not> unit_shape d"
    and "lsb_stream d (image_size st) 3 = int_to_bin_list (length m) @ message_to_bin_list m @
           (replicate (3 - (32 + 8 * length m) mod 3) 0 @ drop (length bs) (lsb_stream (image_data st) (image_size st) 3))"
proof -
  have facts: "length bs = frame_length 3 (length m)" "length bs mod 3 = 0" "\<forall>b \<in> set bs. b < 2"
    using frame_facts [of 3 m] by (simp_all add: bs_def)
  have shape: "map (map length) d = map (map length) (image_data st)"
    by (simp add: d_def embed_bits_def encode_pixels_shape)
  have "length bs < max_bits_storable st" using facts(1) assms(8) by simp
  then have le: "length bs \<le> 3 * (fst (image_size st) * snd (image_size st))"
    using assms(5) by (simp add: mult.commute)
  have "lsb_stream d (image_size st) 3 = bs @ drop (length bs) (lsb_stream (image_data st) (image_size st) 3)"
    using embed_bits_stream [OF assms(6) facts(3,2) le] by (simp add: d_def)
  then show "lsb_stream d (image_size st) 3 = int_to_bin_list (length m) @ message_to_bin_list m @
      (replicate (3 - (32 + 8 * length m) mod 3) 0 @ drop (length bs) (lsb_stream (image_data st) (image_size st) 3))"
    by (simp add: bs_def)
  show "wf_image d (image_size st) 3" using wf_image_shape [OF shape] assms(6) by simp
  show "\<not> unit_shape d" using assms(1) unit_shape_shape [OF shape] by simp
qed

lemma encode_image_rgb_frame:
  assumes "\<not> unit_shape (image_data st)" and "output_file st = Some out" and "out \<noteq> []"
    and "color_size st = 3"
    and "max_bits_storable st = fst (image_size st) * snd (image_size st) * 3"
    and "wf_image (image_data st) (image_size st) 3"
    and "m \<noteq> []" and "frame_length 3 (length m) < max_bits_storable st"
    and "wr out"
  obtains d rest where
    "encode_image wr fs m st = (Inr (), st\<lparr>image_data := d\<rparr>, fs(out \<mapsto>
              \<lparr>pil_data = d, pil_mode = ''RGB'', pil_size = image_size st\<rparr>))"
    and "wf_image d (image_size st) 3" and "\<not> unit_shape d"
    and "lsb_stream d (image_size st) 3 = int_to_bin_list (length m) @ message_to_bin_list m @ rest"
  using encode_image_rgb [where wr = wr, OF assms, of fs] embed_frame [OF assms(1-8)] that by simp

lemma decode_image_reinit:
  "ensure_initialized fs st = (Inr (), st1) \<Longrightarrow> \<not> unit_shape (image_data st1) \<Longrightarrow>
   decode_image fs st = decode_image fs st1"
  by (simp add: decode_image_def ensure_initialized_def)

lemma decode_image_message:
  assumes "\<not> unit_shape (image_data st)" and "wf_image (image_data st) (image_size st) 3"
    and "color_size st = 3" and "\<forall>c \<in> set m. c < 256" and "length m < 2 ^ 32"
    and "lsb_stream (image_data st) (image_size st) 3 = int_to_bin_list (length m) @ message_to_bin_list m @ rest"
  shows "decode_image fs st = (Inr m, st)"
proof -
  have "decode_image fs st = (bin_list_to_message (message_to_bin_list m), st)"
    using assms by (intro decode_image_stream [where nch = 3]) simp_all
  moreover have "map (\<lambda>c. c mod 256) m = m" using assms(4) by (simp add: map_idI)
  ultimately show ?thesis by (simp add: bin_list_to_message_message_to_bin_list)
qed

lemma decode_image_fresh:
  assumes "unit_shape (image_data st)" and "input_file st = Some f" and "f \<noteq> []"
    and "fs f = Some \<lparr>pil_data = d, pil_mode = ''RGB'', pil_size = sz\<rparr>"
    and "wf_image d sz 3" and "\<not> unit_shape d" and "\<forall>c \<in> set m. c < 256" and "length m < 2 ^ 32"
    and "lsb_stream d sz 3 = int_to_bin_list (length m) @ message_to_bin_list m @ rest"
  shows "fst (decode_image fs st) = Inr m"
proof -
  define st1 where "st1 = st\<lparr>image_data := d, color_mode := ''RGB'', image_size := sz,
     color_size := 3, max_bits_storable := fst sz * snd sz * 3\<rparr>"
  have init: "ensure_initialized fs st = (Inr (), st1)"
    using assms(1-4)
    by (simp add: ensure_initialized_def initialize_image_data_def color_size_of_mode_def st1_def)
  have "decode_image fs st1 = (Inr m, st1)"
    using assms(5-9) by (intro decode_image_message) (simp_all add: st1_def)
  then show ?thesis
    using decode_image_reinit [OF init] assms(6) by (simp add: st1_def)
qed

lemma ensure_ready: "\<not> unit_shape (image_data st) \<Longrightarrow> ensure_initialized fs st = (Inr (), st)"
  by (simp add: ensure_initialized_def)

lemma decode_ready_not_unsupported:
  "\<not> unit_shape (image_data st) \<Longrightarrow> fst (decode_image fs st) \<noteq> Inl UnsupportedColorModel"
  by (auto simp: decode_image_def ensure_ready Let_def bin_list_to_int_def extract_message_bits_def
      dest: bin_list_to_message_error split: sum.splits if_splits)

lemma decode_image_Inr:
  assumes "decode_image fs st = (Inr m, st')"
  obtains st1 n ml where "ensure_initialized fs st = (Inr (), st1)"
    and "bin_list_to_int (read_lsbs (image_data st1) 32 (scan_slots (image_size st1) (color_size st1)) 0) = Inr n"
    and "extract_message_bits (read_lsbs (image_data st1) (n * 8 + 32)
          (scan_slots (image_size st1) (color_size st1)) 0) (n * 8) = Inr ml"
    and "bin_list_to_message ml = Inr m"
proof -
  obtain r st1 where e: "ensure_initialized fs st = (r, st1)" by fastforce
  define slots where "slots = scan_slots (image_size st1) (color_size st1)"
  show ?thesis
  proof (cases r)
    case (Inl err)
    with assms e show ?thesis by (simp add: decode_image_def)
  next
    case r: (Inr u)
    show ?thesis
    proof (cases "bin_list_to_int (read_lsbs (image_data st1) 32 slots 0)")
      case (Inl err)
      with assms e r show ?thesis by (simp add: decode_image_def Let_def slots_def)
    next
      case n: (Inr n)
      show ?thesis
      proof (cases "extract_message_bits (read_lsbs (image_data st1) (n * 8 + 32) slots 0) (n * 8)")
        case (Inl err)
        with assms e r n show ?thesis by (simp add: decode_image_def Let_def slots_def)
      next
        case ml: (Inr ml)
        have "bin_list_to_message ml = Inr m"
          using assms e r n ml by (simp add: decode_image_def Let_def slots_def)
        with that e r n ml show ?thesis by (simp add: slots_def)
      qed
    qed
  qed
qed

lemma extract_message_bits_bits:
  assumes "extract_message_bits (read_lsbs data l slots i) k = Inr ml"
  shows "\<forall>b \<in> set ml. b < 2"
proof
  fix b assume b: "b \<in> set ml"
  let ?total = "read_lsbs data l slots i"
  have ml: "ml = map (\<lambda>index. ?total ! index) [32..<k + 32]"
    and len: "k = 0 \<or> k + 32 \<le> length ?total"
    using assms by (simp_all add: extract_message_bits_def split: if_splits)
  from b ml obtain j where j: "32 \<le> j" "j < k + 32" "b = ?total ! j" by auto
  then have "j < length ?total" using len by auto
  then show "b < 2" using read_lsbs_bits [OF nth_mem] j(3) by blast
qed

section \<open>Properties\<close>

text \<open>
  C1. Round trip through one object: on a well-formed RGB image held by an initialized
  object (three channels written per pixel, capacity width * height * 3), encoding a
  non-empty message of byte-sized characters, shorter than 2^32, whose frame is below the
  capacity, succeeds and saves the image; decoding the object afterwards returns exactly
  the message.
\<close>

theorem encode_decode_roundtrip:
  assumes "\<not> unit_shape (image_data st)" and "output_file st = Some out" and "out \<noteq> []"
    and "color_size st = 3"
    and "max_bits_storable st = fst (image_size st) * snd (image_size st) * 3"
    and "wf_image (image_data st) (image_size st) 3"
    and "m \<noteq> []" and "\<forall>c \<in> set m. c < 256" and "length m < 2 ^ 32"
    and "frame_length 3 (length m) < max_bits_storable st" and "wr out"
  shows "\<exists>st' fs'. encode_image wr fs m st = (Inr (), st', fs') \<and> decode_image fs'' st' = (Inr m, st')"
proof -
  obtain d rest where enc: "encode_image wr fs m st = (Inr (), st\<lparr>image_data := d\<rparr>, fs(out \<mapsto>
              \<lparr>pil_data = d, pil_mode = ''RGB'', pil_size = image_size st\<rparr>))"
    and d: "wf_image d (image_size st) 3" "\<not> unit_shape d"
      "lsb_stream d (image_size st) 3 = int_to_bin_list (length m) @ message_to_bin_list m @ rest"
    using encode_image_rgb_frame [where wr = wr, OF assms(1-7,10,11)] by blast
  have "decode_image fs'' (st\<lparr>image_data := d\<rparr>) = (Inr m, st\<lparr>image_data := d\<rparr>)"
    using d assms(4,8,9) by (intro decode_image_message) simp_all
  with enc show ?thesis by blast
qed


text \<open>
  On an initialized object with an output file name, encoding the empty message
  raises the empty-message ValueError and changes neither the object nor any file.
\<close>

theorem encode_empty_message:
  assumes "output_file st \<noteq> Some []" and "\<not> unit_shape (image_data st)"
  shows "encode_image wr fs [] st = (Inl EmptyMessage, st, fs)"
  using assms by (simp add: encode_image_def ensure_initialized_def)

text \<open>
  C17. Capacity check: on an initialized object with an output file name and a non-zero
  channel count, encoding a non-empty message fails with MessageTooLarge exactly when the
  padded frame length reaches \<open>max_bits_storable\<close> (a frame that fills the capacity
  exactly is rejected too).
\<close>

theorem encode_capacity:
  assumes "output_file st \<noteq> Some []" and "\<not> unit_shape (image_data st)" and "0 < color_size st"
    and "m \<noteq> []" and "input_file st \<noteq> None"
  shows "fst (encode_image wr fs m st) = Inl MessageTooLarge \<longleftrightarrow>
         max_bits_storable st \<le> frame_length (color_size st) (length m)"
  using encode_image_stages [OF assms(1-4), of wr fs] assms(5)
  by (auto split: sum.splits dest: save_output_image_error)

text \<open>
  C18. The frame is padded to a multiple of the channel count with between 1 and
  \<open>color_size\<close> zero bits: the padding is never empty, so an already aligned
  length still gets a whole group of \<open>color_size\<close> zeros.
\<close>

theorem frame_padding:
  assumes "0 < colors" and "encode_bit_sequence colors m = Inr bs"
  shows "length bs mod colors = 0 \<and> 32 + 8 * length m < length bs \<and>
         length bs \<le> 32 + 8 * length m + colors"
proof -
  have bs: "bs = int_to_bin_list (length m) @ message_to_bin_list m @
      replicate (colors - (32 + 8 * length m) mod colors) 0"
    using assms by (simp add: encode_bit_sequence_Inr)
  show ?thesis
    using frame_facts(2,4) [OF assms(1), of m] bs by (simp add: add.assoc)
qed

text \<open>
  C9. The encoding loop writes nothing when the channel count is 4 (CMYK, YCbCr) or the
  image has no 3-channel pixel (RGBA): the three-slot \<open>__bitList\<close> raises IndexError
  at the fourth channel, or its assignment to a 4-channel pixel raises ValueError, and
  \<open>except Exception: pass\<close> ends the loop before the first pixel is stored. The image
  array of the object is unchanged, whatever \<open>encode_image\<close> returns.
\<close>

theorem encode_non_rgb_unchanged:
  assumes "\<not> unit_shape (image_data st)"
    and "4 \<le> color_size st \<or> (\<forall>row \<in> set (image_data st). \<forall>px \<in> set row. length px \<noteq> 3)"
  shows "image_data (fst (snd (encode_image wr fs m st))) = image_data st"
  using assms encode_pixels_blocked [OF assms(2)]
  by (simp add: encode_image_def ensure_initialized_def embed_bits_def Let_def
      split: sum.split prod.split)

text \<open>
  C33. A length field that promises more bits than the image holds: when the first 32
  LSBs decode to a non-zero length \<open>n\<close> and the image has fewer than
  \<open>32 + 8 n\<close> LSB slots, the reading loop stops at the last pixel and the slice of
  \<open>decode_image\<close> raises IndexError (the object is left unchanged).
\<close>

theorem decode_length_overrun:
  assumes "\<not> unit_shape (image_data st)" and "wf_image (image_data st) (image_size st) nch"
    and "color_size st \<le> nch"
    and "bin_list_to_int (take 32 (lsb_stream (image_data st) (image_size st) (color_size st))) = Inr n"
    and "0 < n" and "length (lsb_stream (image_data st) (image_size st) (color_size st)) < n * 8 + 32"
  shows "decode_image fs st = (Inl IndexError, st)"
proof -
  let ?s = "lsb_stream (image_data st) (image_size st) (color_size st)"
  have rd: "read_lsbs (image_data st) l (scan_slots (image_size st) (color_size st)) 0 = take l ?s" for l
    using read_lsbs_stream [OF assms(2,3)] .
  have ex: "extract_message_bits (take (n * 8 + 32) ?s) (n * 8) = Inl IndexError"
    using assms(5,6) by (simp add: extract_message_bits_def)
  have ens: "ensure_initialized fs st = (Inr (), st)"
    using assms(1) by (simp add: ensure_initialized_def)
  show ?thesis
    unfolding decode_image_def ens Let_def prod.case sum.case rd assms(4) ex ..
qed

text \<open>
  C22. A YCbCr image has three bands, but the mode table gives it four channels: on such an
  object (three channels per pixel, \<open>color_size\<close> 4) the reading loop stops at the
  fourth channel of the first pixel, and \<open>decode_image\<close> raises IndexError in
  \<open>bin_list_to_int\<close>, whatever the image holds.
\<close>

theorem decode_three_band_four_channels:
  assumes "\<not> unit_shape (image_data st)" and "color_size st = 4"
    and "wf_image (image_data st) (image_size st) 3"
  shows "decode_image fs st = (Inl IndexError, st)"
proof -
  have "length (read_lsbs (image_data st) 32 (scan_slots (image_size st) (color_size st)) 0) < 32"
    using read_lsbs_three_band [OF assms(3), of 32] assms(2) by simp
  then show ?thesis
    using assms(1) by (simp add: decode_image_def ensure_ready bin_list_to_int_def)
qed

text \<open>
  C24. Saving comes last: when the output file cannot be written, \<open>encode_image\<close>
  raises IOError and writes no file, but the object already holds the embedded image, so
  \<open>decode_image\<close> on the same object returns the message.
\<close>

theorem encode_unwritable_output:
  assumes "\<not> unit_shape (image_data st)" and "output_file st = Some out" and "out \<noteq> []"
    and "color_size st = 3"
    and "max_bits_storable st = fst (image_size st) * snd (image_size st) * 3"
    and "wf_image (image_data st) (image_size st) 3"
    and "m \<noteq> []" and "frame_length 3 (length m) < max_bits_storable st"
    and "\<not> wr out" and "\<forall>c \<in> set m. c < 256" and "length m < 2 ^ 32"
  shows "\<exists>st'. encode_image wr fs m st = (Inl IOError, st', fs) \<and> decode_image fs'' st' = (Inr m, st')"
proof -
  define bs where "bs = int_to_bin_list (length m) @ message_to_bin_list m @
                replicate (3 - (32 + 8 * length m) mod 3) 0"
  define st' where "st' = st\<lparr>image_data := embed_bits (image_data st) bs (image_size st) 3\<rparr>"
  have enc: "encode_image wr fs m st = (Inl IOError, st', fs)"
    using encode_image_rgb_save [OF assms(1-8), of wr fs] save_output_image_rgb [OF assms(1-8), of wr fs]
      assms(9)
    by (simp add: st'_def bs_def)
  have "decode_image fs'' st' = (Inr m, st')"
    using embed_frame [OF assms(1-8)] assms(4,10,11)
    by (intro decode_image_message) (simp_all add: st'_def bs_def)
  with enc show ?thesis by blast
qed

text \<open>
  C29. Whatever the image holds, a string \<open>decode_image\<close> returns consists of byte values:
  every character is assembled from eight least significant bits.
\<close>

theorem decode_image_bytes:
  assumes "decode_image fs st = (Inr m, st')"
  shows "\<forall>c \<in> set m. c < 256"
proof -
  obtain st1 n ml where "ensure_initialized fs st = (Inr (), st1)"
    and "bin_list_to_int (read_lsbs (image_data st1) 32 (scan_slots (image_size st1) (color_size st1)) 0) = Inr n"
    and x: "extract_message_bits (read_lsbs (image_data st1) (n * 8 + 32)
          (scan_slots (image_size st1) (color_size st1)) 0) (n * 8) = Inr ml"
    and bm: "bin_list_to_message ml = Inr m"
    by (rule decode_image_Inr [OF assms])
  have "\<forall>b \<in> set ml. b < 2" using x by (rule extract_message_bits_bits)
  moreover have "bin_list_to_message_loop ml [] 0 [] = Inr m"
    using bm by (simp add: bin_list_to_message_def split: if_splits)
  ultimately show ?thesis
    using bin_list_to_message_loop_bytes [where list_tmp = "[]" and bl = ml and message = "[]" and k = 0]
    by simp
qed

section \<open>Witnesses\<close>

text \<open>Unfolding rules that run the methods on concrete objects.\<close>

lemmas engine_eval = encode_image_def ensure_initialized_def not_unit_shape_long encode_bit_sequence_def
  save_output_image_def fromarray_def frame_length_def initialize_image_data_def
  color_size_of_mode_def steganographer_init_def

theorem encode_decode_roundtrip_witness:
  "\<exists>st' fs'. encode_image (\<lambda>n. True) Map.empty [65]
      \<lparr>input_file = Some ''in.png'', output_file = Some ''out.png'', image_data = replicate 4 (replicate 4 [0, 0, 0]),
       color_mode = ''RGB'', color_size = 3, image_size = (4, 4), max_bits_storable = 48\<rparr> = (Inr (), st', fs') \<and>
    decode_image Map.empty st' = (Inr [65], st')"
  by (rule encode_decode_roundtrip) (simp_all add: engine_eval wf_image_def not_unit_shape_long)+

theorem encode_empty_message_witness:
  "encode_image (\<lambda>n. True) Map.empty []
      \<lparr>input_file = Some ''in.png'', output_file = Some ''out.png'', image_data = replicate 4 (replicate 4 [0, 0, 0]),
       color_mode = ''RGB'', color_size = 3, image_size = (4, 4), max_bits_storable = 48\<rparr>
   = (Inl EmptyMessage, \<lparr>input_file = Some ''in.png'', output_file = Some ''out.png'',
       image_data = replicate 4 (replicate 4 [0, 0, 0]),
       color_mode = ''RGB'', color_size = 3, image_size = (4, 4), max_bits_storable = 48\<rparr>, Map.empty)"
  by (rule encode_empty_message) (simp_all add: not_unit_shape_long)

theorem encode_capacity_witness:
  "fst (encode_image (\<lambda>n. True) Map.empty [65, 66, 67, 68, 69, 70]
      \<lparr>input_file = Some ''in.png'', output_file = Some ''out.png'', image_data = replicate 4 (replicate 4 [0, 0, 0]),
       color_mode = ''RGB'', color_size = 3, image_size = (4, 4), max_bits_storable = 48\<rparr>) = Inl MessageTooLarge"
  using encode_capacity [of "\<lparr>input_file = Some ''in.png'', output_file = Some ''out.png'',
       image_data = replicate 4 (replicate 4 [0, 0, 0]),
       color_mode = ''RGB'', color_size = 3, image_size = (4, 4), max_bits_storable = 48\<rparr>"
      "[65, 66, 67, 68, 69, 70]" "\<lambda>n. True" Map.empty]
  by (simp add: not_unit_shape_long frame_length_def)

theorem frame_padding_witness:
  "encode_bit_sequence 3 [65, 66] = Inr (int_to_bin_list 2 @ message_to_bin_list [65, 66] @ replicate 3 0) \<and>
   length (int_to_bin_list 2 @ message_to_bin_list [65, 66] @ replicate 3 0) = 51"
proof -
  have e: "encode_bit_sequence 3 [65, 66] = Inr (int_to_bin_list 2 @ message_to_bin_list [65, 66] @ replicate 3 0)"
    by (simp add: encode_bit_sequence_def numeral_2_eq_2)
  with frame_padding [OF _ e] show ?thesis by simp
qed

theorem encode_non_rgb_unchanged_witness:
  "fst (encode_image (\<lambda>n. True) Map.empty [65]
      \<lparr>input_file = Some ''in.tif'', output_file = Some ''out.png'', image_data = replicate 4 (replicate 4 [0, 0, 0, 0]),
       color_mode = ''CMYK'', color_size = 4, image_size = (4, 4), max_bits_storable = 64\<rparr>) = Inr () \<and>
   image_data (fst (snd (encode_image (\<lambda>n. True) Map.empty [65]
      \<lparr>input_file = Some ''in.tif'', output_file = Some ''out.png'', image_data = replicate 4 (replicate 4 [0, 0, 0, 0]),
       color_mode = ''CMYK'', color_size = 4, image_size = (4, 4), max_bits_storable = 64\<rparr>)))
   = replicate 4 (replicate 4 [0, 0, 0, 0])"
proof -
  have "image_data (fst (snd (encode_image (\<lambda>n. True) Map.empty [65]
      \<lparr>input_file = Some ''in.tif'', output_file = Some ''out.png'', image_data = replicate 4 (replicate 4 [0, 0, 0, 0]),
       color_mode = ''CMYK'', color_size = 4, image_size = (4, 4), max_bits_storable = 64\<rparr>)))
   = replicate 4 (replicate 4 [0, 0, 0, 0])"
    by (rule encode_non_rgb_unchanged [THEN trans]) (simp_all add: not_unit_shape_long)
  moreover have "fst (encode_image (\<lambda>n. True) Map.empty [65]
      \<lparr>input_file = Some ''in.tif'', output_file = Some ''out.png'', image_data = replicate 4 (replicate 4 [0, 0, 0, 0]),
       color_mode = ''CMYK'', color_size = 4, image_size = (4, 4), max_bits_storable = 64\<rparr>) = Inr ()"
    using encode_pixels_blocked [of 4 "replicate 4 (replicate 4 [0, 0, 0, 0])"]
    by (simp add: engine_eval embed_bits_def replicate_four)
  ultimately show ?thesis by simp
qed
theorem decode_length_overrun_witness:
  "decode_image Map.empty
      \<lparr>input_file = Some ''in.png'', output_file = Some [], image_data = replicate 4 (replicate 4 [1, 1, 1]),
       color_mode = ''RGB'', color_size = 3, image_size = (4, 4), max_bits_storable = 48\<rparr>
   = (Inl IndexError, \<lparr>input_file = Some ''in.png'', output_file = Some [], image_data = replicate 4 (replicate 4 [1, 1, 1]),
       color_mode = ''RGB'', color_size = 3, image_size = (4, 4), max_bits_storable = 48\<rparr>)"
  by (rule decode_length_overrun [where nch = 3 and n = "2 ^ 32 - 1"])
    (simp_all add: not_unit_shape_long wf_image_def scan_eval bin_list_to_int_def)

theorem decode_three_band_four_channels_witness:
  "decode_image Map.empty \<lparr>input_file = Some ''in.jpg'', output_file = Some [], image_data = replicate 4 (replicate 4 [0, 0, 0]),
       color_mode = ''YCbCr'', color_size = 4, image_size = (4, 4), max_bits_storable = 64\<rparr> = (Inl IndexError, \<lparr>input_file = Some ''in.jpg'', output_file = Some [], image_data = replicate 4 (replicate 4 [0, 0, 0]),
       color_mode = ''YCbCr'', color_size = 4, image_size = (4, 4), max_bits_storable = 64\<rparr>)"
  by (rule decode_three_band_four_channels) (simp_all add: not_unit_shape_long wf_image_def)

theorem encode_unwritable_output_witness:
  "\<exists>st'. encode_image (\<lambda>n. False) Map.empty [65]
      \<lparr>input_file = Some ''in.png'', output_file = Some ''out.png'', image_data = replicate 4 (replicate 4 [0, 0, 0]),
       color_mode = ''RGB'', color_size = 3, image_size = (4, 4), max_bits_storable = 48\<rparr>
      = (Inl IOError, st', Map.empty) \<and> decode_image Map.empty st' = (Inr [65], st')"
  by (rule encode_unwritable_output) (simp_all add: engine_eval wf_image_def)+

theorem decode_image_bytes_witness:
  "decode_image Map.empty \<lparr>input_file = Some ''in.png'', output_file = Some ''out.png'', image_data = replicate 4 (replicate 4 [0, 0, 0]),
       color_mode = ''RGB'', color_size = 3, image_size = (4, 4), max_bits_storable = 48\<rparr> = (Inr [], \<lparr>input_file = Some ''in.png'', output_file = Some ''out.png'', image_data = replicate 4 (replicate 4 [0, 0, 0]),
       color_mode = ''RGB'', color_size = 3, image_size = (4, 4), max_bits_storable = 48\<rparr>) \<and> list_all (\<lambda>c. c < 256) ([] :: pystr)"
proof -
  have d: "decode_image Map.empty \<lparr>input_file = Some ''in.png'', output_file = Some ''out.png'', image_data = replicate 4 (replicate 4 [0, 0, 0]),
       color_mode = ''RGB'', color_size = 3, image_size = (4, 4), max_bits_storable = 48\<rparr> = (Inr [], \<lparr>input_file = Some ''in.png'', output_file = Some ''out.png'', image_data = replicate 4 (replicate 4 [0, 0, 0]),
       color_mode = ''RGB'', color_size = 3, image_size = (4, 4), max_bits_storable = 48\<rparr>)"
    by (rule decode_image_message [where rest = "[0, 0, 0, 0, 0, 0, 0, 0, 0, 0, 0, 0, 0, 0, 0, 0]"])
      (simp_all add: not_unit_shape_long wf_image_def scan_eval int_to_bin_list_def upt_rec)
  show ?thesis using decode_image_bytes [OF d] d by simp
qed

end
