(* ===== verification/Session.thy ===== *)
theory Session
  imports Engine
begin

text \<open>
  The life of one \<open>Steganographer\<close> object as a sequence of calls. A caller that
  catches the exceptions keeps using the object, so an operation (\<open>op\<close>) is an
  \<open>encode_image\<close> call, a \<open>decode_image\<close> call, or another process writing an
  image file; \<open>op_step\<close> applies one to the pair of the object and the file system,
  keeping the object as the call leaves it, and \<open>run_ops\<close> runs a sequence.
  \<open>reachable\<close> is the set of pairs a program can produce from a fresh object
  (\<open>Steganographer(**kwargs)\<close>) and a file system of images as PIL decodes them
  (\<open>fs_ok\<close>: a decoded image is never a 3-D array of shape (1, 1, 1); single-band
  images are 2-D in numpy). The invariant \<open>steg_inv\<close> relates the attributes to the
  color-mode table; \<open>lsb_variant st st'\<close> says that \<open>st'\<close> is \<open>st\<close> with an
  image that differs only in least significant bits.
\<close>

section \<open>Definitions\<close>

text \<open>Files as PIL decodes them: no image array has the fresh object's shape (1, 1, 1).\<close>

definition fs_ok :: "filesystem \<Rightarrow> bool" where
  "fs_ok fs \<longleftrightarrow> (\<forall>im \<in> ran fs. \<not> unit_shape (pil_data im))"

text \<open>
  The object invariant: a fresh object has no channel count; an object holding an image has
  either none (after an unsupported mode) or the table's count with the capacity computed
  from it.
\<close>

definition steg_inv :: "steganographer \<Rightarrow> bool" where
  "steg_inv st \<longleftrightarrow>
     (if unit_shape (image_data st) then color_size st = 0
      else color_size st = 0 \<or>
           (color_size_of_mode (color_mode st) = Some (color_size st) \<and>
            max_bits_storable st = fst (image_size st) * snd (image_size st) * color_size st))"

text \<open>One call on the object, or a write of an image file by another process.\<close>

datatype op = OpEncode pystr | OpDecode | OpWrite string pil_image

fun op_step :: "(string \<Rightarrow> bool) \<Rightarrow> op \<Rightarrow> steganographer \<times> filesystem \<Rightarrow> steganographer \<times> filesystem" where
  "op_step wr (OpEncode m) (st, fs) = snd (encode_image wr fs m st)"
| "op_step wr OpDecode (st, fs) = (snd (decode_image fs st), fs)"
| "op_step wr (OpWrite name im) (st, fs) = (st, fs(name \<mapsto> im))"

definition run_ops :: "(string \<Rightarrow> bool) \<Rightarrow> op list \<Rightarrow> steganographer \<times> filesystem \<Rightarrow> steganographer \<times> filesystem" where
  "run_ops wr ops c = foldl (\<lambda>c op. op_step wr op c) c ops"

text \<open>Writes by other processes store decoded images (see \<open>fs_ok\<close>).\<close>

fun op_ok :: "op \<Rightarrow> bool" where
  "op_ok (OpWrite name im) = (\<not> unit_shape (pil_data im))"
| "op_ok _ = True"

definition lsb_variant :: "steganographer \<Rightarrow> steganographer \<Rightarrow> bool" where
  "lsb_variant st st' \<longleftrightarrow>
     st' = st\<lparr>image_data := image_data st'\<rparr> \<and>
     hi_bits (image_data st') = hi_bits (image_data st) \<and>
     map (map length) (image_data st') = map (map length) (image_data st)"

inductive reachable :: "(string \<Rightarrow> bool) \<Rightarrow> steganographer \<times> filesystem \<Rightarrow> bool"
  for wr :: "string \<Rightarrow> bool" where
  init: "fs_ok fs \<Longrightarrow> reachable wr (steganographer_init kwargs, fs)"
| step: "reachable wr c \<Longrightarrow> op_ok op \<Longrightarrow> reachable wr (op_step wr op c)"

section \<open>Lemmas\<close>

lemma foldl_preserves: "(\<And>s x. P (f s x) = P s) \<Longrightarrow> P (foldl f s xs) = P s"
  by (induction xs arbitrary: s) simp_all

lemma steganographer_init_fields:
  "image_data (steganographer_init kw) = [[[0]]] \<and> color_size (steganographer_init kw) = 0"
proof -
  let ?P = "\<lambda>st. (image_data st, color_size st)"
  have "?P (steganographer_init kw) = ?P \<lparr>input_file = Some [], output_file = Some [], image_data = [[[0]]],
      color_mode = [], color_size = 0, image_size = (0, 0), max_bits_storable = 0\<rparr>"
    unfolding steganographer_init_def by (rule foldl_preserves) auto
  then show ?thesis by simp
qed

lemma fs_ok_upd: "fs_ok fs \<Longrightarrow> \<not> unit_shape (pil_data im) \<Longrightarrow> fs_ok (fs(n \<mapsto> im))"
  unfolding fs_ok_def ran_def by auto

lemma fs_ok_lookup: "fs_ok fs \<Longrightarrow> fs n = Some im \<Longrightarrow> \<not> unit_shape (pil_data im)"
  unfolding fs_ok_def ran_def by auto

lemma steg_inv_cs:
  "steg_inv st \<Longrightarrow> 0 < color_size st \<Longrightarrow> \<not> unit_shape (image_data st) \<and> 3 \<le> color_size st"
  by (auto simp: steg_inv_def color_size_of_mode_def split: if_splits)

lemma steg_inv_shape:
  "map (map length) d = map (map length) (image_data st) \<Longrightarrow> steg_inv (st\<lparr>image_data := d\<rparr>) = steg_inv st"
  using unit_shape_shape [of d "image_data st"] by (simp add: steg_inv_def)

lemma initialize_inv:
  assumes "steg_inv st" and "fs_ok fs" and "unit_shape (image_data st)"
    and "initialize_image_data fs st = (r, st1)"
  shows "steg_inv st1"
proof (cases "\<exists>f im. input_file st = Some f \<and> f \<noteq> [] \<and> fs f = Some im")
  case False
  with assms show ?thesis by (auto simp: initialize_image_data_def split: if_splits option.splits)
next
  case True
  then obtain f im where f: "input_file st = Some f" "f \<noteq> []" and im: "fs f = Some im" by blast
  have "\<not> unit_shape (pil_data im)" by (rule fs_ok_lookup [OF assms(2) im])
  moreover have "color_size st = 0" using assms(1,3) by (simp add: steg_inv_def)
  ultimately show ?thesis
    using assms(4) f im
    by (auto simp: initialize_image_data_def steg_inv_def color_size_of_mode_def Let_def
        split: if_splits)
qed

lemma ensure_inv:
  "steg_inv st \<Longrightarrow> fs_ok fs \<Longrightarrow> ensure_initialized fs st = (r, st1) \<Longrightarrow> steg_inv st1"
  by (auto simp: ensure_initialized_def intro: initialize_inv split: if_splits)

lemma embed_bits_shape:
  "map (map length) (embed_bits d bs sz cs) = map (map length) d"
  by (simp add: embed_bits_def encode_pixels_shape)

lemma fromarray_data: "fromarray d = Inr im \<Longrightarrow> pil_data im = d"
  by (auto simp: fromarray_def split: list.splits if_splits)

lemma save_fs_ok:
  "save_output_image wr fs st = Inr fs' \<Longrightarrow> fs_ok fs \<Longrightarrow> \<not> unit_shape (image_data st) \<Longrightarrow> fs_ok fs'"
  by (auto simp: save_output_image_def split: sum.splits if_splits option.splits dest: fromarray_data intro!: fs_ok_upd)

lemma encode_bit_sequence_pos: "encode_bit_sequence c m = Inr bs \<Longrightarrow> 0 < c"
  by (simp add: encode_bit_sequence_def Let_def split: if_splits)

lemma encode_image_object:
  assumes "output_file st \<noteq> Some []" and "ensure_initialized fs st = (r1, st1)"
    and "encode_image wr fs m st = (r, st', fs')"
  shows "(st' = st1 \<and> fs' = fs) \<or>
         (0 < color_size st1 \<and>
          (\<exists>bs. st' = st1\<lparr>image_data := embed_bits (image_data st1) bs (image_size st1) (color_size st1)\<rparr>) \<and>
          (fs' = fs \<or> save_output_image wr fs st' = Inr fs'))"
proof (cases r1)
  case (Inl e)
  with assms show ?thesis by (simp add: encode_image_def)
next
  case (Inr u)
  show ?thesis
  proof (cases "m = []")
    case True
    with assms Inr show ?thesis by (simp add: encode_image_def)
  next
    case False
    show ?thesis
    proof (cases "encode_bit_sequence (color_size st1) m")
      case (Inl e)
      with assms Inr False show ?thesis by (simp add: encode_image_def)
    next
      case Inr2: (Inr bs)
      have pos: "0 < color_size st1" by (rule encode_bit_sequence_pos [OF Inr2])
      let ?st2 = "st1\<lparr>image_data := embed_bits (image_data st1) bs (image_size st1) (color_size st1)\<rparr>"
      have "encode_image wr fs m st =
          (if max_bits_storable st1 \<le> length bs
           then (Inl (if input_file st1 = None then TypeError else MessageTooLarge), st1, fs)
           else case save_output_image wr fs ?st2 of Inl e \<Rightarrow> (Inl e, ?st2, fs) | Inr fs' \<Rightarrow> (Inr (), ?st2, fs'))"
        using assms(1,2) Inr False Inr2 by (simp add: encode_image_def Let_def)
      with assms(3) pos show ?thesis by (auto split: if_splits sum.splits)
    qed
  qed
qed

lemma encode_inv:
  assumes "steg_inv st" and "fs_ok fs" and "encode_image wr fs m st = (r, st', fs')"
  shows "steg_inv st' \<and> fs_ok fs'"
proof (cases "output_file st = Some []")
  case True
  with assms show ?thesis by (simp add: encode_image_def)
next
  case False
  obtain r1 st1 where e: "ensure_initialized fs st = (r1, st1)" by fastforce
  have inv1: "steg_inv st1" by (rule ensure_inv [OF assms(1,2) e])
  from encode_image_object [OF False e assms(3)] show ?thesis
  proof
    assume "st' = st1 \<and> fs' = fs"
    with inv1 assms(2) show ?thesis by simp
  next
    assume "0 < color_size st1 \<and>
          (\<exists>bs. st' = st1\<lparr>image_data := embed_bits (image_data st1) bs (image_size st1) (color_size st1)\<rparr>) \<and>
          (fs' = fs \<or> save_output_image wr fs st' = Inr fs')"
    then obtain bs where pos: "0 < color_size st1"
      and st': "st' = st1\<lparr>image_data := embed_bits (image_data st1) bs (image_size st1) (color_size st1)\<rparr>"
      and fs': "fs' = fs \<or> save_output_image wr fs st' = Inr fs'" by blast
    have "steg_inv st'" using inv1 steg_inv_shape [OF embed_bits_shape] st' by blast
    moreover have "\<not> unit_shape (image_data st')"
      using steg_inv_cs [OF inv1 pos] unit_shape_shape [OF embed_bits_shape] st' by simp
    ultimately show ?thesis using fs' assms(2) save_fs_ok by blast
  qed
qed

lemma decode_image_object: "snd (decode_image fs st) = snd (ensure_initialized fs st)"
  by (simp add: decode_image_def Let_def split: prod.split sum.split)

lemma op_step_inv:
  assumes "steg_inv (fst c)" and "fs_ok (snd c)" and "op_ok op"
  shows "steg_inv (fst (op_step wr op c)) \<and> fs_ok (snd (op_step wr op c))"
proof -
  obtain st fs where c: "c = (st, fs)" by fastforce
  show ?thesis
  proof (cases op)
    case (OpEncode m)
    obtain r st' fs' where e: "encode_image wr fs m st = (r, st', fs')" by (cases "encode_image wr fs m st") auto
    have "steg_inv st' \<and> fs_ok fs'" using assms(1,2) c by (intro encode_inv [OF _ _ e]) simp_all
    with c OpEncode e show ?thesis by simp
  next
    case OpDecode
    obtain r st1 where e: "ensure_initialized fs st = (r, st1)" by fastforce
    have "steg_inv st1" using assms(1,2) c by (intro ensure_inv [OF _ _ e]) simp_all
    with assms(2) c OpDecode e show ?thesis by (simp add: decode_image_object)
  next
    case (OpWrite n im)
    with assms c show ?thesis by (simp add: fs_ok_upd)
  qed
qed

lemma reachable_steg_inv: "reachable wr c \<Longrightarrow> steg_inv (fst c) \<and> fs_ok (snd c)"
proof (induction rule: reachable.induct)
  case (init fs kwargs)
  then show ?case using steganographer_init_fields [of kwargs] by (simp add: steg_inv_def)
next
  case (step c op)
  then show ?case using op_step_inv by blast
qed

lemma lsb_variant_refl [simp]: "lsb_variant st st"
  by (simp add: lsb_variant_def)

lemma lsb_variant_trans: "lsb_variant a b \<Longrightarrow> lsb_variant b c \<Longrightarrow> lsb_variant a c"
  unfolding lsb_variant_def by (metis steganographer.update_convs(3) steganographer.select_convs(3)
      steganographer.surjective)

lemma lsb_variant_embed:
  "3 \<le> cs \<Longrightarrow> lsb_variant st (st\<lparr>image_data := embed_bits (image_data st) bs sz cs\<rparr>)"
  by (simp add: lsb_variant_def embed_bits_def encode_pixels_hi_bits encode_pixels_shape)

lemma lsb_variant_inv:
  assumes "lsb_variant st st'"
  shows "steg_inv st' = steg_inv st" and "unit_shape (image_data st') = unit_shape (image_data st)"
proof -
  have shape: "map (map length) (image_data st') = map (map length) (image_data st)"
    and st': "st' = st\<lparr>image_data := image_data st'\<rparr>" using assms by (simp_all add: lsb_variant_def)
  show "steg_inv st' = steg_inv st" using steg_inv_shape [OF shape] st' by metis
  show "unit_shape (image_data st') = unit_shape (image_data st)" by (rule unit_shape_shape [OF shape])
qed

lemma op_step_ready:
  assumes "steg_inv st" and "\<not> unit_shape (image_data st)"
  shows "lsb_variant st (fst (op_step wr op (st, fs)))"
proof (cases op)
  case (OpEncode m)
  obtain r st' fs' where e: "encode_image wr fs m st = (r, st', fs')" by (cases "encode_image wr fs m st") auto
  have "lsb_variant st st'"
  proof (cases "output_file st = Some []")
    case True
    with e show ?thesis by (simp add: encode_image_def)
  next
    case False
    from encode_image_object [OF False ensure_ready [OF assms(2)] e] show ?thesis
      using steg_inv_cs [OF assms(1)] lsb_variant_embed by fastforce
  qed
  with OpEncode e show ?thesis by simp
next
  case OpDecode
  with assms(2) show ?thesis by (simp add: decode_image_object ensure_ready)
next
  case (OpWrite n im)
  then show ?thesis by simp
qed

lemma run_ops_Cons: "run_ops wr (op # ops) c = run_ops wr ops (op_step wr op c)"
  by (simp add: run_ops_def)

lemma run_ops_ready:
  "steg_inv st \<Longrightarrow> \<not> unit_shape (image_data st) \<Longrightarrow> lsb_variant st (fst (run_ops wr ops (st, fs)))"
proof (induction ops arbitrary: st fs)
  case Nil
  then show ?case by (simp add: run_ops_def)
next
  case (Cons op ops)
  obtain st1 fs1 where c1: "op_step wr op (st, fs) = (st1, fs1)" by fastforce
  have v1: "lsb_variant st st1" using op_step_ready [OF Cons.prems, of wr op fs] c1 by simp
  have "lsb_variant st1 (fst (run_ops wr ops (st1, fs1)))"
    using Cons.prems lsb_variant_inv [OF v1] by (intro Cons.IH) simp_all
  then show ?case using lsb_variant_trans [OF v1] c1 by (simp add: run_ops_Cons)
qed

lemma lsb_variant_fields:
  "lsb_variant st st' \<Longrightarrow> color_size st' = color_size st \<and> output_file st' = output_file st"
proof -
  assume "lsb_variant st st'"
  then have "st' = st\<lparr>image_data := image_data st'\<rparr>" by (simp add: lsb_variant_def)
  then have "(color_size st', output_file st') =
      (color_size (st\<lparr>image_data := image_data st'\<rparr>), output_file (st\<lparr>image_data := image_data st'\<rparr>))"
    by (rule arg_cong)
  then show ?thesis by simp
qed

text \<open>An object holding an image with no channel count: both methods fail.\<close>

lemma no_channels_calls:
  assumes "\<not> unit_shape (image_data st)" and "color_size st = 0"
  shows "decode_image fs st = (Inl IndexError, st)"
    and "output_file st \<noteq> Some [] \<Longrightarrow> m \<noteq> [] \<Longrightarrow> fst (encode_image wr fs m st) = Inl ZeroDivisionError"
  using assms
  by (simp_all add: decode_image_def encode_image_def ensure_ready scan_slots_no_channels
      bin_list_to_int_def encode_bit_sequence_def Let_def)

lemma decode_fresh_ready:
  assumes "steg_inv st" and "fs_ok fs" and "unit_shape (image_data st)"
    and "input_file st = Some f" and "f \<noteq> []" and "fs f = Some im"
    and "color_size_of_mode (pil_mode im) = Some cs"
  shows "steg_inv (fst (op_step wr OpDecode (st, fs))) \<and> color_size (fst (op_step wr OpDecode (st, fs))) = cs \<and>
         \<not> unit_shape (image_data (fst (op_step wr OpDecode (st, fs))))"
proof -
  have "\<not> unit_shape (pil_data im)" by (rule fs_ok_lookup [OF assms(2,6)])
  moreover have "steg_inv (fst (op_step wr OpDecode (st, fs)))"
    using op_step_inv [of "(st, fs)" OpDecode wr] assms(1,2) by simp
  ultimately show ?thesis
    using assms(3-7)
    by (simp add: decode_image_object ensure_initialized_def initialize_image_data_def Let_def)
qed

section \<open>Properties\<close>

text \<open>
  C12. Invariant of every reachable object: its channel count is 0, 3 or 4, and when it is
  not 0 the object holds an image (it is no longer the fresh (1, 1, 1) array), the count is
  the color-mode table's entry for the stored mode, and \<open>max_bits_storable\<close> is
  width * height * count.
\<close>

theorem reachable_invariant:
  assumes "reachable wr (st, fs)"
  shows "color_size st \<in> {0, 3, 4} \<and>
         (color_size st \<noteq> 0 \<longrightarrow> \<not> unit_shape (image_data st) \<and>
            color_size_of_mode (color_mode st) = Some (color_size st) \<and>
            max_bits_storable st = fst (image_size st) * snd (image_size st) * color_size st)"
proof -
  have "steg_inv st" using reachable_steg_inv [OF assms] by simp
  then show ?thesis by (auto simp: steg_inv_def color_size_of_mode_def split: if_splits)
qed

text \<open>
  C10. Once a reachable object holds an image, every later sequence of calls (encodings,
  decodings, file writes by other processes, in any order, whatever they raise) leaves its
  attributes unchanged and changes its image only in least significant bits: the object is
  never re-initialized, and its pixels keep their shape and all bits above bit 0.
\<close>

theorem session_lsb_only:
  assumes "reachable wr (st, fs)" and "\<not> unit_shape (image_data st)"
  shows "lsb_variant st (fst (run_ops wr ops (st, fs)))"
  using reachable_steg_inv [OF assms(1)] assms(2) by (simp add: run_ops_ready)

text \<open>
  C23. Calling \<open>decode_image\<close> again on the object a first call left holding an image
  returns the same answer and object (initialization is not repeated), except after an
  unsupported color mode: the first call raised the unsupported-model ValueError, and the
  second one, which skips initialization with no channel count, raises IndexError.
\<close>

theorem decode_image_repeat:
  assumes "reachable wr (st, fs)" and "decode_image fs st = (r, st')" and "\<not> unit_shape (image_data st')"
  shows "decode_image fs st' =
           (if r = Inl UnsupportedColorModel then (Inl IndexError, st') else (r, st'))"
proof -
  obtain r0 st1 where e: "ensure_initialized fs st = (r0, st1)" by fastforce
  have st': "st' = st1" using decode_image_object [of fs st] assms(2) e by simp
  show ?thesis
  proof (cases r0)
    case (Inr u)
    then have e': "ensure_initialized fs st = (Inr (), st1)" using e by simp
    have eq: "decode_image fs st = decode_image fs st1"
      using decode_image_reinit [OF e'] assms(3) st' by simp
    have d1: "decode_image fs st1 = (fst (decode_image fs st1), st1)"
      using decode_image_object [of fs st1] ensure_ready [of st1 fs] assms(3) st'
      by (metis prod.collapse snd_conv)
    have r: "r = fst (decode_image fs st1)" using assms(2) eq by (metis fst_conv)
    have nu: "r \<noteq> Inl UnsupportedColorModel"
      unfolding r using decode_ready_not_unsupported assms(3) st' by simp
    have "decode_image fs st1 = (r, st1)" unfolding r by (rule d1)
    with nu st' show ?thesis by simp
  next
    case (Inl err)
    have unit: "unit_shape (image_data st)"
      using e Inl by (cases "unit_shape (image_data st)") (simp_all add: ensure_initialized_def)
    then have cs0: "color_size st = 0"
      using reachable_steg_inv [OF assms(1)] by (simp add: steg_inv_def)
    have init: "initialize_image_data fs st = (Inl err, st1)"
      using e Inl unit by (simp add: ensure_initialized_def)
    then have "err = UnsupportedColorModel \<and> color_size st1 = 0"
      using unit assms(3) st' cs0
      by (auto simp: initialize_image_data_def Let_def split: if_splits option.splits)
    moreover have "r = Inl err" using assms(2) e Inl by (simp add: decode_image_def)
    moreover have "decode_image fs st1 = (Inl IndexError, st1)" if "color_size st1 = 0"
      using no_channels_calls(1) assms(3) st' that by simp
    ultimately show ?thesis using st' by simp
  qed
qed

text \<open>
  C11. Progress to Ready: from any reachable pair in which the object is still fresh and its
  input file holds an image of a supported mode, one \<open>decode_image\<close> call initializes
  the object (it holds the image and the table's channel count), whatever it returns, and
  every sequence of calls after it keeps the object Ready with that count.
\<close>

theorem session_ready_after_decode:
  assumes "reachable wr (st, fs)" and "unit_shape (image_data st)"
    and "input_file st = Some f" and "f \<noteq> []" and "fs f = Some im"
    and "color_size_of_mode (pil_mode im) = Some cs"
  shows "color_size (fst (run_ops wr (OpDecode # ops) (st, fs))) = cs \<and> 0 < cs \<and>
         \<not> unit_shape (image_data (fst (run_ops wr (OpDecode # ops) (st, fs))))"
proof -
  obtain st1 fs1 where c1: "op_step wr OpDecode (st, fs) = (st1, fs1)" by fastforce
  have inv: "steg_inv st" "fs_ok fs" using reachable_steg_inv [OF assms(1)] by simp_all
  have r1: "steg_inv st1" "color_size st1 = cs" "\<not> unit_shape (image_data st1)"
    using decode_fresh_ready [OF inv assms(2-6), of wr] c1 by auto
  have v: "lsb_variant st1 (fst (run_ops wr ops (st1, fs1)))" by (rule run_ops_ready [OF r1(1,3)])
  have pos: "0 < cs" using assms(6) by (simp add: color_size_of_mode_def split: if_splits)
  have eq: "run_ops wr (OpDecode # ops) (st, fs) = run_ops wr ops (st1, fs1)" by (simp only: run_ops_Cons c1)
  show ?thesis
    unfolding eq using pos lsb_variant_fields [OF v] lsb_variant_inv(2) [OF v] r1(2,3) by simp
qed

text \<open>
  C21. An object left holding an image without a channel count (after an unsupported color
  mode) is unusable for ever: after any sequence of calls and file writes, even one that
  replaces the input file by a supported image, \<open>decode_image\<close> raises IndexError and
  \<open>encode_image\<close> of a non-empty message raises ZeroDivisionError, because neither call
  initializes an object that no longer has the fresh shape.
\<close>

theorem session_broken_forever:
  assumes "reachable wr (st, fs)" and "\<not> unit_shape (image_data st)" and "color_size st = 0"
    and "output_file st \<noteq> Some []" and "m \<noteq> []"
  shows "fst (decode_image (snd (run_ops wr ops (st, fs))) (fst (run_ops wr ops (st, fs)))) = Inl IndexError \<and>
         fst (encode_image wr (snd (run_ops wr ops (st, fs))) m (fst (run_ops wr ops (st, fs))))
           = Inl ZeroDivisionError"
proof -
  let ?st' = "fst (run_ops wr ops (st, fs))"
  have "steg_inv st" using reachable_steg_inv [OF assms(1)] by simp
  then have v: "lsb_variant st ?st'" using assms(2) by (rule run_ops_ready)
  then have st': "color_size ?st' = 0" "output_file ?st' \<noteq> Some []" "\<not> unit_shape (image_data ?st')"
    using lsb_variant_fields [OF v] lsb_variant_inv(2) [OF v] assms(2-4) by simp_all
  show ?thesis using no_channels_calls [OF st'(3,1)] st'(2) assms(5) by simp
qed

section \<open>Witnesses\<close>

theorem reachable_invariant_witness:
  "reachable (\<lambda>n. True) (op_step (\<lambda>n. True) (OpEncode [65])
     (steganographer_init [(''inputFile'', Some ''a.png''), (''outputFile'', Some ''b.png'')],
      Map.empty(''a.png'' \<mapsto> \<lparr>pil_data = replicate 4 (replicate 4 [0, 0, 0]), pil_mode = ''RGB'', pil_size = (4, 4)\<rparr>))) \<and>
   color_size (fst (op_step (\<lambda>n. True) (OpEncode [65])
     (steganographer_init [(''inputFile'', Some ''a.png''), (''outputFile'', Some ''b.png'')],
      Map.empty(''a.png'' \<mapsto> \<lparr>pil_data = replicate 4 (replicate 4 [0, 0, 0]), pil_mode = ''RGB'', pil_size = (4, 4)\<rparr>))))
     \<in> {0, 3, 4}"
proof -
  let ?c = "op_step (\<lambda>n. True) (OpEncode [65])
     (steganographer_init [(''inputFile'', Some ''a.png''), (''outputFile'', Some ''b.png'')],
      Map.empty(''a.png'' \<mapsto> \<lparr>pil_data = replicate 4 (replicate 4 [0, 0, 0]), pil_mode = ''RGB'', pil_size = (4, 4)\<rparr>))"
  have r: "reachable (\<lambda>n. True) ?c"
    by (intro reachable.step reachable.init) (simp_all add: fs_ok_def not_unit_shape_long)
  then have "reachable (\<lambda>n. True) (fst ?c, snd ?c)" by simp
  with r show ?thesis using reachable_invariant [where st = "fst ?c" and fs = "snd ?c"] by blast
qed

theorem session_lsb_only_witness:
  "reachable (\<lambda>n. True) (op_step (\<lambda>n. True) OpDecode
     (steganographer_init [(''inputFile'', Some ''a.png''), (''outputFile'', Some ''b.png'')],
      Map.empty(''a.png'' \<mapsto> \<lparr>pil_data = replicate 4 (replicate 4 [0, 0, 0]), pil_mode = ''RGB'', pil_size = (4, 4)\<rparr>))) \<and>
   \<not> unit_shape (image_data (fst (op_step (\<lambda>n. True) OpDecode
     (steganographer_init [(''inputFile'', Some ''a.png''), (''outputFile'', Some ''b.png'')],
      Map.empty(''a.png'' \<mapsto> \<lparr>pil_data = replicate 4 (replicate 4 [0, 0, 0]), pil_mode = ''RGB'', pil_size = (4, 4)\<rparr>))))) \<and>
   lsb_variant (fst (op_step (\<lambda>n. True) OpDecode
     (steganographer_init [(''inputFile'', Some ''a.png''), (''outputFile'', Some ''b.png'')],
      Map.empty(''a.png'' \<mapsto> \<lparr>pil_data = replicate 4 (replicate 4 [0, 0, 0]), pil_mode = ''RGB'', pil_size = (4, 4)\<rparr>))))
     (fst (run_ops (\<lambda>n. True) [OpEncode [65], OpWrite ''b.png'' \<lparr>pil_data = [[[1, 2, 3], [4, 5, 6]]], pil_mode = ''RGB'', pil_size = (2, 1)\<rparr>, OpDecode]
       (op_step (\<lambda>n. True) OpDecode
         (steganographer_init [(''inputFile'', Some ''a.png''), (''outputFile'', Some ''b.png'')],
          Map.empty(''a.png'' \<mapsto> \<lparr>pil_data = replicate 4 (replicate 4 [0, 0, 0]), pil_mode = ''RGB'', pil_size = (4, 4)\<rparr>)))))"
proof -
  let ?c = "op_step (\<lambda>n. True) OpDecode
     (steganographer_init [(''inputFile'', Some ''a.png''), (''outputFile'', Some ''b.png'')],
      Map.empty(''a.png'' \<mapsto> \<lparr>pil_data = replicate 4 (replicate 4 [0, 0, 0]), pil_mode = ''RGB'', pil_size = (4, 4)\<rparr>))"
  have r: "reachable (\<lambda>n. True) ?c"
    by (intro reachable.step reachable.init) (simp_all add: fs_ok_def not_unit_shape_long)
  have nu: "\<not> unit_shape (image_data (fst ?c))"
    by (simp add: decode_image_object engine_eval)
  have "reachable (\<lambda>n. True) (fst ?c, snd ?c)" using r by simp
  with r nu show ?thesis using session_lsb_only [where st = "fst ?c" and fs = "snd ?c"] by simp
qed

theorem decode_image_repeat_witness:
  "decode_image (Map.empty(''a.png'' \<mapsto> \<lparr>pil_data = [[[7], [8]]], pil_mode = ''L'', pil_size = (2, 1)\<rparr>)) (snd (decode_image (Map.empty(''a.png'' \<mapsto> \<lparr>pil_data = [[[7], [8]]], pil_mode = ''L'', pil_size = (2, 1)\<rparr>)) (steganographer_init [(''inputFile'', Some ''a.png'')]))) = (Inl IndexError, snd (decode_image (Map.empty(''a.png'' \<mapsto> \<lparr>pil_data = [[[7], [8]]], pil_mode = ''L'', pil_size = (2, 1)\<rparr>)) (steganographer_init [(''inputFile'', Some ''a.png'')])))"
proof -
  have r: "reachable (\<lambda>n. True) ((steganographer_init [(''inputFile'', Some ''a.png'')]), (Map.empty(''a.png'' \<mapsto> \<lparr>pil_data = [[[7], [8]]], pil_mode = ''L'', pil_size = (2, 1)\<rparr>)))" by (rule reachable.init) (simp add: fs_ok_def unit_shape_def)
  have d: "fst (decode_image (Map.empty(''a.png'' \<mapsto> \<lparr>pil_data = [[[7], [8]]], pil_mode = ''L'', pil_size = (2, 1)\<rparr>)) (steganographer_init [(''inputFile'', Some ''a.png'')])) = Inl UnsupportedColorModel"
    by (simp add: decode_image_def engine_eval unit_shape_def)
  have n: "\<not> unit_shape (image_data (snd (decode_image (Map.empty(''a.png'' \<mapsto> \<lparr>pil_data = [[[7], [8]]], pil_mode = ''L'', pil_size = (2, 1)\<rparr>)) (steganographer_init [(''inputFile'', Some ''a.png'')]))))"
    by (simp add: decode_image_def engine_eval unit_shape_def)
  show ?thesis
    using decode_image_repeat [OF r prod.collapse [symmetric] n] d by simp
qed

theorem session_ready_after_decode_witness:
  "color_size (fst (run_ops (\<lambda>n. True) [OpDecode, OpEncode [65]]
      (steganographer_init [(''inputFile'', Some ''a.png''), (''outputFile'', Some ''b.png'')],
       Map.empty(''a.png'' \<mapsto> \<lparr>pil_data = replicate 4 (replicate 4 [0, 0, 0]), pil_mode = ''RGB'', pil_size = (4, 4)\<rparr>))))
     = 3"
proof -
  have r: "reachable (\<lambda>n. True) (steganographer_init [(''inputFile'', Some ''a.png''), (''outputFile'', Some ''b.png'')],
       Map.empty(''a.png'' \<mapsto> \<lparr>pil_data = replicate 4 (replicate 4 [0, 0, 0]), pil_mode = ''RGB'', pil_size = (4, 4)\<rparr>))"
    by (rule reachable.init) (simp add: fs_ok_def not_unit_shape_long)
  show ?thesis
    using session_ready_after_decode [OF r, where f = "''a.png''" and ops = "[OpEncode [65]]"
        and im = "\<lparr>pil_data = replicate 4 (replicate 4 [0, 0, 0]), pil_mode = ''RGB'', pil_size = (4, 4)\<rparr>" and cs = 3]
    by (simp add: steganographer_init_def unit_shape_def color_size_of_mode_def)
qed

theorem session_broken_forever_witness:
  "fst (decode_image (snd (run_ops (\<lambda>n. True)
      [OpWrite ''a.png'' \<lparr>pil_data = replicate 4 (replicate 4 [0, 0, 0]), pil_mode = ''RGB'', pil_size = (4, 4)\<rparr>, OpDecode]
      (op_step (\<lambda>n. True) OpDecode (steganographer_init [(''inputFile'', Some ''a.png''), (''outputFile'', Some ''b.png'')],
         Map.empty(''a.png'' \<mapsto> \<lparr>pil_data = [[[7], [8]]], pil_mode = ''L'', pil_size = (2, 1)\<rparr>)))))
     (fst (run_ops (\<lambda>n. True)
      [OpWrite ''a.png'' \<lparr>pil_data = replicate 4 (replicate 4 [0, 0, 0]), pil_mode = ''RGB'', pil_size = (4, 4)\<rparr>, OpDecode]
      (op_step (\<lambda>n. True) OpDecode (steganographer_init [(''inputFile'', Some ''a.png''), (''outputFile'', Some ''b.png'')],
         Map.empty(''a.png'' \<mapsto> \<lparr>pil_data = [[[7], [8]]], pil_mode = ''L'', pil_size = (2, 1)\<rparr>)))))) = Inl IndexError"
proof -
  let ?c = "op_step (\<lambda>n. True) OpDecode (steganographer_init [(''inputFile'', Some ''a.png''), (''outputFile'', Some ''b.png'')],
         Map.empty(''a.png'' \<mapsto> \<lparr>pil_data = [[[7], [8]]], pil_mode = ''L'', pil_size = (2, 1)\<rparr>))"
  have r: "reachable (\<lambda>n. True) ?c"
    by (intro reachable.step reachable.init) (simp_all add: fs_ok_def unit_shape_def)
  then have r': "reachable (\<lambda>n. True) (fst ?c, snd ?c)" by simp
  have n: "\<not> unit_shape (image_data (fst ?c))" and z: "color_size (fst ?c) = 0"
    and o: "output_file (fst ?c) \<noteq> Some []"
    by (simp_all add: decode_image_object engine_eval unit_shape_def)
  show ?thesis using session_broken_forever [OF r' n z o, where m = "[65]"] by simp
qed
end
