(* ===== verification/Compare.thy ===== *)
theory Compare
  imports Engine
begin

text \<open>
  \<open>Steganographer.compare_pixels\<close> (\<^verbatim>\<open>src/steganographer.py\<close>, lines 174-208), a
  diagnostic that prints the first \<open>pixels\<close> pixels of two images side by side. Its
  output is the list of printed lines, each the pixel index with the two pixels; opening
  failures and a size mismatch print a message and \<open>exit(1)\<close>. The loop ends at the
  requested count (its own \<open>raise Exception("Done!")\<close>) or at the first read outside
  the array (IndexError), both caught by \<open>except Exception: pass\<close>.
\<close>

section \<open>Definitions\<close>

datatype compare_result = CompareExit nat | Compared "(nat \<times> pixel \<times> pixel) list"

text \<open>\<open>__oimd[widthIndex][heightIndex]\<close>: a whole pixel, or IndexError.\<close>

definition pixel_at :: "image \<Rightarrow> nat \<Rightarrow> nat \<Rightarrow> pixel option" where
  "pixel_at data r c = (if r < length data \<and> c < length (data ! r) then Some (data ! r ! c) else None)"

text \<open>\<open>for heightIndex in range(size[1]): for widthIndex in range(size[0])\<close>\<close>

definition compare_order :: "nat \<times> nat \<Rightarrow> (nat \<times> nat) list" where
  "compare_order im_size =
     concat (map (\<lambda>height_index. map (\<lambda>width_index. (height_index, width_index)) [0..<fst im_size])
                 [0..<snd im_size])"

fun compare_loop :: "image \<Rightarrow> image \<Rightarrow> nat \<Rightarrow> (nat \<times> nat) list \<Rightarrow> nat \<Rightarrow> (nat \<times> pixel \<times> pixel) list" where
  "compare_loop oimd nimd pixels [] pixel_index = []"
| "compare_loop oimd nimd pixels ((h, w) # ps) pixel_index =
     (if pixels \<le> pixel_index then []
      else case pixel_at oimd w h of
        None \<Rightarrow> []
      | Some p \<Rightarrow>
          (case pixel_at nimd w h of
             None \<Rightarrow> []
           | Some q \<Rightarrow> (pixel_index, p, q) # compare_loop oimd nimd pixels ps (Suc pixel_index)))"

definition compare_pixels :: "filesystem \<Rightarrow> string \<Rightarrow> string \<Rightarrow> nat \<Rightarrow> compare_result" where
  "compare_pixels fs image_a image_b pixels =
     (case fs image_a of
        None \<Rightarrow> CompareExit 1
      | Some oim \<Rightarrow>
          (case fs image_b of
             None \<Rightarrow> CompareExit 1
           | Some nim \<Rightarrow>
               if \<not> (fst (pil_size nim) = fst (pil_size oim) \<and> snd (pil_size nim) = snd (pil_size oim))
               then CompareExit 1
               else Compared (compare_loop (pil_data oim) (pil_data nim) pixels
                                (compare_order (pil_size oim)) 0)))"

text \<open>Reference: the lines printed when every read succeeds and no count limits them.\<close>

fun compare_ref :: "image \<Rightarrow> image \<Rightarrow> (nat \<times> nat) list \<Rightarrow> nat \<Rightarrow> (nat \<times> pixel \<times> pixel) list" where
  "compare_ref a b [] i = []"
| "compare_ref a b ((h, w) # ps) i = (i, a ! w ! h, b ! w ! h) # compare_ref a b ps (Suc i)"

section \<open>Lemmas\<close>

definition readable :: "image \<Rightarrow> nat \<times> nat \<Rightarrow> bool" where
  "readable data p \<longleftrightarrow> snd p < length data \<and> fst p < length (data ! snd p)"

lemma pixel_at_readable: "pixel_at data w h = (if readable data (h, w) then Some (data ! w ! h) else None)"
  by (simp add: pixel_at_def readable_def)

lemma length_compare_ref [simp]: "length (compare_ref a b ps i) = length ps"
  by (induction ps arbitrary: i) auto

lemma compare_loop_readable:
  "\<forall>p \<in> set ps. readable a p \<and> readable b p \<Longrightarrow>
   compare_loop a b n ps i = take (n - i) (compare_ref a b ps i)"
proof (induction ps arbitrary: i)
  case Nil
  then show ?case by simp
next
  case (Cons p ps)
  obtain h w where p: "p = (h, w)" by fastforce
  show ?case
  proof (cases "n \<le> i")
    case True
    then show ?thesis using p by simp
  next
    case False
    then have "n - i = Suc (n - Suc i)" by simp
    with False Cons p show ?thesis by (simp add: pixel_at_readable)
  qed
qed

lemma compare_loop_stop:
  assumes "\<forall>p \<in> set qs. readable a p \<and> readable b p" and "\<not> readable a q"
  shows "compare_loop a b n (qs @ q # rs) i = take (n - i) (compare_ref a b qs i)"
  using assms(1)
proof (induction qs arbitrary: i)
  case Nil
  obtain h w where "q = (h, w)" by fastforce
  with assms(2) show ?case by (simp add: pixel_at_readable)
next
  case (Cons p ps)
  obtain h w where p: "p = (h, w)" by fastforce
  show ?case
  proof (cases "n \<le> i")
    case True
    then show ?thesis using p by simp
  next
    case False
    then have "n - i = Suc (n - Suc i)" by simp
    with False Cons p show ?thesis by (simp add: pixel_at_readable)
  qed
qed

lemma wf_image_readable:
  "wf_image d (wd, ht) n \<Longrightarrow> readable d (c, r) \<longleftrightarrow> r < ht \<and> c < wd"
  by (auto simp: wf_image_def readable_def)

lemma set_compare_order: "set (compare_order (wd, ht)) = {(h, w). h < ht \<and> w < wd}"
  by (auto simp: compare_order_def)

lemma compare_order_wide:
  assumes "0 < ht" and "ht < wd"
  shows "\<exists>rs. compare_order (wd, ht) = map (\<lambda>w. (0, w)) [0..<ht] @ (0, ht) # rs"
proof -
  have "[0..<wd] = [0..<ht] @ [ht..<wd]"
    using upt_add_eq_append [of 0 ht "wd - ht"] assms(2) by simp
  also have "[ht..<wd] = ht # [Suc ht..<wd]" using assms(2) by (rule upt_conv_Cons)
  finally have "[0..<wd] = [0..<ht] @ ht # [Suc ht..<wd]" .
  moreover have "[0..<ht] = 0 # [1..<ht]" using assms(1) by (simp add: upt_conv_Cons)
  ultimately show ?thesis by (simp add: compare_order_def)
qed

section \<open>Properties\<close>

text \<open>
  C28. On two readable images of the same square size, \<open>compare_pixels\<close> prints the
  first \<open>pixels\<close> pixels of the scan (row index \<open>widthIndex\<close>, column index
  \<open>heightIndex\<close>), numbered from 0, each with its counterpart in the second image.
\<close>

theorem compare_pixels_square:
  assumes "fs image_a = Some oim" and "fs image_b = Some nim"
    and "pil_size oim = (w, w)" and "pil_size nim = (w, w)"
    and "wf_image (pil_data oim) (w, w) ca" and "wf_image (pil_data nim) (w, w) cb"
  shows "compare_pixels fs image_a image_b n =
           Compared (take n (compare_ref (pil_data oim) (pil_data nim) (compare_order (w, w)) 0))"
proof -
  have "\<forall>p \<in> set (compare_order (w, w)). readable (pil_data oim) p \<and> readable (pil_data nim) p"
    using assms(5,6) by (auto simp: set_compare_order wf_image_readable)
  then show ?thesis
    using assms(1-4) by (simp add: compare_pixels_def compare_loop_readable)
qed

text \<open>
  C27. On images wider than high, \<open>compare_pixels\<close> reads the array transposed
  (\<open>__oimd[widthIndex][heightIndex]\<close> with \<open>widthIndex\<close> up to the width): the
  first row index past the height raises IndexError, which ends the loop, so it prints at
  most \<open>height\<close> pixels (480 of the default 512 for a 640x480 image).
\<close>

theorem compare_pixels_wide_stops:
  assumes "fs image_a = Some oim" and "fs image_b = Some nim"
    and "pil_size oim = (wd, ht)" and "pil_size nim = (wd, ht)"
    and "wf_image (pil_data oim) (wd, ht) ca" and "wf_image (pil_data nim) (wd, ht) cb"
    and "0 < ht" and "ht < wd"
  shows "compare_pixels fs image_a image_b n =
           Compared (take n (compare_ref (pil_data oim) (pil_data nim) (map (\<lambda>w. (0, w)) [0..<ht]) 0))"
proof -
  obtain rs where ord: "compare_order (wd, ht) = map (\<lambda>w. (0, w)) [0..<ht] @ (0, ht) # rs"
    using compare_order_wide [OF assms(7,8)] by blast
  have "\<forall>p \<in> set (map (\<lambda>w. (0::nat, w)) [0..<ht]). readable (pil_data oim) p \<and> readable (pil_data nim) p"
    using assms(5,6,8) by (auto simp: wf_image_readable)
  moreover have "\<not> readable (pil_data oim) (0, ht)" using assms(5) by (simp add: wf_image_readable)
  ultimately show ?thesis
    using assms(1-4) ord by (simp add: compare_pixels_def compare_loop_stop)
qed

section \<open>Witnesses\<close>

theorem compare_pixels_square_witness:
  "compare_pixels (Map.empty(''a.png'' \<mapsto> \<lparr>pil_data = [[[1], [2]], [[3], [4]]], pil_mode = ''L'', pil_size = (2, 2)\<rparr>,
                             ''b.png'' \<mapsto> \<lparr>pil_data = [[[5], [6]], [[7], [8]]], pil_mode = ''L'', pil_size = (2, 2)\<rparr>))
     ''a.png'' ''b.png'' 3 = Compared [(0, [1], [5]), (1, [3], [7]), (2, [2], [6])]"
  by (subst compare_pixels_square [where w = 2 and ca = 1 and cb = 1])
    (simp_all add: wf_image_def compare_order_def upt_rec numeral_2_eq_2)+

theorem compare_pixels_wide_stops_witness:
  "compare_pixels (Map.empty(''a.png'' \<mapsto> \<lparr>pil_data = [[[1], [2], [3]]], pil_mode = ''L'', pil_size = (3, 1)\<rparr>,
                             ''b.png'' \<mapsto> \<lparr>pil_data = [[[4], [5], [6]]], pil_mode = ''L'', pil_size = (3, 1)\<rparr>))
     ''a.png'' ''b.png'' 512 = Compared [(0, [1], [4])]"
  by (subst compare_pixels_wide_stops [where wd = 3 and ht = 1 and ca = 1 and cb = 1])
    (simp_all add: wf_image_def upt_rec)+

end
