(* ===== verification/Cli.thy ===== *)
theory Cli
  imports Prelude
begin

text \<open>
  The command-line entry point (\<^verbatim>\<open>src/steganographer.py\<close>, lines 591-758): the
  options argparse defines and the dispatch of the \<open>if __name__ == "__main__"\<close> block.
  Every option is a string or \<open>None\<close> (\<open>string option\<close>), and the three
  \<open>store_true\<close> flags are booleans; \<open>not x\<close> on an option is \<open>\<not> truthy x\<close>
  (\<open>None\<close> and the empty string are false). The dispatch computes what the block does:
  print help and exit, crash on \<open>args.print_help()\<close>, print an error and exit, or call a
  method of a freshly constructed
  object with the keyword arguments it passes (\<open>cli_call\<close>). A file
  name the block tests with \<open>if args.inputfile:\<close> or \<open>if args.outputfile:\<close> is a
  non-empty string where it is used; the constructor arguments may be \<open>None\<close>. Theory
  \<open>Script\<close> runs the calls on the object models.
\<close>

section \<open>Definitions\<close>

record cli_args =
  arg_inputimage :: "string option"
  arg_outputimage :: "string option"
  arg_encode :: bool
  arg_decode :: bool
  arg_crypto :: bool
  arg_message :: "string option"
  arg_inputfile :: "string option"
  arg_outputfile :: "string option"
  arg_generate :: "string option"
  arg_encryptionkey :: "string option"
  arg_signingkey :: "string option"
  arg_passphrase :: "string option"
  arg_modulus :: "string option"
  arg_comparefiles :: "string option"

text \<open>\<open>parser.parse_args([])\<close>: options absent are \<open>None\<close>, flags \<open>False\<close>.\<close>

definition default_args :: cli_args where
  "default_args =
     \<lparr>arg_inputimage = None, arg_outputimage = None, arg_encode = False, arg_decode = False,
      arg_crypto = False, arg_message = None, arg_inputfile = None, arg_outputfile = None,
      arg_generate = None, arg_encryptionkey = None, arg_signingkey = None,
      arg_passphrase = None, arg_modulus = None, arg_comparefiles = None\<rparr>"

text \<open>Python's truth value of an optional string.\<close>

definition truthy :: "string option \<Rightarrow> bool" where
  "truthy x = (case x of None \<Rightarrow> False | Some s \<Rightarrow> s \<noteq> [])"

type_synonym cli_kwargs = "(string \<times> string option) list"

text \<open>The calls of the block, with the keyword arguments of the constructor they follow.\<close>

datatype cli_call =
    GenerateKeys "string option" "string option" "string option"
  | EncryptEncodeFromFile cli_kwargs string
  | EncryptEncodeMessage cli_kwargs "string option"
  | EncodeFromFile cli_kwargs string
  | EncodeMessage cli_kwargs "string option"
  | DecryptDecodeToFile cli_kwargs string
  | DecryptDecodePrint cli_kwargs
  | DecodeToFile cli_kwargs string
  | DecodeMissingMethod cli_kwargs  \<comment> \<open>\<open>steg.decode()\<close>: AttributeError\<close>

text \<open>
  The outcomes of the dispatch. Only the last \<open>else\<close> (lines 755-756) prints help, with
  \<open>parser.print_help()\<close>; the branches of lines 676, 697, 727 and 752 call
  \<open>args.print_help()\<close> on the \<open>Namespace\<close> that \<open>parse_args()\<close> returns,
  which has no such method, so they raise AttributeError (the \<open>exit(1)\<close> after lines
  727 and 752 is never reached).
\<close>

datatype cli_step =
    ParserHelp               \<comment> \<open>\<open>parser.print_help()\<close>, then \<open>exit(1)\<close>\<close>
  | ArgsHelp                 \<comment> \<open>\<open>args.print_help()\<close>: AttributeError\<close>
  | ErrorExit nat            \<comment> \<open>an error message, then \<open>exit(n)\<close>\<close>
  | Run cli_call

definition cli_dispatch :: "cli_args \<Rightarrow> cli_step" where
  "cli_dispatch a =
     (if truthy (arg_generate a) then
        (if \<not> truthy (arg_passphrase a) then ErrorExit 1
         else if truthy (arg_modulus a)
         then Run (GenerateKeys (arg_generate a) (arg_passphrase a) (arg_modulus a))
         else Run (GenerateKeys (arg_generate a) (arg_passphrase a) None))
      else if arg_encode a then
        (if arg_crypto a then
           (if \<not> truthy (arg_inputimage a) \<or> \<not> truthy (arg_outputimage a)
               \<or> \<not> (truthy (arg_message a) \<or> truthy (arg_inputfile a))
               \<or> \<not> truthy (arg_encryptionkey a) \<or> \<not> truthy (arg_signingkey a)
               \<or> \<not> truthy (arg_passphrase a)
            then
              (let kw = [(''inputFile'', arg_inputimage a), (''outputfile'', arg_outputimage a),
                         (''recipientPublicKeyFileName'', arg_encryptionkey a),
                         (''sendersKeyPairFileName'', arg_signingkey a),
                         (''passphrase'', arg_passphrase a)]
               in if truthy (arg_inputfile a) then Run (EncryptEncodeFromFile kw (the (arg_inputfile a)))
                  else Run (EncryptEncodeMessage kw (arg_message a)))
            else ArgsHelp)
         else
           (if \<not> truthy (arg_inputimage a) \<or> \<not> truthy (arg_outputimage a)
               \<or> \<not> (truthy (arg_message a) \<or> truthy (arg_inputfile a))
            then
              (let kw = [(''inputFile'', arg_inputimage a), (''outputFile'', arg_outputimage a)]
               in if truthy (arg_inputfile a) then Run (EncodeFromFile kw (the (arg_inputfile a)))
                  else Run (EncodeMessage kw (arg_message a)))
            else ArgsHelp))
      else if arg_decode a then
        (if arg_crypto a then
           (if \<not> truthy (arg_inputimage a) \<or> \<not> truthy (arg_outputimage a)
               \<or> \<not> truthy (arg_encryptionkey a) \<or> \<not> truthy (arg_signingkey a)
               \<or> \<not> truthy (arg_passphrase a)
            then
              (let kw = [(''inputFile'', arg_inputimage a),
                         (''recipientPublicKeyFileName'', arg_encryptionkey a),
                         (''sendersKeyPairFileName'', arg_signingkey a),
                         (''passphrase'', arg_passphrase a)]
               in if truthy (arg_outputfile a) then Run (DecryptDecodeToFile kw (the (arg_outputfile a)))
                  else Run (DecryptDecodePrint kw))
            else ArgsHelp)
         else
           (if \<not> truthy (arg_inputimage a) \<or> \<not> truthy (arg_outputimage a)
            then
              (let kw = [(''inputFile'', arg_inputimage a)]
               in if truthy (arg_outputfile a) then Run (DecodeToFile kw (the (arg_outputfile a)))
                  else Run (DecodeMissingMethod kw))
            else ArgsHelp))
      else ParserHelp)"

text \<open>The arguments each encode or decode branch asks for, as its usage intends.\<close>

definition encode_args_complete :: "cli_args \<Rightarrow> bool" where
  "encode_args_complete a \<longleftrightarrow>
     truthy (arg_inputimage a) \<and> truthy (arg_outputimage a) \<and>
     (truthy (arg_message a) \<or> truthy (arg_inputfile a)) \<and>
     (arg_crypto a \<longrightarrow> truthy (arg_encryptionkey a) \<and> truthy (arg_signingkey a) \<and>
                       truthy (arg_passphrase a))"

definition decode_args_complete :: "cli_args \<Rightarrow> bool" where
  "decode_args_complete a \<longleftrightarrow>
     truthy (arg_inputimage a) \<and> truthy (arg_outputimage a) \<and>
     (arg_crypto a \<longrightarrow> truthy (arg_encryptionkey a) \<and> truthy (arg_signingkey a) \<and>
                       truthy (arg_passphrase a))"

fun steg_call :: "cli_call \<Rightarrow> bool" where
  "steg_call (GenerateKeys _ _ _) = False"
| "steg_call _ = True"

section \<open>Properties\<close>

text \<open>
  C25. Without \<open>--generate\<close>, the block calls a method of a \<open>Steganographer\<close> or
  \<open>EncryptedSteganographer\<close> exactly when the encode or decode branch it takes lacks
  one of the arguments that branch asks for.
\<close>

theorem cli_runs_iff_incomplete:
  assumes "\<not> truthy (arg_generate a)"
  shows "(\<exists>c. cli_dispatch a = Run c \<and> steg_call c) \<longleftrightarrow>
         (arg_encode a \<and> \<not> encode_args_complete a) \<or>
         (\<not> arg_encode a \<and> arg_decode a \<and> \<not> decode_args_complete a)"
  using assms
  by (auto simp: cli_dispatch_def encode_args_complete_def decode_args_complete_def Let_def)

text \<open>
  C32. \<open>--comparefiles\<close> is parsed but never read: the dispatch does not depend on it,
  and a call with only \<open>--comparefiles\<close> reaches the final \<open>else\<close>, which prints help
  and exits with status 1, instead of comparing pixels.
\<close>

theorem cli_comparefiles_ignored:
  "cli_dispatch (a\<lparr>arg_comparefiles := x\<rparr>) = cli_dispatch a \<and>
   cli_dispatch (default_args\<lparr>arg_comparefiles := Some f\<rparr>) = ParserHelp"
proof
  show "cli_dispatch (a\<lparr>arg_comparefiles := x\<rparr>) = cli_dispatch a"
    by (simp add: cli_dispatch_def Let_def)
  show "cli_dispatch (default_args\<lparr>arg_comparefiles := Some f\<rparr>) = ParserHelp"
    by (simp add: cli_dispatch_def default_args_def truthy_def)
qed

section \<open>Witnesses\<close>

theorem cli_runs_iff_incomplete_witness:
  "(\<exists>c. cli_dispatch (default_args\<lparr>arg_encode := True, arg_inputimage := Some ''in.png'',
      arg_message := Some ''hi''\<rparr>) = Run c \<and> steg_call c)"
  using cli_runs_iff_incomplete [of "default_args\<lparr>arg_encode := True, arg_inputimage := Some ''in.png'',
      arg_message := Some ''hi''\<rparr>"]
  by (simp add: default_args_def truthy_def encode_args_complete_def)

end
