(* ===== verification/Files.thy ===== *)
theory Files
  imports Engine
begin

text \<open>
  The text-file helpers of class \<open>Steganographer\<close> (\<^verbatim>\<open>src/steganographer.py\<close>,
  lines 210-244 and 450-484): \<open>read_message_from_file\<close> and
  \<open>write_message_to_file\<close>, and the methods \<open>encode_image_from_file\<close> and
  \<open>decode_image_to_file\<close> that wrap \<open>encode_image\<close> and \<open>decode_image\<close> with
  them. Text files are a second store \<open>textfs\<close> from names to strings (what
  \<open>open(name, 'r').read()\<close> returns); \<open>open(name, 'w')\<close> raises IOError on a
  name outside the set \<open>writable\<close> of names the process may create or truncate.
\<close>

section \<open>Definitions\<close>

type_synonym textfs = "string \<Rightarrow> pystr option"

definition read_message_from_file :: "textfs \<Rightarrow> string \<Rightarrow> py_error + pystr" where
  "read_message_from_file tfs filename =
     (case tfs filename of None \<Rightarrow> Inl IOError | Some message \<Rightarrow> Inr message)"

definition write_message_to_file ::
  "(string \<Rightarrow> bool) \<Rightarrow> pystr \<Rightarrow> string \<Rightarrow> textfs \<Rightarrow> py_error + textfs" where
  "write_message_to_file writable message filename tfs =
     (if writable filename then Inr (tfs(filename \<mapsto> message)) else Inl IOError)"

text \<open>
  \<open>encode_image_from_file\<close>: an unreadable message file is reported with
  \<open>print\<close> and the method returns normally without encoding.
\<close>

definition encode_image_from_file ::
  "(string \<Rightarrow> bool) \<Rightarrow> filesystem \<Rightarrow> textfs \<Rightarrow> string \<Rightarrow> steganographer
   \<Rightarrow> (py_error + unit) \<times> steganographer \<times> filesystem" where
  "encode_image_from_file wr fs tfs filename st =
     (case read_message_from_file tfs filename of
        Inl _ \<Rightarrow> (Inr (), st, fs)
      | Inr message \<Rightarrow> encode_image wr fs message st)"

text \<open>
  \<open>decode_image_to_file\<close>: the exceptions of \<open>decode_image\<close> propagate; an IOError
  of the write is reported with \<open>print\<close> and the method returns normally.
\<close>

definition decode_image_to_file ::
  "(string \<Rightarrow> bool) \<Rightarrow> filesystem \<Rightarrow> textfs \<Rightarrow> string \<Rightarrow> steganographer
   \<Rightarrow> (py_error + unit) \<times> steganographer \<times> textfs" where
  "decode_image_to_file writable fs tfs filename st =
     (case decode_image fs st of
        (Inl e, st1) \<Rightarrow> (Inl e, st1, tfs)
      | (Inr message, st1) \<Rightarrow>
          (case write_message_to_file writable message filename tfs of
             Inl _ \<Rightarrow> (Inr (), st1, tfs)
           | Inr tfs' \<Rightarrow> (Inr (), st1, tfs')))"

section \<open>Properties\<close>

text \<open>
  C3. Round trip through text files: on an initialized RGB object, when the message file
  holds a non-empty byte string below 2^32 characters whose frame fits,
  \<open>encode_image_from_file\<close> embeds it, and \<open>decode_image_to_file\<close> on the same
  object writes exactly that string to a writable output file.
\<close>

theorem text_file_roundtrip:
  assumes "\<not> unit_shape (image_data st)" and "output_file st = Some out" and "out \<noteq> []"
    and "color_size st = 3"
    and "max_bits_storable st = fst (image_size st) * snd (image_size st) * 3"
    and "wf_image (image_data st) (image_size st) 3"
    and "tfs src = Some m" and "m \<noteq> []" and "\<forall>c \<in> set m. c < 256" and "length m < 2 ^ 32"
    and "frame_length 3 (length m) < max_bits_storable st" and "writable dst"
    and "wr out"
  shows "\<exists>st' fs'. encode_image_from_file wr fs tfs src st = (Inr (), st', fs') \<and>
           decode_image_to_file writable fs'' tfs dst st' = (Inr (), st', tfs(dst \<mapsto> m))"
proof -
  obtain d rest where enc: "encode_image wr fs m st = (Inr (), st\<lparr>image_data := d\<rparr>, fs(out \<mapsto>
              \<lparr>pil_data = d, pil_mode = ''RGB'', pil_size = image_size st\<rparr>))"
    and d: "wf_image d (image_size st) 3" "\<not> unit_shape d"
      "lsb_stream d (image_size st) 3 = int_to_bin_list (length m) @ message_to_bin_list m @ rest"
    using encode_image_rgb_frame [where wr = wr, OF assms(1-6,8,11,13)] by blast
  have dec: "decode_image fs'' (st\<lparr>image_data := d\<rparr>) = (Inr m, st\<lparr>image_data := d\<rparr>)"
    using d assms(4,9,10) by (intro decode_image_message) simp_all
  show ?thesis
    using enc dec assms(7,12)
    by (simp add: encode_image_from_file_def decode_image_to_file_def read_message_from_file_def
        write_message_to_file_def)
qed

text \<open>
  C36. The two wrappers swallow the IOError of their message file: with an unreadable
  message file \<open>encode_image_from_file\<close> returns normally and changes nothing, and
  when the output file cannot be written \<open>decode_image_to_file\<close> returns normally after
  a successful decoding without storing the message anywhere.
\<close>

theorem file_helpers_swallow_ioerror:
  assumes "tfs src = None" and "\<not> writable dst" and "fst (decode_image fs st) = Inr m"
  shows "encode_image_from_file wr fs tfs src st = (Inr (), st, fs) \<and>
         decode_image_to_file writable fs tfs dst st = (Inr (), snd (decode_image fs st), tfs)"
proof -
  obtain st1 where dec: "decode_image fs st = (Inr m, st1)"
    using assms(3) by (cases "decode_image fs st") auto
  show ?thesis
    using assms(1,2) dec
    by (simp add: encode_image_from_file_def decode_image_to_file_def read_message_from_file_def
        write_message_to_file_def)
qed

section \<open>Witnesses\<close>

theorem text_file_roundtrip_witness:
  "\<exists>st' fs'. encode_image_from_file (\<lambda>n. True) Map.empty (Map.empty(''msg.txt'' \<mapsto> [65])) ''msg.txt''
      \<lparr>input_file = Some ''in.png'', output_file = Some ''out.png'', image_data = replicate 4 (replicate 4 [0, 0, 0]),
       color_mode = ''RGB'', color_size = 3, image_size = (4, 4), max_bits_storable = 48\<rparr> = (Inr (), st', fs') \<and>
    decode_image_to_file (\<lambda>n. n = ''out.txt'') Map.empty (Map.empty(''msg.txt'' \<mapsto> [65])) ''out.txt'' st'
      = (Inr (), st', (Map.empty(''msg.txt'' \<mapsto> [65]))(''out.txt'' \<mapsto> [65]))"
  by (rule text_file_roundtrip) (simp_all add: engine_eval wf_image_def)+

theorem file_helpers_swallow_ioerror_witness:
  "encode_image_from_file (\<lambda>n. True) Map.empty Map.empty ''msg.txt'' \<lparr>input_file = Some ''in.png'', output_file = Some ''out.png'', image_data = replicate 4 (replicate 4 [0, 0, 0]),
       color_mode = ''RGB'', color_size = 3, image_size = (4, 4), max_bits_storable = 48\<rparr> = (Inr (), \<lparr>input_file = Some ''in.png'', output_file = Some ''out.png'', image_data = replicate 4 (replicate 4 [0, 0, 0]),
       color_mode = ''RGB'', color_size = 3, image_size = (4, 4), max_bits_storable = 48\<rparr>, Map.empty) \<and>
   decode_image_to_file (\<lambda>n. False) Map.empty Map.empty ''out.txt'' \<lparr>input_file = Some ''in.png'', output_file = Some ''out.png'', image_data = replicate 4 (replicate 4 [0, 0, 0]),
       color_mode = ''RGB'', color_size = 3, image_size = (4, 4), max_bits_storable = 48\<rparr>
     = (Inr (), snd (decode_image Map.empty \<lparr>input_file = Some ''in.png'', output_file = Some ''out.png'', image_data = replicate 4 (replicate 4 [0, 0, 0]),
       color_mode = ''RGB'', color_size = 3, image_size = (4, 4), max_bits_storable = 48\<rparr>), Map.empty)"
proof -
  have d: "decode_image Map.empty \<lparr>input_file = Some ''in.png'', output_file = Some ''out.png'', image_data = replicate 4 (replicate 4 [0, 0, 0]),
       color_mode = ''RGB'', color_size = 3, image_size = (4, 4), max_bits_storable = 48\<rparr> = (Inr [], \<lparr>input_file = Some ''in.png'', output_file = Some ''out.png'', image_data = replicate 4 (replicate 4 [0, 0, 0]),
       color_mode = ''RGB'', color_size = 3, image_size = (4, 4), max_bits_storable = 48\<rparr>)"
    by (rule decode_image_message [where rest = "[0, 0, 0, 0, 0, 0, 0, 0, 0, 0, 0, 0, 0, 0, 0, 0]"])
      (simp_all add: not_unit_shape_long wf_image_def scan_eval int_to_bin_list_def upt_rec)
  show ?thesis
    by (rule file_helpers_swallow_ioerror [where m = "[]"]) (simp_all add: d)
qed

end
