(* ===== verification/Envelope.thy ===== *)
theory Envelope
  imports Files
begin

text \<open>
  Class \<open>EncryptedSteganographer\<close> (\<^verbatim>\<open>src/steganographer.py\<close>, lines 487-589),
  the subclass that embeds an encrypted envelope instead of the plain message. The object
  is the record \<open>enc_steganographer\<close>: the \<open>Steganographer\<close> attributes
  (\<open>enc_base\<close>) and the three key attributes its \<open>__init__\<close> pops from the
  keyword arguments (a list of distinct name/value pairs, as a dict). The envelope is built
  and opened by module \<open>message\<close>, which is not part of the sources: the methods take
  \<open>CryptoHelper.encryptMessage(...).dumpMessage()\<close> as a function parameter
  \<open>encrypt\<close> and \<open>CryptoHelper.decryptMessage(Message.loadMessage(...), ...)\<close> as
  \<open>decrypt\<close>; the lemmas state what they need of them.
\<close>

section \<open>Definitions\<close>

record enc_steganographer =
  enc_base :: steganographer
  recipient_public_key_filename :: py_name
  senders_key_pair_filename :: py_name
  passphrase :: py_name

type_synonym encrypt_fn = "pystr option \<Rightarrow> py_name \<Rightarrow> py_name \<Rightarrow> py_name \<Rightarrow> py_error + pystr"
type_synonym decrypt_fn = "pystr \<Rightarrow> py_name \<Rightarrow> py_name \<Rightarrow> py_error + pystr"

text \<open>\<open>kwargs.pop(key)\<close>: the value and the dict without the key, or KeyError.\<close>

definition kwargs_pop ::
  "string \<Rightarrow> (string \<times> py_name) list \<Rightarrow> py_error + py_name \<times> (string \<times> py_name) list" where
  "kwargs_pop key kwargs =
     (case map_of kwargs key of
        None \<Rightarrow> Inl (KeyError key)
      | Some v \<Rightarrow> Inr (v, filter (\<lambda>p. fst p \<noteq> key) kwargs))"

definition enc_steganographer_init ::
  "(string \<times> py_name) list \<Rightarrow> py_error + enc_steganographer" where
  "enc_steganographer_init kwargs =
     (case kwargs_pop ''recipientPublicKeyFileName'' kwargs of
        Inl _ \<Rightarrow> Inl (KeyError (''The recipientPublicKeyFileName argument is required '' @
                               ''to initialize an EncryptedSteganographer.''))
      | Inr (r, kwargs1) \<Rightarrow>
          (case kwargs_pop ''sendersKeyPairFileName'' kwargs1 of
             Inl _ \<Rightarrow> Inl (KeyError (''The passphrase and sendersKeyPairFileName arguments '' @
                                    ''are required to initialize an EncryptedSteganographer''))
           | Inr (s, kwargs2) \<Rightarrow>
               (case kwargs_pop ''passphrase'' kwargs2 of
                  Inl _ \<Rightarrow> Inl (KeyError (''The passphrase and sendersKeyPairFileName arguments '' @
                                         ''are required to initialize an EncryptedSteganographer''))
                | Inr (p, kwargs3) \<Rightarrow>
                    Inr \<lparr>enc_base = steganographer_init kwargs3, recipient_public_key_filename = r,
                         senders_key_pair_filename = s, passphrase = p\<rparr>)))"

definition encrypt_and_encode_message ::
  "encrypt_fn \<Rightarrow> (string \<Rightarrow> bool) \<Rightarrow> filesystem \<Rightarrow> pystr option \<Rightarrow> enc_steganographer
   \<Rightarrow> (py_error + unit) \<times> enc_steganographer \<times> filesystem" where
  "encrypt_and_encode_message encrypt wr fs message est =
     (case encrypt message (recipient_public_key_filename est) (senders_key_pair_filename est)
             (passphrase est) of
        Inl e \<Rightarrow> (Inl e, est, fs)
      | Inr envelope \<Rightarrow>
          (case encode_image wr fs envelope (enc_base est) of
             (r, st', fs') \<Rightarrow> (r, est\<lparr>enc_base := st'\<rparr>, fs')))"

definition encrypt_and_encode_message_from_file ::
  "encrypt_fn \<Rightarrow> (string \<Rightarrow> bool) \<Rightarrow> filesystem \<Rightarrow> textfs \<Rightarrow> string \<Rightarrow> enc_steganographer
   \<Rightarrow> (py_error + unit) \<times> enc_steganographer \<times> filesystem" where
  "encrypt_and_encode_message_from_file encrypt wr fs tfs message_file est =
     (case read_message_from_file tfs message_file of
        Inl e \<Rightarrow> (Inl e, est, fs)
      | Inr message \<Rightarrow> encrypt_and_encode_message encrypt wr fs (Some message) est)"

text \<open>
  \<open>decrypt_and_decode_message\<close>: an exception of \<open>decode_image\<close> is printed and
  the empty string is passed on to \<open>Message.loadMessage\<close>.
\<close>

definition decrypt_and_decode_message ::
  "decrypt_fn \<Rightarrow> filesystem \<Rightarrow> enc_steganographer \<Rightarrow> (py_error + pystr) \<times> enc_steganographer" where
  "decrypt_and_decode_message decrypt fs est =
     (case decode_image fs (enc_base est) of
        (r, st1) \<Rightarrow>
          (decrypt (case r of Inl _ \<Rightarrow> [] | Inr message \<Rightarrow> message)
             (senders_key_pair_filename est) (passphrase est),
           est\<lparr>enc_base := st1\<rparr>))"

definition decrypt_and_decode_message_to_file ::
  "decrypt_fn \<Rightarrow> (string \<Rightarrow> bool) \<Rightarrow> filesystem \<Rightarrow> textfs \<Rightarrow> string \<Rightarrow> enc_steganographer
   \<Rightarrow> (py_error + unit) \<times> enc_steganographer \<times> textfs" where
  "decrypt_and_decode_message_to_file decrypt writable fs tfs message_file est =
     (case decode_image fs (enc_base est) of
        (Inl e, st1) \<Rightarrow> (Inl e, est\<lparr>enc_base := st1\<rparr>, tfs)
      | (Inr message, st1) \<Rightarrow>
          (case decrypt message (senders_key_pair_filename est) (passphrase est) of
             Inl e \<Rightarrow> (Inl e, est\<lparr>enc_base := st1\<rparr>, tfs)
           | Inr plain \<Rightarrow>
               (case write_message_to_file writable plain message_file tfs of
                  Inl e \<Rightarrow> (Inl e, est\<lparr>enc_base := st1\<rparr>, tfs)
                | Inr tfs' \<Rightarrow> (Inr (), est\<lparr>enc_base := st1\<rparr>, tfs'))))"

section \<open>Lemmas\<close>

lemma decrypt_and_decode_message_result:
  "fst (decrypt_and_decode_message decrypt fs est) =
     decrypt (case fst (decode_image fs (enc_base est)) of Inl _ \<Rightarrow> [] | Inr message \<Rightarrow> message)
       (senders_key_pair_filename est) (passphrase est)"
  by (simp add: decrypt_and_decode_message_def split: prod.split)

text \<open>
  An envelope that \<open>encrypt_and_encode_message\<close> embeds and saves as \<open>out\<close> is what a
  fresh object opened on \<open>out\<close> decodes.
\<close>

lemma envelope_saved:
  assumes "\<not> unit_shape (image_data (enc_base est))" and "output_file (enc_base est) = Some out"
    and "out \<noteq> []" and "color_size (enc_base est) = 3"
    and "max_bits_storable (enc_base est) = fst (image_size (enc_base est)) * snd (image_size (enc_base est)) * 3"
    and "wf_image (image_data (enc_base est)) (image_size (enc_base est)) 3"
    and "encrypt (Some m) (recipient_public_key_filename est) (senders_key_pair_filename est) (passphrase est) = Inr env"
    and "env \<noteq> []" and "\<forall>c \<in> set env. c < 256" and "length env < 2 ^ 32"
    and "frame_length 3 (length env) < max_bits_storable (enc_base est)" and "wr out"
  shows "\<exists>est' fs'. encrypt_and_encode_message encrypt wr fs (Some m) est = (Inr (), est', fs') \<and>
           fst (decode_image fs' (steganographer_init [(''inputFile'', Some out)])) = Inr env"
proof -
  let ?st = "enc_base est"
  obtain d rest where enc: "encode_image wr fs env ?st = (Inr (), ?st\<lparr>image_data := d\<rparr>, fs(out \<mapsto>
              \<lparr>pil_data = d, pil_mode = ''RGB'', pil_size = image_size ?st\<rparr>))"
    and d: "wf_image d (image_size ?st) 3" "\<not> unit_shape d"
      "lsb_stream d (image_size ?st) 3 = int_to_bin_list (length env) @ message_to_bin_list env @ rest"
    using encode_image_rgb_frame [where wr = wr, OF assms(1-6,8,11,12)] by blast
  let ?fs' = "fs(out \<mapsto> \<lparr>pil_data = d, pil_mode = ''RGB'', pil_size = image_size ?st\<rparr>)"
  have "fst (decode_image ?fs' (steganographer_init [(''inputFile'', Some out)])) = Inr env"
    using d assms(3,9,10)
    by (intro decode_image_fresh [where rest = rest and f = out]) (simp_all add: steganographer_init_def unit_shape_def)
  moreover have "encrypt_and_encode_message encrypt wr fs (Some m) est = (Inr (), est\<lparr>enc_base := ?st\<lparr>image_data := d\<rparr>\<rparr>, ?fs')"
    using enc assms(7) by (simp add: encrypt_and_encode_message_def)
  ultimately show ?thesis by blast
qed

section \<open>Properties\<close>

text \<open>
  C4. Envelope round trip: when \<open>encrypt\<close> turns the message into a byte-sized envelope
  that fits the encoding object's RGB image, and \<open>decrypt\<close> with the decoding object's
  key pair and passphrase turns that envelope back into the message,
  \<open>encrypt_and_encode_message\<close> succeeds, and a fresh \<open>EncryptedSteganographer\<close>
  opened on the saved image returns the message from \<open>decrypt_and_decode_message\<close>.
\<close>

theorem envelope_roundtrip:
  assumes "\<not> unit_shape (image_data (enc_base est))" and "output_file (enc_base est) = Some out"
    and "out \<noteq> []" and "color_size (enc_base est) = 3"
    and "max_bits_storable (enc_base est) = fst (image_size (enc_base est)) * snd (image_size (enc_base est)) * 3"
    and "wf_image (image_data (enc_base est)) (image_size (enc_base est)) 3"
    and "encrypt (Some m) (recipient_public_key_filename est) (senders_key_pair_filename est) (passphrase est) = Inr env"
    and "env \<noteq> []" and "\<forall>c \<in> set env. c < 256" and "length env < 2 ^ 32"
    and "frame_length 3 (length env) < max_bits_storable (enc_base est)"
    and "decrypt env dec_key dec_pass = Inr m" and "wr out"
  shows "\<exists>est' fs' est2. encrypt_and_encode_message encrypt wr fs (Some m) est = (Inr (), est', fs') \<and>
           enc_steganographer_init [(''inputFile'', Some out),
              (''recipientPublicKeyFileName'', dec_recipient), (''sendersKeyPairFileName'', dec_key), (''passphrase'', dec_pass)]
             = Inr est2 \<and>
           fst (decrypt_and_decode_message decrypt fs' est2) = Inr m"
proof -
  obtain est' fs' where enc: "encrypt_and_encode_message encrypt wr fs (Some m) est = (Inr (), est', fs')"
    and dec: "fst (decode_image fs' (steganographer_init [(''inputFile'', Some out)])) = Inr env"
    using envelope_saved [where encrypt = encrypt and wr = wr, OF assms(1-11,13)] by blast
  let ?est2 = "\<lparr>enc_base = steganographer_init [(''inputFile'', Some out)],
     recipient_public_key_filename = dec_recipient, senders_key_pair_filename = dec_key, passphrase = dec_pass\<rparr>"
  have init2: "enc_steganographer_init [(''inputFile'', Some out),
      (''recipientPublicKeyFileName'', dec_recipient), (''sendersKeyPairFileName'', dec_key), (''passphrase'', dec_pass)] = Inr ?est2"
    by (simp add: enc_steganographer_init_def kwargs_pop_def)
  have "fst (decrypt_and_decode_message decrypt fs' ?est2) = Inr m"
    using dec assms(12) by (simp add: decrypt_and_decode_message_result)
  with enc init2 show ?thesis by blast
qed

text \<open>
  C34. \<open>decrypt_and_decode_message\<close> swallows the exception of \<open>decode_image\<close>: when
  decoding fails, the empty string is handed to \<open>decrypt\<close> and its answer is returned.
\<close>

theorem decrypt_swallows_decode_error:
  assumes "fst (decode_image fs (enc_base est)) = Inl e"
  shows "fst (decrypt_and_decode_message decrypt fs est)
           = decrypt [] (senders_key_pair_filename est) (passphrase est)"
  using assms by (simp add: decrypt_and_decode_message_result)

text \<open>
  C35. The encrypted encode branch of the command line (line 657) passes the output image as
  \<open>outputfile=\<close>, a keyword \<open>__init__\<close> ignores: the object has no output file, and
  whenever the encryption succeeds \<open>encrypt_and_encode_message\<close> raises the
  no-output-file ValueError.
\<close>

theorem cli_crypto_encode_no_output:
  assumes "encrypt m r s p = Inr env"
  shows "\<exists>est. enc_steganographer_init [(''inputFile'', a), (''outputfile'', b),
              (''recipientPublicKeyFileName'', r), (''sendersKeyPairFileName'', s), (''passphrase'', p)]
            = Inr est \<and> fst (encrypt_and_encode_message encrypt wr fs m est) = Inl NoOutputFile"
  using assms
  by (simp add: enc_steganographer_init_def kwargs_pop_def steganographer_init_def
      encrypt_and_encode_message_def encode_image_def)

section \<open>Witnesses\<close>

theorem envelope_roundtrip_witness:
  "\<exists>est' fs' est2. encrypt_and_encode_message (\<lambda>m r s p. Inr (rev (the m))) (\<lambda>n. True) Map.empty (Some [65])
      \<lparr>enc_base = \<lparr>input_file = Some ''in.png'', output_file = Some ''out.png'', image_data = replicate 4 (replicate 4 [0, 0, 0]),
       color_mode = ''RGB'', color_size = 3, image_size = (4, 4), max_bits_storable = 48\<rparr>, recipient_public_key_filename = Some ''bob.pub'', senders_key_pair_filename = Some ''alice.pem'',
       passphrase = Some ''pw''\<rparr> = (Inr (), est', fs') \<and>
    enc_steganographer_init [(''inputFile'', Some ''out.png''),
       (''recipientPublicKeyFileName'', Some ''alice.pub''), (''sendersKeyPairFileName'', Some ''bob.pem''), (''passphrase'', Some ''pw2'')]
      = Inr est2 \<and>
    fst (decrypt_and_decode_message (\<lambda>m s p. Inr (rev m)) fs' est2) = Inr [65]"
  using envelope_roundtrip [where est = "\<lparr>enc_base = \<lparr>input_file = Some ''in.png'', output_file = Some ''out.png'', image_data = replicate 4 (replicate 4 [0, 0, 0]),
       color_mode = ''RGB'', color_size = 3, image_size = (4, 4), max_bits_storable = 48\<rparr>, recipient_public_key_filename = Some ''bob.pub'', senders_key_pair_filename = Some ''alice.pem'',
       passphrase = Some ''pw''\<rparr>" and encrypt = "\<lambda>m r s p. Inr (rev (the m))" and m = "[65]"
      and env = "[65]" and decrypt = "\<lambda>m s p. Inr (rev m)" and dec_key = "Some ''bob.pem''" and dec_pass = "Some ''pw2''"
      and dec_recipient = "Some ''alice.pub''" and out = "''out.png''" and fs = Map.empty and wr = "\<lambda>n. True"]
  by (simp add: engine_eval wf_image_def)

theorem decrypt_swallows_decode_error_witness:
  "fst (decrypt_and_decode_message (\<lambda>m s p. if m = [] then Inl IndexError else Inr m) Map.empty
      \<lparr>enc_base = steganographer_init [], recipient_public_key_filename = Some ''a.pub'',
       senders_key_pair_filename = Some ''b.pem'', passphrase = Some ''pw''\<rparr>) = Inl IndexError"
  using decrypt_swallows_decode_error [where e = NoInputFile and fs = Map.empty
      and est = "\<lparr>enc_base = steganographer_init [], recipient_public_key_filename = Some ''a.pub'',
       senders_key_pair_filename = Some ''b.pem'', passphrase = Some ''pw''\<rparr>"
      and decrypt = "\<lambda>m s p. if m = [] then Inl IndexError else Inr m"]
  by (simp add: steganographer_init_def decode_image_def ensure_initialized_def unit_shape_def
      initialize_image_data_def)

theorem cli_crypto_encode_no_output_witness:
  "\<exists>est. enc_steganographer_init [(''inputFile'', Some ''in.png''), (''outputfile'', Some ''out.png''),
              (''recipientPublicKeyFileName'', Some ''bob.pub''), (''sendersKeyPairFileName'', Some ''alice.pem''),
              (''passphrase'', Some ''pw'')]
            = Inr est \<and> fst (encrypt_and_encode_message (\<lambda>m r s p. Inr (the m)) (\<lambda>n. True) Map.empty (Some [65]) est) = Inl NoOutputFile"
  by (rule cli_crypto_encode_no_output) simp

end
