(* ===== verification/Script.thy ===== *)
theory Script
  imports Cli Files Envelope
begin

text \<open>
  One run of the script (\<^verbatim>\<open>src/steganographer.py\<close>, lines 631-759): \<open>cli_dispatch\<close>
  chooses the branch of the main block, and \<open>run_call\<close> performs the call that branch
  makes on the object models, with the constructor, the \<open>try\<close>/\<open>except\<close> around it
  and the exit status. A run ends with \<open>exit(n)\<close> (the end of the script is
  \<open>exit(0)\<close>) or with an exception no handler catches, which Python reports with a
  traceback and status 1 (\<open>script_end\<close>). The lines the main block prints are kept
  (\<open>script_line\<close>); the prints inside the methods are not. The parts outside the sources
  are parameters: the image and text file names the process may write, the envelope
  functions of module \<open>message\<close> (as in \<open>Envelope\<close>) and
  \<open>CryptoHelper.generateKeys\<close>. A command-line string enters the model's strings of
  code points through \<open>py_of_string\<close>.
\<close>

section \<open>Definitions\<close>

datatype script_end =
    Exit nat             \<comment> \<open>\<open>exit(n)\<close>, or the end of the script (\<open>exit(0)\<close>, line 759)\<close>
  | Uncaught py_error    \<comment> \<open>an exception no handler catches: traceback, status 1\<close>

datatype script_line =
    PLine string         \<comment> \<open>\<open>print\<close> of a string\<close>
  | PErr py_error        \<comment> \<open>\<open>print(e)\<close> of a caught exception\<close>
  | PMsg pystr           \<comment> \<open>\<open>print\<close> of a decoded message\<close>
  | PHelp                \<comment> \<open>\<open>parser.print_help()\<close>\<close>

type_synonym genkeys_fn = "py_name \<Rightarrow> py_name \<Rightarrow> py_name \<Rightarrow> py_error + unit"

type_synonym script_result = "script_end \<times> script_line list \<times> filesystem \<times> textfs"

definition py_of_string :: "string \<Rightarrow> pystr" where
  "py_of_string s = map of_char s"

text \<open>
  \<open>steg.encode_image(None)\<close> (lines 301-321): the test of the output file name and the
  initialization run as for a string, \<open>None == ""\<close> is false, and \<open>len(None)\<close>
  raises TypeError.
\<close>

definition encode_image_none ::
  "filesystem \<Rightarrow> steganographer \<Rightarrow> (py_error + unit) \<times> steganographer \<times> filesystem" where
  "encode_image_none fs st =
     (if output_file st = Some [] then (Inl NoOutputFile, st, fs)
      else case ensure_initialized fs st of
        (Inl e, st1) \<Rightarrow> (Inl e, st1, fs)
      | (Inr _, st1) \<Rightarrow> (Inl TypeError, st1, fs))"

text \<open>
  \<open>except IOError as e: print(header); print(e); exit(1)\<close> around a call whose success
  prints \<open>lines\<close> and reaches \<open>exit(0)\<close> (directly or at the end of the script);
  any other exception escapes.
\<close>

definition except_ioerror :: "string \<Rightarrow> py_error + script_line list \<Rightarrow> script_end \<times> script_line list" where
  "except_ioerror header r =
     (case r of
        Inr lines \<Rightarrow> (Exit 0, lines)
      | Inl e \<Rightarrow> if e = IOError then (Exit 1, [PLine header, PErr e]) else (Uncaught e, []))"

text \<open>\<open>except KeyError as e: print(header); print(e); exit(1)\<close> around a constructor.\<close>

definition except_keyerror :: "string \<Rightarrow> py_error \<Rightarrow> script_end \<times> script_line list" where
  "except_keyerror header e =
     (case e of KeyError _ \<Rightarrow> (Exit 1, [PLine header, PErr e]) | _ \<Rightarrow> (Uncaught e, []))"

definition message_header :: string where
  "message_header = ''Message:'' @ [CHR 0x0A]"

definition written_line :: "string \<Rightarrow> script_line" where
  "written_line f = PLine (''Message successfully written to '' @ f @ ''.'')"

fun run_call ::
  "(string \<Rightarrow> bool) \<Rightarrow> (string \<Rightarrow> bool) \<Rightarrow> encrypt_fn \<Rightarrow> decrypt_fn \<Rightarrow> genkeys_fn \<Rightarrow>
   filesystem \<Rightarrow> textfs \<Rightarrow> cli_call \<Rightarrow> script_result" where
  "run_call wr twr encrypt decrypt genkeys fs tfs (GenerateKeys g p md) =
     (case genkeys g p md of Inl e \<Rightarrow> (Uncaught e, [], fs, tfs) | Inr _ \<Rightarrow> (Exit 0, [], fs, tfs))"
| "run_call wr twr encrypt decrypt genkeys fs tfs (EncryptEncodeFromFile kw f) =
     (case enc_steganographer_init kw of
        Inl e \<Rightarrow> (case except_keyerror ''The following error has occured: '' e of (x, out) \<Rightarrow> (x, out, fs, tfs))
      | Inr est \<Rightarrow>
          (case encrypt_and_encode_message_from_file encrypt wr fs tfs f est of
             (r, _, fs') \<Rightarrow>
               (case except_ioerror ''The following Error was encountered opening the message file.''
                       (map_sum id (\<lambda>_. []) r) of
                  (x, out) \<Rightarrow> (x, out, fs', tfs))))"
| "run_call wr twr encrypt decrypt genkeys fs tfs (EncryptEncodeMessage kw msg) =
     (case enc_steganographer_init kw of
        Inl e \<Rightarrow> (case except_keyerror ''The following error has occured: '' e of (x, out) \<Rightarrow> (x, out, fs, tfs))
      | Inr est \<Rightarrow>
          (case encrypt_and_encode_message encrypt wr fs (map_option py_of_string msg) est of
             (r, _, fs') \<Rightarrow>
               (case except_ioerror ''The following Error was encountered opening the message file.''
                       (map_sum id (\<lambda>_. []) r) of
                  (x, out) \<Rightarrow> (x, out, fs', tfs))))"
| "run_call wr twr encrypt decrypt genkeys fs tfs (EncodeFromFile kw f) =
     (case encode_image_from_file wr fs tfs f (steganographer_init kw) of
        (r, _, fs') \<Rightarrow>
          (case except_ioerror ''The following error occured: '' (map_sum id (\<lambda>_. []) r) of
             (x, out) \<Rightarrow> (x, out, fs', tfs)))"
| "run_call wr twr encrypt decrypt genkeys fs tfs (EncodeMessage kw msg) =
     (case (case msg of
              None \<Rightarrow> encode_image_none fs (steganographer_init kw)
            | Some m \<Rightarrow> encode_image wr fs (py_of_string m) (steganographer_init kw)) of
        (r, _, fs') \<Rightarrow>
          (case except_ioerror ''The following error occured: '' (map_sum id (\<lambda>_. []) r) of
             (x, out) \<Rightarrow> (x, out, fs', tfs)))"
| "run_call wr twr encrypt decrypt genkeys fs tfs (DecryptDecodeToFile kw f) =
     (case enc_steganographer_init kw of
        Inl e \<Rightarrow> (case except_keyerror ''The following error has occured: '' e of (x, out) \<Rightarrow> (x, out, fs, tfs))
      | Inr est \<Rightarrow>
          (case decrypt_and_decode_message_to_file decrypt twr fs tfs f est of
             (r, _, tfs') \<Rightarrow>
               (case except_ioerror ''The following error was encountered: ''
                       (map_sum id (\<lambda>_. [written_line f]) r) of
                  (x, out) \<Rightarrow> (x, out, fs, tfs'))))"
| "run_call wr twr encrypt decrypt genkeys fs tfs (DecryptDecodePrint kw) =
     (case enc_steganographer_init kw of
        Inl e \<Rightarrow> (case except_keyerror ''The following error has occured: '' e of (x, out) \<Rightarrow> (x, out, fs, tfs))
      | Inr est \<Rightarrow>
          (case except_ioerror ''The following error was encountered: ''
                  (map_sum id (\<lambda>m. [PMsg m]) (fst (decrypt_and_decode_message decrypt fs est))) of
             (x, out) \<Rightarrow> (x, PLine message_header # out, fs, tfs)))"
| "run_call wr twr encrypt decrypt genkeys fs tfs (DecodeToFile kw f) =
     (case decode_image_to_file twr fs tfs f (steganographer_init kw) of
        (r, _, tfs') \<Rightarrow>
          (case except_ioerror ''The following error was encountered: ''
                  (map_sum id (\<lambda>_. [written_line f]) r) of
             (x, out) \<Rightarrow> (x, out, fs, tfs')))"
| "run_call wr twr encrypt decrypt genkeys fs tfs (DecodeMissingMethod kw) =
     (Uncaught (AttributeError ''decode''), [PLine message_header], fs, tfs)"

text \<open>The whole main block: the dispatch, then the help text, the error or the call.\<close>

definition cli_main ::
  "(string \<Rightarrow> bool) \<Rightarrow> (string \<Rightarrow> bool) \<Rightarrow> encrypt_fn \<Rightarrow> decrypt_fn \<Rightarrow> genkeys_fn \<Rightarrow>
   cli_args \<Rightarrow> filesystem \<Rightarrow> textfs \<Rightarrow> script_result" where
  "cli_main wr twr encrypt decrypt genkeys a fs tfs =
     (case cli_dispatch a of
        ParserHelp \<Rightarrow> (Exit 1, [PHelp], fs, tfs)
      | ArgsHelp \<Rightarrow> (Uncaught (AttributeError ''print_help''), [], fs, tfs)
      | ErrorExit n \<Rightarrow> (Exit n, [PLine ''A passphrase for the key must be provided.''], fs, tfs)
      | Run c \<Rightarrow> run_call wr twr encrypt decrypt genkeys fs tfs c)"

section \<open>Lemmas\<close>

lemma truthy_iff: "truthy x \<longleftrightarrow> (\<exists>s. x = Some s \<and> s \<noteq> [])"
  by (cases x) (simp_all add: truthy_def)

lemma initialize_image_data_names:
  "initialize_image_data fs st = (r, st1) \<Longrightarrow> input_file st1 = input_file st \<and> output_file st1 = output_file st"
  by (auto simp: initialize_image_data_def Let_def split: if_splits option.splits)

lemma initialize_image_data_Inr:
  "initialize_image_data fs st = (Inr u, st1) \<Longrightarrow> \<exists>i. input_file st = Some i \<and> i \<noteq> []"
  by (auto simp: initialize_image_data_def Let_def split: if_splits option.splits)

lemma save_output_image_Inr:
  "save_output_image wr fs st = Inr fs' \<Longrightarrow> \<exists>f. output_file st = Some f \<and> wr f \<and> fs' = fs(f \<mapsto> the (fs' f))"
  by (auto simp: save_output_image_def split: sum.splits option.splits if_splits)

lemma encode_image_writes:
  assumes "snd (snd (encode_image wr fs m st)) \<noteq> fs"
  shows "m \<noteq> [] \<and> (\<exists>f. output_file st = Some f \<and> f \<noteq> [] \<and> wr f) \<and>
         (unit_shape (image_data st) \<longrightarrow> (\<exists>i. input_file st = Some i \<and> i \<noteq> []))"
proof -
  obtain r1 st1 where e: "ensure_initialized fs st = (r1, st1)" by fastforce
  have names: "input_file st1 = input_file st \<and> output_file st1 = output_file st"
    using e initialize_image_data_names by (auto simp: ensure_initialized_def split: if_splits)
  from assms e obtain bs where o: "output_file st \<noteq> Some []" and r1: "r1 = Inr ()" and m: "m \<noteq> []"
    and s: "\<exists>fs'. save_output_image wr fs (st1\<lparr>image_data := embed_bits (image_data st1) bs (image_size st1) (color_size st1)\<rparr>) = Inr fs'"
    by (auto simp: encode_image_def Let_def split: if_splits sum.splits)
  obtain fs' where "save_output_image wr fs (st1\<lparr>image_data := embed_bits (image_data st1) bs (image_size st1) (color_size st1)\<rparr>) = Inr fs'"
    using s by blast
  then obtain f where f: "output_file st1 = Some f" "wr f" by (auto dest: save_output_image_Inr)
  have "unit_shape (image_data st) \<Longrightarrow> \<exists>i. input_file st = Some i \<and> i \<noteq> []"
    using e r1 by (auto simp: ensure_initialized_def dest: initialize_image_data_Inr)
  then show ?thesis using f names o m by auto
qed
lemma py_of_string_Nil [simp]: "py_of_string s = [] \<longleftrightarrow> s = []"
  by (simp add: py_of_string_def)

lemma encode_image_no_output: "output_file st = Some [] \<Longrightarrow> encode_image wr fs m st = (Inl NoOutputFile, st, fs)"
  by (simp add: encode_image_def)

lemma encode_image_none_fs: "snd (snd (encode_image_none fs st)) = fs"
  by (simp add: encode_image_none_def split: prod.split sum.split)

lemma enc_steganographer_init_cli:
  "enc_steganographer_init [(''inputFile'', x), (''outputfile'', y), (''recipientPublicKeyFileName'', r),
      (''sendersKeyPairFileName'', s), (''passphrase'', p)] =
     Inr \<lparr>enc_base = steganographer_init [(''inputFile'', x), (''outputfile'', y)],
          recipient_public_key_filename = r, senders_key_pair_filename = s, passphrase = p\<rparr>"
  "enc_steganographer_init [(''inputFile'', x), (''recipientPublicKeyFileName'', r),
      (''sendersKeyPairFileName'', s), (''passphrase'', p)] =
     Inr \<lparr>enc_base = steganographer_init [(''inputFile'', x)],
          recipient_public_key_filename = r, senders_key_pair_filename = s, passphrase = p\<rparr>"
  by (simp_all add: enc_steganographer_init_def kwargs_pop_def)

lemma map_sum_Inr_iff: "map_sum f g x = Inr y \<longleftrightarrow> (\<exists>v. x = Inr v \<and> y = g v)"
  by (cases x) auto

lemma cli_dispatch_enc_init:
  assumes "cli_dispatch a = Run c"
  shows "(\<forall>kw f. c = EncryptEncodeFromFile kw f \<longrightarrow> (\<exists>est. enc_steganographer_init kw = Inr est)) \<and>
         (\<forall>kw m. c = EncryptEncodeMessage kw m \<longrightarrow> (\<exists>est. enc_steganographer_init kw = Inr est)) \<and>
         (\<forall>kw f. c = DecryptDecodeToFile kw f \<longrightarrow> (\<exists>est. enc_steganographer_init kw = Inr est)) \<and>
         (\<forall>kw. c = DecryptDecodePrint kw \<longrightarrow> (\<exists>est. enc_steganographer_init kw = Inr est))"
  using assms by (auto simp: cli_dispatch_def Let_def enc_steganographer_init_cli split: if_splits)

lemma run_call_keyerror_line:
  assumes "(\<forall>kw f. c = EncryptEncodeFromFile kw f \<longrightarrow> (\<exists>est. enc_steganographer_init kw = Inr est)) \<and>
         (\<forall>kw m. c = EncryptEncodeMessage kw m \<longrightarrow> (\<exists>est. enc_steganographer_init kw = Inr est)) \<and>
         (\<forall>kw f. c = DecryptDecodeToFile kw f \<longrightarrow> (\<exists>est. enc_steganographer_init kw = Inr est)) \<and>
         (\<forall>kw. c = DecryptDecodePrint kw \<longrightarrow> (\<exists>est. enc_steganographer_init kw = Inr est))"
  shows "PLine ''The following error has occured: '' \<notin> set (fst (snd (run_call wr twr encrypt decrypt genkeys fs tfs c)))"
  using assms
  by (cases c) (auto simp: except_ioerror_def written_line_def message_header_def map_sum_Inr_iff
      split: prod.split sum.split)

lemma decode_image_to_file_fresh:
  assumes "fs f = Some \<lparr>pil_data = d, pil_mode = ''RGB'', pil_size = sz\<rparr>" and "f \<noteq> []"
    and "wf_image d sz 3" and "\<not> unit_shape d" and "\<forall>c \<in> set m. c < 256" and "length m < 2 ^ 32"
    and "lsb_stream d sz 3 = int_to_bin_list (length m) @ message_to_bin_list m @ rest" and "twr txt"
  shows "\<exists>st1. decode_image_to_file twr fs tfs txt (steganographer_init [(''inputFile'', Some f)])
           = (Inr (), st1, tfs(txt \<mapsto> m))"
proof -
  have "fst (decode_image fs (steganographer_init [(''inputFile'', Some f)])) = Inr m"
    using assms(1-7)
    by (intro decode_image_fresh [where rest = rest and f = f]) (simp_all add: steganographer_init_def unit_shape_def)
  then show ?thesis
    using assms(8)
    by (cases "decode_image fs (steganographer_init [(''inputFile'', Some f)])")
      (simp add: decode_image_to_file_def write_message_to_file_def)
qed

section \<open>Properties\<close>

text \<open>
  C13. No run of the script with \<open>--encode\<close> writes an image file. The plain branch calls
  a method only when the input image, the output image or the message is missing or empty,
  and then \<open>encode_image\<close> fails before saving (no input file, no output file name,
  \<open>save(None)\<close>, an empty message or \<open>len(None)\<close>); the encrypted branch
  passes \<open>outputfile=\<close>, so its object has no output file name.
\<close>

theorem cli_encode_keeps_images:
  assumes "arg_encode a" and "\<not> truthy (arg_generate a)"
  shows "fst (snd (snd (cli_main wr twr encrypt decrypt genkeys a fs tfs))) = fs"
proof (cases "arg_crypto a")
  case True
  then show ?thesis using assms
    by (auto simp: cli_main_def cli_dispatch_def Let_def enc_steganographer_init_def kwargs_pop_def
        steganographer_init_def encrypt_and_encode_message_from_file_def encrypt_and_encode_message_def
        encode_image_no_output split: sum.splits prod.splits)
next
  case plain: False
  let ?st = "steganographer_init [(''inputFile'', arg_inputimage a), (''outputFile'', arg_outputimage a)]"
  have st: "input_file ?st = arg_inputimage a" "output_file ?st = arg_outputimage a" "unit_shape (image_data ?st)"
    by (simp_all add: steganographer_init_def unit_shape_def)
  have keep: "fs' = fs"
    if "encode_image wr fs m ?st = (r, st', fs')"
      and "\<not> truthy (arg_inputimage a) \<or> \<not> truthy (arg_outputimage a) \<or> m = []" for m r st' fs'
    using encode_image_writes [of wr fs m ?st] st that by (auto simp: truthy_iff)
  show ?thesis
  proof (cases "truthy (arg_inputfile a)")
    case True
    then show ?thesis using assms plain keep
      by (auto simp: cli_main_def cli_dispatch_def encode_image_from_file_def split: sum.splits prod.splits)
  next
    case False
    then show ?thesis using assms plain keep encode_image_none_fs [of fs ?st]
      by (auto simp: cli_main_def cli_dispatch_def truthy_def split: sum.splits prod.splits option.splits
          intro: keep)
  qed
qed

text \<open>
  C5. The only way the command line decodes an image: after an object has encoded a message
  into a well-formed RGB image and saved it as \<open>out\<close>, the command
  \<open>--decode --inputimage out --outputfile txt\<close>, given without \<open>--outputimage\<close>
  (which would make it print help), writes the message to \<open>txt\<close>, prints the success
  line and exits with status 0.
\<close>

theorem cli_decode_to_file_roundtrip:
  assumes "\<not> unit_shape (image_data st)" and "output_file st = Some out" and "out \<noteq> []"
    and "color_size st = 3"
    and "max_bits_storable st = fst (image_size st) * snd (image_size st) * 3"
    and "wf_image (image_data st) (image_size st) 3"
    and "m \<noteq> []" and "\<forall>c \<in> set m. c < 256" and "length m < 2 ^ 32"
    and "frame_length 3 (length m) < max_bits_storable st" and "wr out"
    and "\<not> truthy (arg_generate a)" and "\<not> arg_encode a" and "arg_decode a" and "\<not> arg_crypto a"
    and "arg_inputimage a = Some out" and "\<not> truthy (arg_outputimage a)"
    and "arg_outputfile a = Some txt" and "txt \<noteq> []" and "twr txt"
  shows "\<exists>st' fs'. encode_image wr fs m st = (Inr (), st', fs') \<and>
           cli_main wr twr encrypt decrypt genkeys a fs' tfs = (Exit 0, [written_line txt], fs', tfs(txt \<mapsto> m))"
proof -
  obtain d rest where enc: "encode_image wr fs m st = (Inr (), st\<lparr>image_data := d\<rparr>, fs(out \<mapsto>
              \<lparr>pil_data = d, pil_mode = ''RGB'', pil_size = image_size st\<rparr>))"
    and d: "wf_image d (image_size st) 3" "\<not> unit_shape d"
      "lsb_stream d (image_size st) 3 = int_to_bin_list (length m) @ message_to_bin_list m @ rest"
    using encode_image_rgb_frame [where wr = wr, OF assms(1-7,10,11)] by blast
  let ?fs' = "fs(out \<mapsto> \<lparr>pil_data = d, pil_mode = ''RGB'', pil_size = image_size st\<rparr>)"
  have disp: "cli_dispatch a = Run (DecodeToFile [(''inputFile'', Some out)] txt)"
    using assms(12-19) by (simp add: cli_dispatch_def truthy_def)
  have "\<exists>st1. decode_image_to_file twr ?fs' tfs txt (steganographer_init [(''inputFile'', Some out)])
      = (Inr (), st1, tfs(txt \<mapsto> m))"
    by (rule decode_image_to_file_fresh [where d = d and sz = "image_size st" and rest = rest])
      (insert assms(9), simp_all add: d assms(3,8,20))
  then obtain st1 where dec: "decode_image_to_file twr ?fs' tfs txt (steganographer_init [(''inputFile'', Some out)])
      = (Inr (), st1, tfs(txt \<mapsto> m))" by blast
  have "cli_main wr twr encrypt decrypt genkeys a ?fs' tfs = (Exit 0, [written_line txt], ?fs', tfs(txt \<mapsto> m))"
    using disp dec by (simp add: cli_main_def except_ioerror_def)
  with enc show ?thesis by blast
qed

text \<open>
  C31. The \<open>except KeyError\<close> handlers of lines 661, 708 and 733 never run: the block
  passes every keyword to the constructors (an unset option as \<open>None\<close>), so
  \<open>EncryptedSteganographer.__init__\<close> finds all three keys, and
  \<open>Steganographer.__init__\<close> raises nothing. Their message
  \<open>The following error has occured:\<close> is never printed.
\<close>

theorem cli_keyerror_handlers_unreachable:
  "PLine ''The following error has occured: '' \<notin> set (fst (snd (cli_main wr twr encrypt decrypt genkeys a fs tfs)))"
proof (cases "cli_dispatch a")
  case (Run c)
  then show ?thesis using run_call_keyerror_line [OF cli_dispatch_enc_init [OF Run]] by (simp add: cli_main_def)
qed (auto simp: cli_main_def split: option.split)

text \<open>
  C6. The encrypted counterpart: after an \<open>EncryptedSteganographer\<close> object has
  embedded an envelope into a well-formed RGB image and saved it as \<open>out\<close>, the command
  \<open>--decode --crypto --inputimage out\<close> with the decoding key options and without
  \<open>--outputimage\<close> and \<open>--outputfile\<close> prints \<open>Message:\<close> and the
  message and exits with status 0, when \<open>decrypt\<close> with the signing key and passphrase
  given on the command line opens the envelope.
\<close>

theorem cli_decrypt_print_roundtrip:
  assumes "\<not> unit_shape (image_data (enc_base est))" and "output_file (enc_base est) = Some out"
    and "out \<noteq> []" and "color_size (enc_base est) = 3"
    and "max_bits_storable (enc_base est) = fst (image_size (enc_base est)) * snd (image_size (enc_base est)) * 3"
    and "wf_image (image_data (enc_base est)) (image_size (enc_base est)) 3"
    and "encrypt (Some m) (recipient_public_key_filename est) (senders_key_pair_filename est) (passphrase est) = Inr env"
    and "env \<noteq> []" and "\<forall>c \<in> set env. c < 256" and "length env < 2 ^ 32"
    and "frame_length 3 (length env) < max_bits_storable (enc_base est)" and "wr out"
    and "decrypt env (arg_signingkey a) (arg_passphrase a) = Inr m"
    and "\<not> truthy (arg_generate a)" and "\<not> arg_encode a" and "arg_decode a" and "arg_crypto a"
    and "arg_inputimage a = Some out" and "\<not> truthy (arg_outputimage a)" and "\<not> truthy (arg_outputfile a)"
  shows "\<exists>est' fs'. encrypt_and_encode_message encrypt wr fs (Some m) est = (Inr (), est', fs') \<and>
           cli_main wr twr encrypt decrypt genkeys a fs' tfs = (Exit 0, [PLine message_header, PMsg m], fs', tfs)"
proof -
  obtain est' fs' where enc: "encrypt_and_encode_message encrypt wr fs (Some m) est = (Inr (), est', fs')"
    and dec: "fst (decode_image fs' (steganographer_init [(''inputFile'', Some out)])) = Inr env"
    using envelope_saved [where encrypt = encrypt and wr = wr, OF assms(1-12)] by blast
  have disp: "cli_dispatch a = Run (DecryptDecodePrint [(''inputFile'', Some out),
      (''recipientPublicKeyFileName'', arg_encryptionkey a), (''sendersKeyPairFileName'', arg_signingkey a),
      (''passphrase'', arg_passphrase a)])"
    using assms(14-20) by (simp add: cli_dispatch_def truthy_def)
  have "cli_main wr twr encrypt decrypt genkeys a fs' tfs = (Exit 0, [PLine message_header, PMsg m], fs', tfs)"
    using disp dec assms(13)
    by (simp add: cli_main_def enc_steganographer_init_cli decrypt_and_decode_message_result except_ioerror_def)
  with enc show ?thesis by blast
qed

text \<open>
  C37. The plain decoding command reports success whatever happens to its output file: when
  the image decodes but the text file cannot be written, \<open>decode_image_to_file\<close>
  swallows the IOError, and the block prints \<open>Message successfully written to ...\<close>
  and exits with status 0, with no file written.
\<close>

theorem cli_decode_unwritable_reports_success:
  assumes "cli_dispatch a = Run (DecodeToFile kw txt)"
    and "fst (decode_image fs (steganographer_init kw)) = Inr m" and "\<not> twr txt"
  shows "cli_main wr twr encrypt decrypt genkeys a fs tfs = (Exit 0, [written_line txt], fs, tfs)"
  using assms
  by (cases "decode_image fs (steganographer_init kw)")
    (simp add: cli_main_def decode_image_to_file_def write_message_to_file_def except_ioerror_def)

text \<open>
  C26. The arguments the usage asks for crash the script: with input image, output image and
  a message (and the keys for \<open>--crypto\<close>) the encode branch, and with input and
  output image (and the keys) the decode branch, reach \<open>args.print_help()\<close>, which
  raises AttributeError on argparse's \<open>Namespace\<close>: nothing is printed, no file changes,
  and Python ends with a traceback.
\<close>

theorem cli_complete_args_crash:
  assumes "\<not> truthy (arg_generate a)"
    and "arg_encode a \<and> encode_args_complete a \<or> \<not> arg_encode a \<and> arg_decode a \<and> decode_args_complete a"
  shows "cli_main wr twr encrypt decrypt genkeys a fs tfs = (Uncaught (AttributeError ''print_help''), [], fs, tfs)"
  using assms
  by (auto simp: cli_main_def cli_dispatch_def encode_args_complete_def decode_args_complete_def)

text \<open>
  C30. Plain decoding without \<open>--outputfile\<close> never prints a message: with both image
  options the branch crashes in \<open>args.print_help()\<close>, and otherwise it prints
  \<open>Message:\<close> and crashes in \<open>steg.decode()\<close>, a method the class does not have;
  both are uncaught AttributeErrors and no file changes.
\<close>

theorem cli_plain_decode_terminal:
  assumes "\<not> truthy (arg_generate a)" and "\<not> arg_encode a" and "arg_decode a"
    and "\<not> arg_crypto a" and "\<not> truthy (arg_outputfile a)"
  shows "cli_main wr twr encrypt decrypt genkeys a fs tfs \<in>
           {(Uncaught (AttributeError ''print_help''), [], fs, tfs),
            (Uncaught (AttributeError ''decode''), [PLine message_header], fs, tfs)}"
  using assms by (simp add: cli_main_def cli_dispatch_def)

section \<open>Witnesses\<close>

theorem cli_encode_keeps_images_witness:
  "fst (snd (snd (cli_main (\<lambda>n. True) (\<lambda>n. True) (\<lambda>m r s p. Inr []) (\<lambda>m s p. Inr []) (\<lambda>g p md. Inr ())
      (default_args\<lparr>arg_encode := True, arg_inputimage := Some ''a.png'', arg_message := Some ''hi''\<rparr>)
      (Map.empty(''a.png'' \<mapsto> \<lparr>pil_data = replicate 4 (replicate 4 [0, 0, 0]), pil_mode = ''RGB'', pil_size = (4, 4)\<rparr>))
      Map.empty)))
   = Map.empty(''a.png'' \<mapsto> \<lparr>pil_data = replicate 4 (replicate 4 [0, 0, 0]), pil_mode = ''RGB'', pil_size = (4, 4)\<rparr>)"
  by (rule cli_encode_keeps_images) (simp_all add: default_args_def truthy_def)

theorem cli_decode_to_file_roundtrip_witness:
  "\<exists>st' fs'. encode_image (\<lambda>n. True) Map.empty [65]
      \<lparr>input_file = Some ''in.png'', output_file = Some ''out.png'', image_data = replicate 4 (replicate 4 [0, 0, 0]),
       color_mode = ''RGB'', color_size = 3, image_size = (4, 4), max_bits_storable = 48\<rparr> = (Inr (), st', fs') \<and>
    cli_main (\<lambda>n. True) (\<lambda>n. n = ''msg.txt'') (\<lambda>m r s p. Inr []) (\<lambda>m s p. Inr []) (\<lambda>g p md. Inr ())
      (default_args\<lparr>arg_decode := True, arg_inputimage := Some ''out.png'', arg_outputfile := Some ''msg.txt''\<rparr>)
      fs' Map.empty
    = (Exit 0, [written_line ''msg.txt''], fs', Map.empty(''msg.txt'' \<mapsto> [65]))"
  by (rule cli_decode_to_file_roundtrip) (simp_all add: engine_eval wf_image_def default_args_def truthy_def)+

theorem cli_decrypt_print_roundtrip_witness:
  "\<exists>est' fs'. encrypt_and_encode_message (\<lambda>m r s p. Inr (rev (the m))) (\<lambda>n. True) Map.empty (Some [65])
      \<lparr>enc_base = \<lparr>input_file = Some ''in.png'', output_file = Some ''out.png'',
         image_data = replicate 4 (replicate 4 [0, 0, 0]), color_mode = ''RGB'', color_size = 3,
         image_size = (4, 4), max_bits_storable = 48\<rparr>,
       recipient_public_key_filename = Some ''bob.pub'', senders_key_pair_filename = Some ''alice.pem'',
       passphrase = Some ''pw''\<rparr> = (Inr (), est', fs') \<and>
    cli_main (\<lambda>n. True) (\<lambda>n. True) (\<lambda>m r s p. Inr (rev (the m))) (\<lambda>m s p. Inr (rev m)) (\<lambda>g p md. Inr ())
      (default_args\<lparr>arg_decode := True, arg_crypto := True, arg_inputimage := Some ''out.png'',
         arg_encryptionkey := Some ''alice.pub'', arg_signingkey := Some ''bob.pem'', arg_passphrase := Some ''pw2''\<rparr>)
      fs' Map.empty
    = (Exit 0, [PLine message_header, PMsg [65]], fs', Map.empty)"
  by (rule cli_decrypt_print_roundtrip [where env = "[65]"])
    (simp_all add: engine_eval wf_image_def default_args_def truthy_def)+

theorem cli_decode_unwritable_reports_success_witness:
  "cli_main (\<lambda>n. True) (\<lambda>n. False) (\<lambda>m r s p. Inr []) (\<lambda>m s p. Inr []) (\<lambda>g p md. Inr ())
      (default_args\<lparr>arg_decode := True, arg_inputimage := Some ''a.png'', arg_outputfile := Some ''msg.txt''\<rparr>)
      (Map.empty(''a.png'' \<mapsto> \<lparr>pil_data = replicate 4 (replicate 4 [0, 0, 0]), pil_mode = ''RGB'', pil_size = (4, 4)\<rparr>))
      Map.empty
    = (Exit 0, [written_line ''msg.txt''],
       Map.empty(''a.png'' \<mapsto> \<lparr>pil_data = replicate 4 (replicate 4 [0, 0, 0]), pil_mode = ''RGB'', pil_size = (4, 4)\<rparr>),
       Map.empty)"
proof -
  have dec: "fst (decode_image (Map.empty(''a.png'' \<mapsto> \<lparr>pil_data = replicate 4 (replicate 4 [0, 0, 0]), pil_mode = ''RGB'', pil_size = (4, 4)\<rparr>))
      (steganographer_init [(''inputFile'', Some ''a.png'')])) = Inr []"
  proof (rule decode_image_fresh [where rest = "[0, 0, 0, 0, 0, 0, 0, 0, 0, 0, 0, 0, 0, 0, 0, 0]" and f = "''a.png''"])
    show "lsb_stream (replicate 4 (replicate 4 [0, 0, 0])) (4, 4) 3 =
        int_to_bin_list (length []) @ message_to_bin_list [] @ [0, 0, 0, 0, 0, 0, 0, 0, 0, 0, 0, 0, 0, 0, 0, 0]"
      by (simp add: scan_eval int_to_bin_list_def upt_rec)
  qed (simp add: steganographer_init_def unit_shape_def,
    simp_all add: steganographer_init_def wf_image_def not_unit_shape_long)
  have disp: "cli_dispatch (default_args\<lparr>arg_decode := True, arg_inputimage := Some ''a.png'', arg_outputfile := Some ''msg.txt''\<rparr>)
      = Run (DecodeToFile [(''inputFile'', Some ''a.png'')] ''msg.txt'')"
    by (simp add: cli_dispatch_def default_args_def truthy_def)
  show ?thesis using cli_decode_unwritable_reports_success [OF disp dec] by simp
qed

theorem cli_complete_args_crash_witness:
  "cli_main (\<lambda>n. True) (\<lambda>n. True) (\<lambda>m r s p. Inr []) (\<lambda>m s p. Inr []) (\<lambda>g p md. Inr ())
      (default_args\<lparr>arg_encode := True, arg_inputimage := Some ''in.png'',
         arg_outputimage := Some ''out.png'', arg_message := Some ''hi''\<rparr>) Map.empty Map.empty
    = (Uncaught (AttributeError ''print_help''), [], Map.empty, Map.empty)"
  by (rule cli_complete_args_crash) (simp_all add: default_args_def truthy_def encode_args_complete_def)

theorem cli_plain_decode_terminal_witness:
  "cli_main (\<lambda>n. True) (\<lambda>n. True) (\<lambda>m r s p. Inr []) (\<lambda>m s p. Inr []) (\<lambda>g p md. Inr ())
      (default_args\<lparr>arg_decode := True, arg_inputimage := Some ''out.png''\<rparr>) Map.empty Map.empty
    = (Uncaught (AttributeError ''decode''), [PLine message_header], Map.empty, Map.empty)"
proof -
  have "cli_main (\<lambda>n. True) (\<lambda>n. True) (\<lambda>m r s p. Inr []) (\<lambda>m s p. Inr []) (\<lambda>g p md. Inr ())
      (default_args\<lparr>arg_decode := True, arg_inputimage := Some ''out.png''\<rparr>) Map.empty Map.empty
    \<noteq> (Uncaught (AttributeError ''print_help''), [], Map.empty, Map.empty)"
    by (simp add: cli_main_def cli_dispatch_def default_args_def truthy_def)
  then show ?thesis
    using cli_plain_decode_terminal [where a = "default_args\<lparr>arg_decode := True, arg_inputimage := Some ''out.png''\<rparr>"
        and wr = "\<lambda>n. True" and twr = "\<lambda>n. True" and encrypt = "\<lambda>m r s p. Inr []"
        and decrypt = "\<lambda>m s p. Inr []" and genkeys = "\<lambda>g p md. Inr ()" and fs = Map.empty and tfs = Map.empty]
    by (simp add: default_args_def truthy_def)
qed

end
