(* ===== verification/Spec2Isabelle.thy ===== *)
theory Spec2Isabelle
  imports Session Compare Script
begin

text \<open>
  \<^bold>\<open>A verification library for \<^verbatim>\<open>src/steganographer.py\<close>.\<close>

  The program hides a text message in the least significant bits (LSBs) of an image.
  \<^verbatim>\<open>Steganographer.encode_image\<close> builds a frame (the message length as a 32-bit
  big-endian field, each character as 8 bits, then zero padding up to a multiple of the
  channel count), writes it one bit per channel into the image array, and saves the array
  with PIL; \<^verbatim>\<open>decode_image\<close> reads the LSBs back in the same order, first the
  32-bit length, then that many bytes. Its parts, and the theory that models each:

  \<^descr>[\<open>Prelude\<close>] the Python exceptions as the datatype \<open>py_error\<close>
    (every raise of the source is an \<open>Inl\<close> value, and so are the TypeError and
    AttributeError of an operation on \<open>None\<close>), the types \<open>bits\<close>,
    \<open>pystr\<close> (code-point lists), \<open>pixel\<close> (\<open>8 word\<close> channels of the numpy
    uint8 array), \<open>image\<close> and \<open>py_name\<close> (a \<open>str\<close> or \<open>None\<close>), numpy's checked read \<open>channel_at\<close>, \<open>chr\<close>
    as \<open>py_chr\<close>, \<open>value & 1\<close> as \<open>lsb_of\<close>, and shared lemmas on bit
    extraction and positional sums.
  \<^descr>[\<open>BitCodec\<close>] the static methods of lines 44-173, one definition each with
    the source's name: \<open>int_to_bin_list\<close>, \<open>bin_list_to_int\<close>,
    \<open>char_to_bin_list\<close>, \<open>bin_list_to_char\<close>, \<open>message_to_bin_list\<close>,
    \<open>bin_list_to_message\<close> (its counter-driven loop is
    \<open>bin_list_to_message_loop\<close>) and \<open>set_bit\<close> as \<open>set_bit_py\<close>
    (renamed: \<open>set_bit\<close> is a HOL constant). Lemmas: both round trips, the
    equivalence of the counter loop with decoding in chunks of 8 (\<open>chunks8\<close>,
    \<open>byte_value\<close>), the LSB-only effect of \<open>set_bit(v, 0, x)\<close>, the error
    branches, the bound of the length field, and the loss of code points above 255.
  \<^descr>[\<open>Scan\<close>] the two pixel loops of \<open>encode_image\<close> (lines 340-361) and of
    \<open>decode_image\<close> (lines 385-395). Both loops end by an exception caught by
    \<open>except Exception: pass\<close>; the model makes that exit a value of
    \<open>loop_exit\<close> (\<open>Done\<close> for the code's own \<open>raise Exception("Done!")\<close>,
    \<open>Raised e\<close> for an IndexError or a numpy ValueError) and keeps the image as it was
    at the exit. \<open>encode_colors\<close> is the channel loop with the three-slot
    \<open>__bitList\<close>, \<open>store_pixel\<close> the assignment of that list to the pixel,
    \<open>encode_pixels\<close> the height/width loops over \<open>scan_pixels\<close>, and
    \<open>read_lsbs\<close> the reading loop over \<open>scan_slots\<close>. The abstract views are
    \<open>lsb_stream\<close> (the LSBs in scan order: column-major, channels innermost) and
    \<open>hi_bits\<close> (the image with bit 0 cleared). Lemmas: the encode loop refines
    "the first bits of the LSB stream are replaced by the frame" on a well-formed RGB
    image; it never changes anything but LSBs nor the array's shape; the reading loop
    returns a prefix of the LSB stream.
  \<^descr>[\<open>Engine\<close>] the object: the record \<open>steganographer\<close> has one field per
    attribute of \<open>__init__\<close> (lines 18-41, \<open>steganographer_init\<close>; the file
    names are \<open>py_name\<close>s, since the command line passes unset options as
    \<open>None\<close>), and
    \<open>initialize_image_data\<close>, \<open>save_output_image\<close>, \<open>encode_image\<close> and
    \<open>decode_image\<close> (lines 246-449) return their result with the object after the
    call: Python keeps the attributes assigned before a raise, and so does the model.
    Files are a \<open>filesystem\<close> map from names to decoded images
    (\<open>pil_image\<close>); \<open>Image.open\<close> is a lookup, \<open>Image.fromarray\<close> plus
    \<open>save\<close> is \<open>fromarray\<close> and a map update (PNG is lossless); on \<open>None\<close>
    PIL fails with AttributeError. Lemmas: the
    round trip through one object, capacity, padding, the empty-message
    error, that 4-channel encodings write nothing, that a three-band image with four table
    channels (YCbCr) can never be decoded, and the IndexError of a length field that
    promises more bits than the image holds.
  \<^descr>[\<open>Session\<close>] the object's life as a sequence of calls: \<open>op_step\<close> applies an
    \<open>encode_image\<close> or \<open>decode_image\<close> call (whatever it raises, the caller keeps
    the object as the call left it) or a write of an image file by another process;
    \<open>run_ops\<close> runs a sequence; \<open>reachable\<close> is the inductive set of object and
    file-system pairs produced from a fresh object. Lemmas: the invariant
    \<open>steg_inv\<close> (channel count, mode and capacity agree with the table) by rule
    induction, and that an object holding an image is never re-initialized and only ever
    changes least significant bits, over any interleaving of calls (the spec's
    Uninitialized/Ready machine with Ready terminal), what a repeated
    \<open>decode_image\<close> returns, progress (a fresh object with a supported input image
    becomes Ready at its first call and stays Ready), and that an object broken by an
    unsupported mode fails every later call.
  \<^descr>[\<open>Files\<close>] the text-file helpers (lines 210-244, 450-485): text files are a
    second store \<open>textfs\<close>; \<open>read_message_from_file\<close>,
    \<open>write_message_to_file\<close> (IOError outside a parameter set of writable names),
    \<open>encode_image_from_file\<close> and \<open>decode_image_to_file\<close>. Lemmas: the round
    trip from a message file to an output file, and that both wrappers swallow the IOError
    of their message file.
  \<^descr>[\<open>Envelope\<close>] class \<open>EncryptedSteganographer\<close> (lines 487-589): the
    record \<open>enc_steganographer\<close> holds the base object and the three key attributes;
    \<open>enc_steganographer_init\<close> pops them from the keyword list (\<open>kwargs_pop\<close>,
    KeyError when missing). The envelope functions of module \<open>message\<close> are
    parameters \<open>encrypt\<close> and \<open>decrypt\<close>: the round-trip lemma assumes only that
    \<open>decrypt\<close> inverts \<open>encrypt\<close> on the envelope. Lemmas: the envelope round trip through a saved image and a fresh object, the swallowed
    decoding error, and the command line's \<open>outputfile=\<close> call that can never encode.
  \<^descr>[\<open>Compare\<close>] \<^verbatim>\<open>compare_pixels\<close> (lines 174-208): it opens two
    image files and prints pixel pairs (each index with the two pixels, equal or not), in
    the order of its two loops
    (\<open>compare_order\<close>: height outer, width inner), up to a count, and stops at the
    first IndexError. \<open>compare_pixels\<close> returns the printed pairs as
    \<open>Compared\<close>, or \<open>CompareExit\<close> for the \<open>exit(1)\<close> of a missing
    file; \<open>compare_ref\<close> is the intended comparison over all pixels. Lemmas: on a
    square image the result is the intended one; on a wider-than-tall image the code reads
    \<open>pixels[height][width]\<close> transposed and stops early.
  \<^descr>[\<open>Cli\<close>] the command-line block (lines 591-758) from the parsed arguments on:
    the record \<open>cli_args\<close> has one field per option, \<open>truthy\<close> is Python's
    truth test of an optional string, and \<open>cli_dispatch\<close> follows the chain of
    conditions to \<open>ParserHelp\<close> (\<open>parser.print_help()\<close> and \<open>exit(1)\<close>),
    \<open>ArgsHelp\<close> (\<open>args.print_help()\<close>, which raises AttributeError on the
    \<open>Namespace\<close>), \<open>ErrorExit\<close> or the call it makes (\<open>Run\<close> of a
    \<open>cli_call\<close>). Lemmas: the guards are inverted, so only incomplete arguments reach a
    call; \<open>--comparefiles\<close> is never acted upon.
  \<^descr>[\<open>Script\<close>] the whole main block: \<open>cli_main\<close> runs the dispatch and then the
    chosen call on the object models (\<open>run_call\<close>), with the constructors, the
    \<open>except IOError\<close> and \<open>except KeyError\<close> handlers
    (\<open>except_ioerror\<close>, \<open>except_keyerror\<close>), the printed lines and the exit
    status; \<open>steg.encode_image(None)\<close> is \<open>encode_image_none\<close>. Lemmas: no run
    with \<open>--encode\<close> writes an image; the one decoding command that works
    (\<open>-d -ii image -of file\<close> without \<open>-oi\<close>) writes the message an object
    encoded, and its encrypted counterpart prints the decrypted message; complete arguments
    crash in \<open>args.print_help()\<close>; plain decoding to the terminal always ends in an
    AttributeError; a decoding command
    whose text file cannot be written still reports success with status 0; the
    \<open>except KeyError\<close> handlers are dead code.
  \<^descr>[\<open>Spec2Isabelle\<close>] (this theory) properties that span the object, the codec
    and the file system: the round trip through a saved file and a fresh object, two
    encodings in sequence on one object, and the sequence of calls after an unsupported
    color mode.

  \<^bold>\<open>Bounds.\<close> No fuel is used: every loop of the modelled code is a structural
  recursion over a finite list (the scan order, the bit list), so every definition is total
  and executable, and the claims that a call returns are equations of the call's value.
  Channel values are \<open>8 word\<close> as numpy's uint8; Python's unbounded integers are
  \<open>nat\<close> (all values of the modelled code are non-negative); the 32-bit length field
  keeps the length modulo 2^32, which the lemmas state. \<open>set_bit\<close> on a numpy
  \<open>uint8\<close> with the Python int \<open>~mask\<close> is read with numpy's value-based casting
  (before numpy 2.0), where it acts bitwise on the byte. Which output paths can be
  written is a parameter \<open>wr\<close> of the saving calls: \<open>save_output_image\<close>
  raises IOError on the others, and the round-trip lemmas assume the output path writable.

  \<^bold>\<open>Not modelled.\<close> argparse itself: the command line is modelled from the
  parsed arguments on, and a command-line string is a string of 8-bit characters. Module
  \<open>message\<close> (\<open>CryptoHelper\<close>, \<open>Message\<close>) is not part of the sources and
  enters only as parameters: \<open>encrypt\<close>, \<open>decrypt\<close> and the key generation of
  \<open>--generate\<close>. PIL's decoding and encoding of image files are taken as a lossless
  store, and text files as exact strings. The lines printed inside the methods
  (\<open>save_output_image\<close>, the swallowed IOErrors of the file helpers, the decoding error
  of \<open>decrypt_and_decode_message\<close>) are not recorded; the main block's prints are.
\<close>

section \<open>Properties across the object, the codec and the file system\<close>

text \<open>
  C2. File round trip: on an initialized RGB object whose message fits, \<open>encode_image\<close>
  succeeds and writes the output file, and a fresh \<open>Steganographer(inputFile=...)\<close>
  opened on that file (initialized by \<open>decode_image\<close> itself) decodes the message.
\<close>

theorem encode_file_roundtrip:
  assumes "\<not> unit_shape (image_data st)" and "output_file st = Some out" and "out \<noteq> []"
    and "color_size st = 3"
    and "max_bits_storable st = fst (image_size st) * snd (image_size st) * 3"
    and "wf_image (image_data st) (image_size st) 3"
    and "m \<noteq> []" and "\<forall>c \<in> set m. c < 256" and "length m < 2 ^ 32"
    and "frame_length 3 (length m) < max_bits_storable st" and "wr out"
  shows "\<exists>st' fs'. encode_image wr fs m st = (Inr (), st', fs') \<and>
           fst (decode_image fs' (steganographer_init [(''inputFile'', Some out)])) = Inr m"
proof -
  obtain d rest where enc: "encode_image wr fs m st = (Inr (), st\<lparr>image_data := d\<rparr>, fs(out \<mapsto>
              \<lparr>pil_data = d, pil_mode = ''RGB'', pil_size = image_size st\<rparr>))"
    and d: "wf_image d (image_size st) 3" "\<not> unit_shape d"
      "lsb_stream d (image_size st) 3 = int_to_bin_list (length m) @ message_to_bin_list m @ rest"
    using encode_image_rgb_frame [where wr = wr, OF assms(1-7,10,11)] by blast
  have "fst (decode_image (fs(out \<mapsto> \<lparr>pil_data = d, pil_mode = ''RGB'', pil_size = image_size st\<rparr>))
      (steganographer_init [(''inputFile'', Some out)])) = Inr m"
    using d assms(3,8,9)
    by (intro decode_image_fresh [where rest = rest and f = out]) (simp_all add: steganographer_init_def unit_shape_def)
  with enc show ?thesis by blast
qed

text \<open>
  C19. Two messages encoded one after the other on the same object: the object stays
  initialized, the second \<open>encode_image\<close> embeds into the image the first one produced,
  and decoding returns the second message.
\<close>

theorem encode_twice_last_wins:
  assumes "\<not> unit_shape (image_data st)" and "output_file st = Some out" and "out \<noteq> []"
    and "color_size st = 3"
    and "max_bits_storable st = fst (image_size st) * snd (image_size st) * 3"
    and "wf_image (image_data st) (image_size st) 3"
    and "m1 \<noteq> []" and "frame_length 3 (length m1) < max_bits_storable st"
    and "m2 \<noteq> []" and "\<forall>c \<in> set m2. c < 256" and "length m2 < 2 ^ 32"
    and "frame_length 3 (length m2) < max_bits_storable st" and "wr out"
  shows "\<exists>st1 fs1 st2 fs2. encode_image wr fs m1 st = (Inr (), st1, fs1) \<and>
           encode_image wr fs1 m2 st1 = (Inr (), st2, fs2) \<and> decode_image fs2 st2 = (Inr m2, st2)"
proof -
  obtain d1 rest1 where enc1: "encode_image wr fs m1 st = (Inr (), st\<lparr>image_data := d1\<rparr>, fs(out \<mapsto>
              \<lparr>pil_data = d1, pil_mode = ''RGB'', pil_size = image_size st\<rparr>))"
    and d1: "wf_image d1 (image_size st) 3" "\<not> unit_shape d1"
    using encode_image_rgb_frame [where wr = wr, OF assms(1-8,13)] by blast
  let ?st1 = "st\<lparr>image_data := d1\<rparr>"
  let ?fs1 = "fs(out \<mapsto> \<lparr>pil_data = d1, pil_mode = ''RGB'', pil_size = image_size st\<rparr>)"
  have "\<not> unit_shape (image_data ?st1)" "output_file ?st1 = Some out" "out \<noteq> []" "color_size ?st1 = 3"
    "max_bits_storable ?st1 = fst (image_size ?st1) * snd (image_size ?st1) * 3"
    "wf_image (image_data ?st1) (image_size ?st1) 3"
    "frame_length 3 (length m2) < max_bits_storable ?st1" "wr out"
    using d1 assms(2-5,12,13) by simp_all
  then obtain d2 rest2 where enc2: "encode_image wr ?fs1 m2 ?st1 = (Inr (), ?st1\<lparr>image_data := d2\<rparr>,
       ?fs1(out \<mapsto> \<lparr>pil_data = d2, pil_mode = ''RGB'', pil_size = image_size ?st1\<rparr>))"
    and d2: "wf_image d2 (image_size ?st1) 3" "\<not> unit_shape d2"
      "lsb_stream d2 (image_size ?st1) 3 = int_to_bin_list (length m2) @ message_to_bin_list m2 @ rest2"
    using encode_image_rgb_frame [where st = ?st1 and out = out and m = m2 and wr = wr and fs = ?fs1] assms(9) by blast
  have "decode_image fs2 (?st1\<lparr>image_data := d2\<rparr>) = (Inr m2, ?st1\<lparr>image_data := d2\<rparr>)" for fs2
    using d2 assms(4,10,11) by (intro decode_image_message) simp_all
  with enc1 enc2 show ?thesis by blast
qed

text \<open>
  C20. An unsupported input mode leaves the object broken: the first \<open>encode_image\<close>
  raises the unsupported-model ValueError after storing the image, so the object no longer
  has the fresh (1, 1, 1) shape; a second \<open>encode_image\<close> on the same object skips
  initialization and fails with ZeroDivisionError (\<open>len % 0\<close>) instead of reporting
  the unsupported mode again.
\<close>

theorem unsupported_mode_then_encode:
  assumes "unit_shape (image_data st)" and "color_size st = 0"
    and "input_file st = Some f" and "f \<noteq> []" and "output_file st \<noteq> Some []"
    and "fs f = Some im" and "pil_mode im \<notin> {''RGB'', ''RGBA'', ''CMYK'', ''YCbCr''}"
    and "\<not> unit_shape (pil_data im)" and "m \<noteq> []"
  shows "fst (encode_image wr fs m st) = Inl UnsupportedColorModel \<and>
         fst (encode_image wr fs m (fst (snd (encode_image wr fs m st)))) = Inl ZeroDivisionError"
  using assms
  by (simp add: encode_image_def ensure_initialized_def initialize_image_data_def color_size_of_mode_def
      encode_bit_sequence_def Let_def)

section \<open>Witnesses\<close>

theorem encode_file_roundtrip_witness:
  "\<exists>st' fs'. encode_image (\<lambda>n. True) Map.empty [65]
      \<lparr>input_file = Some ''in.png'', output_file = Some ''out.png'', image_data = replicate 4 (replicate 4 [0, 0, 0]),
       color_mode = ''RGB'', color_size = 3, image_size = (4, 4), max_bits_storable = 48\<rparr> = (Inr (), st', fs') \<and>
    fst (decode_image fs' (steganographer_init [(''inputFile'', Some ''out.png'')])) = Inr [65]"
  using encode_file_roundtrip [where st = "\<lparr>input_file = Some ''in.png'', output_file = Some ''out.png'',
       image_data = replicate 4 (replicate 4 [0, 0, 0]), color_mode = ''RGB'', color_size = 3,
       image_size = (4, 4), max_bits_storable = 48\<rparr>" and m = "[65]" and wr = "\<lambda>n. True"
      and fs = Map.empty and out = "''out.png''"]
  by (simp add: engine_eval wf_image_def)

theorem encode_twice_last_wins_witness:
  "\<exists>st1 fs1 st2 fs2. encode_image (\<lambda>n. True) Map.empty [65]
      \<lparr>input_file = Some ''in.png'', output_file = Some ''out.png'', image_data = replicate 4 (replicate 4 [0, 0, 0]),
       color_mode = ''RGB'', color_size = 3, image_size = (4, 4), max_bits_storable = 48\<rparr> = (Inr (), st1, fs1) \<and>
    encode_image (\<lambda>n. True) fs1 [66] st1 = (Inr (), st2, fs2) \<and> decode_image fs2 st2 = (Inr [66], st2)"
  by (rule encode_twice_last_wins) (simp_all add: engine_eval wf_image_def)+

theorem unsupported_mode_then_encode_witness:
  "fst (encode_image (\<lambda>n. True) (Map.empty(''a.png'' \<mapsto> \<lparr>pil_data = [[[7], [8]]], pil_mode = ''L'', pil_size = (2, 1)\<rparr>)) [65]
          (steganographer_init [(''inputFile'', Some ''a.png''), (''outputFile'', Some ''b.png'')])) = Inl UnsupportedColorModel \<and>
   fst (encode_image (\<lambda>n. True) (Map.empty(''a.png'' \<mapsto> \<lparr>pil_data = [[[7], [8]]], pil_mode = ''L'', pil_size = (2, 1)\<rparr>)) [65]
          (fst (snd (encode_image (\<lambda>n. True) (Map.empty(''a.png'' \<mapsto> \<lparr>pil_data = [[[7], [8]]], pil_mode = ''L'', pil_size = (2, 1)\<rparr>)) [65]
            (steganographer_init [(''inputFile'', Some ''a.png''), (''outputFile'', Some ''b.png'')]))))) = Inl ZeroDivisionError"
  by (rule unsupported_mode_then_encode
      [where f = "''a.png''" and im = "\<lparr>pil_data = [[[7], [8]]], pil_mode = ''L'', pil_size = (2, 1)\<rparr>"])
    (simp_all add: steganographer_init_def unit_shape_def)

end
